theory Spec2Isabelle
  imports Main
begin

section \<open>Text: Python strings as lists of code points\<close>

text \<open>
  A Python \<open>str\<close> is a sequence of Unicode code points, and \<open>len\<close> counts code points.
  The bot's texts are Russian, so a string is modelled as the list of its code points
  (natural numbers); Cyrillic words are written as their code points, with the word named
  in the comment beside them (transliterated).

  The library functions the handlers call on strings (\<open>split\<close>, \<open>strip\<close>, \<open>lower\<close>,
  \<open>isalpha\<close>, \<open>startswith\<close>, \<open>in\<close>, \<open>join\<close>, and \<open>int\<close>) are defined on every string, as
  CPython computes them.
\<close>

type_synonym ustring = "nat list"

definition ustr :: "string \<Rightarrow> ustring" where
  \<comment> \<open>an ASCII literal as a string of code points\<close>
  "ustr s = map of_char s"

subsection \<open>The character tables\<close>

text \<open>
  \<open>str.lower\<close>, \<open>str.isalpha\<close> and \<open>int\<close> read the Unicode character database compiled
  into the interpreter. The tables below are that database at Unicode 14.0 (CPython 3.11),
  in full, over all code points U+0000..U+10FFFF, each as the list of its intervals in
  increasing order:
  \<^item> \<open>alpha_ranges\<close>: the code points of the general categories Lu, Ll, Lt, Lm and Lo,
    those for which \<open>str.isalpha\<close> holds;
  \<^item> \<open>lower_rows\<close>: the code points whose lower case is another single code point. A row
    \<open>(lo, hi, step, target)\<close> stands for the code points \<open>lo\<close>, \<open>lo + step\<close>, ..., up to
    \<open>hi\<close>, mapped to \<open>target\<close>, \<open>target + step\<close>, ...; the code points between two
    steps of a row are their own lower case;
  \<^item> \<open>cased_ranges\<close> and \<open>case_ignorable_ranges\<close>: the properties Cased and Case_Ignorable,
    which decide the lower case of the capital sigma;
  \<^item> \<open>decimal_zeros\<close>: the digit zero of each script; the nine code points after it are
    its digits one to nine.
\<close>

definition alpha_ranges :: "(nat \<times> nat) list" where
  "alpha_ranges =
    [(65, 90), (97, 122), (170, 170), (181, 181), (186, 186), (192, 214), (216, 246),
     (248, 705), (710, 721), (736, 740), (748, 748), (750, 750), (880, 884), (886, 887),
     (890, 893), (895, 895), (902, 902), (904, 906), (908, 908), (910, 929), (931, 1013),
     (1015, 1153), (1162, 1327), (1329, 1366), (1369, 1369), (1376, 1416), (1488, 1514),
     (1519, 1522), (1568, 1610), (1646, 1647), (1649, 1747), (1749, 1749), (1765, 1766),
     (1774, 1775), (1786, 1788), (1791, 1791), (1808, 1808), (1810, 1839), (1869, 1957),
     (1969, 1969), (1994, 2026), (2036, 2037), (2042, 2042), (2048, 2069), (2074, 2074),
     (2084, 2084), (2088, 2088), (2112, 2136), (2144, 2154), (2160, 2183), (2185, 2190),
     (2208, 2249), (2308, 2361), (2365, 2365), (2384, 2384), (2392, 2401), (2417, 2432),
     (2437, 2444), (2447, 2448), (2451, 2472), (2474, 2480), (2482, 2482), (2486, 2489),
     (2493, 2493), (2510, 2510), (2524, 2525), (2527, 2529), (2544, 2545), (2556, 2556),
     (2565, 2570), (2575, 2576), (2579, 2600), (2602, 2608), (2610, 2611), (2613, 2614),
     (2616, 2617), (2649, 2652), (2654, 2654), (2674, 2676), (2693, 2701), (2703, 2705),
     (2707, 2728), (2730, 2736), (2738, 2739), (2741, 2745), (2749, 2749), (2768, 2768),
     (2784, 2785), (2809, 2809), (2821, 2828), (2831, 2832), (2835, 2856), (2858, 2864),
     (2866, 2867), (2869, 2873), (2877, 2877), (2908, 2909), (2911, 2913), (2929, 2929),
     (2947, 2947), (2949, 2954), (2958, 2960), (2962, 2965), (2969, 2970), (2972, 2972),
     (2974, 2975), (2979, 2980), (2984, 2986), (2990, 3001), (3024, 3024), (3077, 3084),
     (3086, 3088), (3090, 3112), (3114, 3129), (3133, 3133), (3160, 3162), (3165, 3165),
     (3168, 3169), (3200, 3200), (3205, 3212), (3214, 3216), (3218, 3240), (3242, 3251),
     (3253, 3257), (3261, 3261), (3293, 3294), (3296, 3297), (3313, 3314), (3332, 3340),
     (3342, 3344), (3346, 3386), (3389, 3389), (3406, 3406), (3412, 3414), (3423, 3425),
     (3450, 3455), (3461, 3478), (3482, 3505), (3507, 3515), (3517, 3517), (3520, 3526),
     (3585, 3632), (3634, 3635), (3648, 3654), (3713, 3714), (3716, 3716), (3718, 3722),
     (3724, 3747), (3749, 3749), (3751, 3760), (3762, 3763), (3773, 3773), (3776, 3780),
     (3782, 3782), (3804, 3807), (3840, 3840), (3904, 3911), (3913, 3948), (3976, 3980),
     (4096, 4138), (4159, 4159), (4176, 4181), (4186, 4189), (4193, 4193), (4197, 4198),
     (4206, 4208), (4213, 4225), (4238, 4238), (4256, 4293), (4295, 4295), (4301, 4301),
     (4304, 4346), (4348, 4680), (4682, 4685), (4688, 4694), (4696, 4696), (4698, 4701),
     (4704, 4744), (4746, 4749), (4752, 4784), (4786, 4789), (4792, 4798), (4800, 4800),
     (4802, 4805), (4808, 4822), (4824, 4880), (4882, 4885), (4888, 4954), (4992, 5007),
     (5024, 5109), (5112, 5117), (5121, 5740), (5743, 5759), (5761, 5786), (5792, 5866),
     (5873, 5880), (5888, 5905), (5919, 5937), (5952, 5969), (5984, 5996), (5998, 6000),
     (6016, 6067), (6103, 6103), (6108, 6108), (6176, 6264), (6272, 6276), (6279, 6312),
     (6314, 6314), (6320, 6389), (6400, 6430), (6480, 6509), (6512, 6516), (6528, 6571),
     (6576, 6601), (6656, 6678), (6688, 6740), (6823, 6823), (6917, 6963), (6981, 6988),
     (7043, 7072), (7086, 7087), (7098, 7141), (7168, 7203), (7245, 7247), (7258, 7293),
     (7296, 7304), (7312, 7354), (7357, 7359), (7401, 7404), (7406, 7411), (7413, 7414),
     (7418, 7418), (7424, 7615), (7680, 7957), (7960, 7965), (7968, 8005), (8008, 8013),
     (8016, 8023), (8025, 8025), (8027, 8027), (8029, 8029), (8031, 8061), (8064, 8116),
     (8118, 8124), (8126, 8126), (8130, 8132), (8134, 8140), (8144, 8147), (8150, 8155),
     (8160, 8172), (8178, 8180), (8182, 8188), (8305, 8305), (8319, 8319), (8336, 8348),
     (8450, 8450), (8455, 8455), (8458, 8467), (8469, 8469), (8473, 8477), (8484, 8484),
     (8486, 8486), (8488, 8488), (8490, 8493), (8495, 8505), (8508, 8511), (8517, 8521),
     (8526, 8526), (8579, 8580), (11264, 11492), (11499, 11502), (11506, 11507), (11520, 11557),
     (11559, 11559), (11565, 11565), (11568, 11623), (11631, 11631), (11648, 11670),
     (11680, 11686), (11688, 11694), (11696, 11702), (11704, 11710), (11712, 11718),
     (11720, 11726), (11728, 11734), (11736, 11742), (11823, 11823), (12293, 12294),
     (12337, 12341), (12347, 12348), (12353, 12438), (12445, 12447), (12449, 12538),
     (12540, 12543), (12549, 12591), (12593, 12686), (12704, 12735), (12784, 12799),
     (13312, 19903), (19968, 42124), (42192, 42237), (42240, 42508), (42512, 42527),
     (42538, 42539), (42560, 42606), (42623, 42653), (42656, 42725), (42775, 42783),
     (42786, 42888), (42891, 42954), (42960, 42961), (42963, 42963), (42965, 42969),
     (42994, 43009), (43011, 43013), (43015, 43018), (43020, 43042), (43072, 43123),
     (43138, 43187), (43250, 43255), (43259, 43259), (43261, 43262), (43274, 43301),
     (43312, 43334), (43360, 43388), (43396, 43442), (43471, 43471), (43488, 43492),
     (43494, 43503), (43514, 43518), (43520, 43560), (43584, 43586), (43588, 43595),
     (43616, 43638), (43642, 43642), (43646, 43695), (43697, 43697), (43701, 43702),
     (43705, 43709), (43712, 43712), (43714, 43714), (43739, 43741), (43744, 43754),
     (43762, 43764), (43777, 43782), (43785, 43790), (43793, 43798), (43808, 43814),
     (43816, 43822), (43824, 43866), (43868, 43881), (43888, 44002), (44032, 55203),
     (55216, 55238), (55243, 55291), (63744, 64109), (64112, 64217), (64256, 64262),
     (64275, 64279), (64285, 64285), (64287, 64296), (64298, 64310), (64312, 64316),
     (64318, 64318), (64320, 64321), (64323, 64324), (64326, 64433), (64467, 64829),
     (64848, 64911), (64914, 64967), (65008, 65019), (65136, 65140), (65142, 65276),
     (65313, 65338), (65345, 65370), (65382, 65470), (65474, 65479), (65482, 65487),
     (65490, 65495), (65498, 65500), (65536, 65547), (65549, 65574), (65576, 65594),
     (65596, 65597), (65599, 65613), (65616, 65629), (65664, 65786), (66176, 66204),
     (66208, 66256), (66304, 66335), (66349, 66368), (66370, 66377), (66384, 66421),
     (66432, 66461), (66464, 66499), (66504, 66511), (66560, 66717), (66736, 66771),
     (66776, 66811), (66816, 66855), (66864, 66915), (66928, 66938), (66940, 66954),
     (66956, 66962), (66964, 66965), (66967, 66977), (66979, 66993), (66995, 67001),
     (67003, 67004), (67072, 67382), (67392, 67413), (67424, 67431), (67456, 67461),
     (67463, 67504), (67506, 67514), (67584, 67589), (67592, 67592), (67594, 67637),
     (67639, 67640), (67644, 67644), (67647, 67669), (67680, 67702), (67712, 67742),
     (67808, 67826), (67828, 67829), (67840, 67861), (67872, 67897), (67968, 68023),
     (68030, 68031), (68096, 68096), (68112, 68115), (68117, 68119), (68121, 68149),
     (68192, 68220), (68224, 68252), (68288, 68295), (68297, 68324), (68352, 68405),
     (68416, 68437), (68448, 68466), (68480, 68497), (68608, 68680), (68736, 68786),
     (68800, 68850), (68864, 68899), (69248, 69289), (69296, 69297), (69376, 69404),
     (69415, 69415), (69424, 69445), (69488, 69505), (69552, 69572), (69600, 69622),
     (69635, 69687), (69745, 69746), (69749, 69749), (69763, 69807), (69840, 69864),
     (69891, 69926), (69956, 69956), (69959, 69959), (69968, 70002), (70006, 70006),
     (70019, 70066), (70081, 70084), (70106, 70106), (70108, 70108), (70144, 70161),
     (70163, 70187), (70272, 70278), (70280, 70280), (70282, 70285), (70287, 70301),
     (70303, 70312), (70320, 70366), (70405, 70412), (70415, 70416), (70419, 70440),
     (70442, 70448), (70450, 70451), (70453, 70457), (70461, 70461), (70480, 70480),
     (70493, 70497), (70656, 70708), (70727, 70730), (70751, 70753), (70784, 70831),
     (70852, 70853), (70855, 70855), (71040, 71086), (71128, 71131), (71168, 71215),
     (71236, 71236), (71296, 71338), (71352, 71352), (71424, 71450), (71488, 71494),
     (71680, 71723), (71840, 71903), (71935, 71942), (71945, 71945), (71948, 71955),
     (71957, 71958), (71960, 71983), (71999, 71999), (72001, 72001), (72096, 72103),
     (72106, 72144), (72161, 72161), (72163, 72163), (72192, 72192), (72203, 72242),
     (72250, 72250), (72272, 72272), (72284, 72329), (72349, 72349), (72368, 72440),
     (72704, 72712), (72714, 72750), (72768, 72768), (72818, 72847), (72960, 72966),
     (72968, 72969), (72971, 73008), (73030, 73030), (73056, 73061), (73063, 73064),
     (73066, 73097), (73112, 73112), (73440, 73458), (73648, 73648), (73728, 74649),
     (74880, 75075), (77712, 77808), (77824, 78894), (82944, 83526), (92160, 92728),
     (92736, 92766), (92784, 92862), (92880, 92909), (92928, 92975), (92992, 92995),
     (93027, 93047), (93053, 93071), (93760, 93823), (93952, 94026), (94032, 94032),
     (94099, 94111), (94176, 94177), (94179, 94179), (94208, 100343), (100352, 101589),
     (101632, 101640), (110576, 110579), (110581, 110587), (110589, 110590), (110592, 110882),
     (110928, 110930), (110948, 110951), (110960, 111355), (113664, 113770), (113776, 113788),
     (113792, 113800), (113808, 113817), (119808, 119892), (119894, 119964), (119966, 119967),
     (119970, 119970), (119973, 119974), (119977, 119980), (119982, 119993), (119995, 119995),
     (119997, 120003), (120005, 120069), (120071, 120074), (120077, 120084), (120086, 120092),
     (120094, 120121), (120123, 120126), (120128, 120132), (120134, 120134), (120138, 120144),
     (120146, 120485), (120488, 120512), (120514, 120538), (120540, 120570), (120572, 120596),
     (120598, 120628), (120630, 120654), (120656, 120686), (120688, 120712), (120714, 120744),
     (120746, 120770), (120772, 120779), (122624, 122654), (123136, 123180), (123191, 123197),
     (123214, 123214), (123536, 123565), (123584, 123627), (124896, 124902), (124904, 124907),
     (124909, 124910), (124912, 124926), (124928, 125124), (125184, 125251), (125259, 125259),
     (126464, 126467), (126469, 126495), (126497, 126498), (126500, 126500), (126503, 126503),
     (126505, 126514), (126516, 126519), (126521, 126521), (126523, 126523), (126530, 126530),
     (126535, 126535), (126537, 126537), (126539, 126539), (126541, 126543), (126545, 126546),
     (126548, 126548), (126551, 126551), (126553, 126553), (126555, 126555), (126557, 126557),
     (126559, 126559), (126561, 126562), (126564, 126564), (126567, 126570), (126572, 126578),
     (126580, 126583), (126585, 126588), (126590, 126590), (126592, 126601), (126603, 126619),
     (126625, 126627), (126629, 126633), (126635, 126651), (131072, 173791), (173824, 177976),
     (177984, 178205), (178208, 183969), (183984, 191456), (194560, 195101), (196608, 201546)]"

definition lower_rows :: "(nat \<times> nat \<times> nat \<times> nat) list" where
  "lower_rows =
    [(65, 90, 1, 97), (192, 214, 1, 224), (216, 222, 1, 248), (256, 302, 2, 257),
     (306, 310, 2, 307), (313, 327, 2, 314), (330, 374, 2, 331), (376, 376, 1, 255),
     (377, 381, 2, 378), (385, 385, 1, 595), (386, 388, 2, 387), (390, 390, 1, 596),
     (391, 391, 1, 392), (393, 394, 1, 598), (395, 395, 1, 396), (398, 398, 1, 477),
     (399, 399, 1, 601), (400, 400, 1, 603), (401, 401, 1, 402), (403, 403, 1, 608),
     (404, 404, 1, 611), (406, 406, 1, 617), (407, 407, 1, 616), (408, 408, 1, 409),
     (412, 412, 1, 623), (413, 413, 1, 626), (415, 415, 1, 629), (416, 420, 2, 417),
     (422, 422, 1, 640), (423, 423, 1, 424), (425, 425, 1, 643), (428, 428, 1, 429),
     (430, 430, 1, 648), (431, 431, 1, 432), (433, 434, 1, 650), (435, 437, 2, 436),
     (439, 439, 1, 658), (440, 440, 1, 441), (444, 444, 1, 445), (452, 452, 1, 454),
     (453, 453, 1, 454), (455, 455, 1, 457), (456, 456, 1, 457), (458, 458, 1, 460),
     (459, 475, 2, 460), (478, 494, 2, 479), (497, 497, 1, 499), (498, 500, 2, 499),
     (502, 502, 1, 405), (503, 503, 1, 447), (504, 542, 2, 505), (544, 544, 1, 414),
     (546, 562, 2, 547), (570, 570, 1, 11365), (571, 571, 1, 572), (573, 573, 1, 410),
     (574, 574, 1, 11366), (577, 577, 1, 578), (579, 579, 1, 384), (580, 580, 1, 649),
     (581, 581, 1, 652), (582, 590, 2, 583), (880, 882, 2, 881), (886, 886, 1, 887),
     (895, 895, 1, 1011), (902, 902, 1, 940), (904, 906, 1, 941), (908, 908, 1, 972),
     (910, 911, 1, 973), (913, 929, 1, 945), (931, 939, 1, 963), (975, 975, 1, 983),
     (984, 1006, 2, 985), (1012, 1012, 1, 952), (1015, 1015, 1, 1016), (1017, 1017, 1, 1010),
     (1018, 1018, 1, 1019), (1021, 1023, 1, 891), (1024, 1039, 1, 1104), (1040, 1071, 1, 1072),
     (1120, 1152, 2, 1121), (1162, 1214, 2, 1163), (1216, 1216, 1, 1231), (1217, 1229, 2, 1218),
     (1232, 1326, 2, 1233), (1329, 1366, 1, 1377), (4256, 4293, 1, 11520),
     (4295, 4295, 1, 11559), (4301, 4301, 1, 11565), (5024, 5103, 1, 43888),
     (5104, 5109, 1, 5112), (7312, 7354, 1, 4304), (7357, 7359, 1, 4349), (7680, 7828, 2, 7681),
     (7838, 7838, 1, 223), (7840, 7934, 2, 7841), (7944, 7951, 1, 7936), (7960, 7965, 1, 7952),
     (7976, 7983, 1, 7968), (7992, 7999, 1, 7984), (8008, 8013, 1, 8000), (8025, 8031, 2, 8017),
     (8040, 8047, 1, 8032), (8072, 8079, 1, 8064), (8088, 8095, 1, 8080), (8104, 8111, 1, 8096),
     (8120, 8121, 1, 8112), (8122, 8123, 1, 8048), (8124, 8124, 1, 8115), (8136, 8139, 1, 8050),
     (8140, 8140, 1, 8131), (8152, 8153, 1, 8144), (8154, 8155, 1, 8054), (8168, 8169, 1, 8160),
     (8170, 8171, 1, 8058), (8172, 8172, 1, 8165), (8184, 8185, 1, 8056), (8186, 8187, 1, 8060),
     (8188, 8188, 1, 8179), (8486, 8486, 1, 969), (8490, 8490, 1, 107), (8491, 8491, 1, 229),
     (8498, 8498, 1, 8526), (8544, 8559, 1, 8560), (8579, 8579, 1, 8580), (9398, 9423, 1, 9424),
     (11264, 11311, 1, 11312), (11360, 11360, 1, 11361), (11362, 11362, 1, 619),
     (11363, 11363, 1, 7549), (11364, 11364, 1, 637), (11367, 11371, 2, 11368),
     (11373, 11373, 1, 593), (11374, 11374, 1, 625), (11375, 11375, 1, 592),
     (11376, 11376, 1, 594), (11378, 11378, 1, 11379), (11381, 11381, 1, 11382),
     (11390, 11391, 1, 575), (11392, 11490, 2, 11393), (11499, 11501, 2, 11500),
     (11506, 11506, 1, 11507), (42560, 42604, 2, 42561), (42624, 42650, 2, 42625),
     (42786, 42798, 2, 42787), (42802, 42862, 2, 42803), (42873, 42875, 2, 42874),
     (42877, 42877, 1, 7545), (42878, 42886, 2, 42879), (42891, 42891, 1, 42892),
     (42893, 42893, 1, 613), (42896, 42898, 2, 42897), (42902, 42920, 2, 42903),
     (42922, 42922, 1, 614), (42923, 42923, 1, 604), (42924, 42924, 1, 609),
     (42925, 42925, 1, 620), (42926, 42926, 1, 618), (42928, 42928, 1, 670),
     (42929, 42929, 1, 647), (42930, 42930, 1, 669), (42931, 42931, 1, 43859),
     (42932, 42946, 2, 42933), (42948, 42948, 1, 42900), (42949, 42949, 1, 642),
     (42950, 42950, 1, 7566), (42951, 42953, 2, 42952), (42960, 42960, 1, 42961),
     (42966, 42968, 2, 42967), (42997, 42997, 1, 42998), (65313, 65338, 1, 65345),
     (66560, 66599, 1, 66600), (66736, 66771, 1, 66776), (66928, 66938, 1, 66967),
     (66940, 66954, 1, 66979), (66956, 66962, 1, 66995), (66964, 66965, 1, 67003),
     (68736, 68786, 1, 68800), (71840, 71871, 1, 71872), (93760, 93791, 1, 93792),
     (125184, 125217, 1, 125218)]"

definition cased_ranges :: "(nat \<times> nat) list" where
  "cased_ranges =
    [(65, 90), (97, 122), (170, 170), (181, 181), (186, 186), (192, 214), (216, 246),
     (248, 442), (444, 447), (452, 659), (661, 696), (704, 705), (736, 740), (837, 837),
     (880, 883), (886, 887), (890, 893), (895, 895), (902, 902), (904, 906), (908, 908),
     (910, 929), (931, 1013), (1015, 1153), (1162, 1327), (1329, 1366), (1376, 1416),
     (4256, 4293), (4295, 4295), (4301, 4301), (4304, 4346), (4349, 4351), (5024, 5109),
     (5112, 5117), (7296, 7304), (7312, 7354), (7357, 7359), (7424, 7615), (7680, 7957),
     (7960, 7965), (7968, 8005), (8008, 8013), (8016, 8023), (8025, 8025), (8027, 8027),
     (8029, 8029), (8031, 8061), (8064, 8116), (8118, 8124), (8126, 8126), (8130, 8132),
     (8134, 8140), (8144, 8147), (8150, 8155), (8160, 8172), (8178, 8180), (8182, 8188),
     (8305, 8305), (8319, 8319), (8336, 8348), (8450, 8450), (8455, 8455), (8458, 8467),
     (8469, 8469), (8473, 8477), (8484, 8484), (8486, 8486), (8488, 8488), (8490, 8493),
     (8495, 8500), (8505, 8505), (8508, 8511), (8517, 8521), (8526, 8526), (8544, 8575),
     (8579, 8580), (9398, 9449), (11264, 11492), (11499, 11502), (11506, 11507), (11520, 11557),
     (11559, 11559), (11565, 11565), (42560, 42605), (42624, 42653), (42786, 42887),
     (42891, 42894), (42896, 42954), (42960, 42961), (42963, 42963), (42965, 42969),
     (42997, 42998), (43000, 43002), (43824, 43866), (43868, 43880), (43888, 43967),
     (64256, 64262), (64275, 64279), (65313, 65338), (65345, 65370), (66560, 66639),
     (66736, 66771), (66776, 66811), (66928, 66938), (66940, 66954), (66956, 66962),
     (66964, 66965), (66967, 66977), (66979, 66993), (66995, 67001), (67003, 67004),
     (67456, 67456), (67459, 67461), (67463, 67504), (67506, 67514), (68736, 68786),
     (68800, 68850), (71840, 71903), (93760, 93823), (119808, 119892), (119894, 119964),
     (119966, 119967), (119970, 119970), (119973, 119974), (119977, 119980), (119982, 119993),
     (119995, 119995), (119997, 120003), (120005, 120069), (120071, 120074), (120077, 120084),
     (120086, 120092), (120094, 120121), (120123, 120126), (120128, 120132), (120134, 120134),
     (120138, 120144), (120146, 120485), (120488, 120512), (120514, 120538), (120540, 120570),
     (120572, 120596), (120598, 120628), (120630, 120654), (120656, 120686), (120688, 120712),
     (120714, 120744), (120746, 120770), (120772, 120779), (122624, 122633), (122635, 122654),
     (125184, 125251), (127280, 127305), (127312, 127337), (127344, 127369)]"

definition case_ignorable_ranges :: "(nat \<times> nat) list" where
  "case_ignorable_ranges =
    [(39, 39), (46, 46), (58, 58), (94, 94), (96, 96), (168, 168), (173, 173), (175, 175),
     (180, 180), (183, 184), (688, 879), (884, 885), (890, 890), (900, 901), (903, 903),
     (1155, 1161), (1369, 1369), (1375, 1375), (1425, 1469), (1471, 1471), (1473, 1474),
     (1476, 1477), (1479, 1479), (1524, 1524), (1536, 1541), (1552, 1562), (1564, 1564),
     (1600, 1600), (1611, 1631), (1648, 1648), (1750, 1757), (1759, 1768), (1770, 1773),
     (1807, 1807), (1809, 1809), (1840, 1866), (1958, 1968), (2027, 2037), (2042, 2042),
     (2045, 2045), (2070, 2093), (2137, 2139), (2184, 2184), (2192, 2193), (2200, 2207),
     (2249, 2306), (2362, 2362), (2364, 2364), (2369, 2376), (2381, 2381), (2385, 2391),
     (2402, 2403), (2417, 2417), (2433, 2433), (2492, 2492), (2497, 2500), (2509, 2509),
     (2530, 2531), (2558, 2558), (2561, 2562), (2620, 2620), (2625, 2626), (2631, 2632),
     (2635, 2637), (2641, 2641), (2672, 2673), (2677, 2677), (2689, 2690), (2748, 2748),
     (2753, 2757), (2759, 2760), (2765, 2765), (2786, 2787), (2810, 2815), (2817, 2817),
     (2876, 2876), (2879, 2879), (2881, 2884), (2893, 2893), (2901, 2902), (2914, 2915),
     (2946, 2946), (3008, 3008), (3021, 3021), (3072, 3072), (3076, 3076), (3132, 3132),
     (3134, 3136), (3142, 3144), (3146, 3149), (3157, 3158), (3170, 3171), (3201, 3201),
     (3260, 3260), (3263, 3263), (3270, 3270), (3276, 3277), (3298, 3299), (3328, 3329),
     (3387, 3388), (3393, 3396), (3405, 3405), (3426, 3427), (3457, 3457), (3530, 3530),
     (3538, 3540), (3542, 3542), (3633, 3633), (3636, 3642), (3654, 3662), (3761, 3761),
     (3764, 3772), (3782, 3782), (3784, 3789), (3864, 3865), (3893, 3893), (3895, 3895),
     (3897, 3897), (3953, 3966), (3968, 3972), (3974, 3975), (3981, 3991), (3993, 4028),
     (4038, 4038), (4141, 4144), (4146, 4151), (4153, 4154), (4157, 4158), (4184, 4185),
     (4190, 4192), (4209, 4212), (4226, 4226), (4229, 4230), (4237, 4237), (4253, 4253),
     (4348, 4348), (4957, 4959), (5906, 5908), (5938, 5939), (5970, 5971), (6002, 6003),
     (6068, 6069), (6071, 6077), (6086, 6086), (6089, 6099), (6103, 6103), (6109, 6109),
     (6155, 6159), (6211, 6211), (6277, 6278), (6313, 6313), (6432, 6434), (6439, 6440),
     (6450, 6450), (6457, 6459), (6679, 6680), (6683, 6683), (6742, 6742), (6744, 6750),
     (6752, 6752), (6754, 6754), (6757, 6764), (6771, 6780), (6783, 6783), (6823, 6823),
     (6832, 6862), (6912, 6915), (6964, 6964), (6966, 6970), (6972, 6972), (6978, 6978),
     (7019, 7027), (7040, 7041), (7074, 7077), (7080, 7081), (7083, 7085), (7142, 7142),
     (7144, 7145), (7149, 7149), (7151, 7153), (7212, 7219), (7222, 7223), (7288, 7293),
     (7376, 7378), (7380, 7392), (7394, 7400), (7405, 7405), (7412, 7412), (7416, 7417),
     (7468, 7530), (7544, 7544), (7579, 7679), (8125, 8125), (8127, 8129), (8141, 8143),
     (8157, 8159), (8173, 8175), (8189, 8190), (8203, 8207), (8216, 8217), (8228, 8228),
     (8231, 8231), (8234, 8238), (8288, 8292), (8294, 8303), (8305, 8305), (8319, 8319),
     (8336, 8348), (8400, 8432), (11388, 11389), (11503, 11505), (11631, 11631), (11647, 11647),
     (11744, 11775), (11823, 11823), (12293, 12293), (12330, 12333), (12337, 12341),
     (12347, 12347), (12441, 12446), (12540, 12542), (40981, 40981), (42232, 42237),
     (42508, 42508), (42607, 42610), (42612, 42621), (42623, 42623), (42652, 42655),
     (42736, 42737), (42752, 42785), (42864, 42864), (42888, 42890), (42994, 42996),
     (43000, 43001), (43010, 43010), (43014, 43014), (43019, 43019), (43045, 43046),
     (43052, 43052), (43204, 43205), (43232, 43249), (43263, 43263), (43302, 43309),
     (43335, 43345), (43392, 43394), (43443, 43443), (43446, 43449), (43452, 43453),
     (43471, 43471), (43493, 43494), (43561, 43566), (43569, 43570), (43573, 43574),
     (43587, 43587), (43596, 43596), (43632, 43632), (43644, 43644), (43696, 43696),
     (43698, 43700), (43703, 43704), (43710, 43711), (43713, 43713), (43741, 43741),
     (43756, 43757), (43763, 43764), (43766, 43766), (43867, 43871), (43881, 43883),
     (44005, 44005), (44008, 44008), (44013, 44013), (64286, 64286), (64434, 64450),
     (65024, 65039), (65043, 65043), (65056, 65071), (65106, 65106), (65109, 65109),
     (65279, 65279), (65287, 65287), (65294, 65294), (65306, 65306), (65342, 65342),
     (65344, 65344), (65392, 65392), (65438, 65439), (65507, 65507), (65529, 65531),
     (66045, 66045), (66272, 66272), (66422, 66426), (67456, 67461), (67463, 67504),
     (67506, 67514), (68097, 68099), (68101, 68102), (68108, 68111), (68152, 68154),
     (68159, 68159), (68325, 68326), (68900, 68903), (69291, 69292), (69446, 69456),
     (69506, 69509), (69633, 69633), (69688, 69702), (69744, 69744), (69747, 69748),
     (69759, 69761), (69811, 69814), (69817, 69818), (69821, 69821), (69826, 69826),
     (69837, 69837), (69888, 69890), (69927, 69931), (69933, 69940), (70003, 70003),
     (70016, 70017), (70070, 70078), (70089, 70092), (70095, 70095), (70191, 70193),
     (70196, 70196), (70198, 70199), (70206, 70206), (70367, 70367), (70371, 70378),
     (70400, 70401), (70459, 70460), (70464, 70464), (70502, 70508), (70512, 70516),
     (70712, 70719), (70722, 70724), (70726, 70726), (70750, 70750), (70835, 70840),
     (70842, 70842), (70847, 70848), (70850, 70851), (71090, 71093), (71100, 71101),
     (71103, 71104), (71132, 71133), (71219, 71226), (71229, 71229), (71231, 71232),
     (71339, 71339), (71341, 71341), (71344, 71349), (71351, 71351), (71453, 71455),
     (71458, 71461), (71463, 71467), (71727, 71735), (71737, 71738), (71995, 71996),
     (71998, 71998), (72003, 72003), (72148, 72151), (72154, 72155), (72160, 72160),
     (72193, 72202), (72243, 72248), (72251, 72254), (72263, 72263), (72273, 72278),
     (72281, 72283), (72330, 72342), (72344, 72345), (72752, 72758), (72760, 72765),
     (72767, 72767), (72850, 72871), (72874, 72880), (72882, 72883), (72885, 72886),
     (73009, 73014), (73018, 73018), (73020, 73021), (73023, 73029), (73031, 73031),
     (73104, 73105), (73109, 73109), (73111, 73111), (73459, 73460), (78896, 78904),
     (92912, 92916), (92976, 92982), (92992, 92995), (94031, 94031), (94095, 94111),
     (94176, 94177), (94179, 94180), (110576, 110579), (110581, 110587), (110589, 110590),
     (113821, 113822), (113824, 113827), (118528, 118573), (118576, 118598), (119143, 119145),
     (119155, 119170), (119173, 119179), (119210, 119213), (119362, 119364), (121344, 121398),
     (121403, 121452), (121461, 121461), (121476, 121476), (121499, 121503), (121505, 121519),
     (122880, 122886), (122888, 122904), (122907, 122913), (122915, 122916), (122918, 122922),
     (123184, 123197), (123566, 123566), (123628, 123631), (125136, 125142), (125252, 125259),
     (127995, 127999), (917505, 917505), (917536, 917631), (917760, 917999)]"

definition decimal_zeros :: "nat list" where
  "decimal_zeros =
    [48, 1632, 1776, 1984, 2406, 2534, 2662, 2790, 2918, 3046, 3174, 3302, 3430, 3558, 3664,
     3792, 3872, 4160, 4240, 6112, 6160, 6470, 6608, 6784, 6800, 6992, 7088, 7232, 7248, 42528,
     43216, 43264, 43472, 43504, 43600, 44016, 65296, 66720, 68912, 69734, 69872, 69942, 70096,
     70384, 70736, 70864, 71248, 71360, 71472, 71904, 72016, 72784, 73040, 73120, 92768, 92864,
     93008, 120782, 120792, 120802, 120812, 120822, 123200, 123632, 125264, 130032]"

subsection \<open>The string functions\<close>

fun in_ranges :: "(nat \<times> nat) list \<Rightarrow> nat \<Rightarrow> bool" where
  \<comment> \<open>membership in a table of intervals in increasing order\<close>
  "in_ranges [] c = False"
| "in_ranges ((lo, hi) # rs) c =
     (if c < lo then False else if c \<le> hi then True else in_ranges rs c)"

fun lower_row :: "(nat \<times> nat \<times> nat \<times> nat) list \<Rightarrow> nat \<Rightarrow> nat" where
  \<comment> \<open>the lower case of a code point by a table of rows in increasing order\<close>
  "lower_row [] c = c"
| "lower_row ((lo, hi, step, target) # rows) c =
     (if c < lo then c
      else if c \<le> hi then (if (c - lo) mod step = 0 then target + (c - lo) else c)
      else lower_row rows c)"

definition lower_cp :: "nat \<Rightarrow> ustring" where
  \<comment> \<open>the lower case of one code point, out of context. U+0130 (capital I with dot above)
      is the one code point whose lower case is two code points, \<open>i\<close> and the combining
      dot above\<close>
  "lower_cp c = (if c = 304 then [105, 775] else [lower_row lower_rows c])"

fun next_cased :: "ustring \<Rightarrow> bool" where
  \<comment> \<open>the first code point that is not case-ignorable exists and is cased\<close>
  "next_cased [] = False"
| "next_cased (c # cs) =
     (if in_ranges case_ignorable_ranges c then next_cased cs else in_ranges cased_ranges c)"

definition final_sigma :: "ustring \<Rightarrow> ustring \<Rightarrow> bool" where
  \<comment> \<open>a capital sigma ends a word: a cased letter comes before it and none after it,
      case-ignorable characters skipped on both sides. \<open>seen\<close> is the text before the
      sigma read backwards, \<open>rest\<close> the text after it\<close>
  "final_sigma seen rest = (next_cased seen \<and> \<not> next_cased rest)"

fun lower_from :: "ustring \<Rightarrow> ustring \<Rightarrow> ustring" where
  \<comment> \<open>the text already read, backwards, and the text still to read\<close>
  "lower_from seen [] = []"
| "lower_from seen (c # cs) =
     (if c = 931 then [if final_sigma seen cs then 962 else 963] else lower_cp c)
     @ lower_from (c # seen) cs"

definition py_lower :: "ustring \<Rightarrow> ustring" where
  \<comment> \<open>\<open>s.lower()\<close>: each code point by the table; the capital sigma U+03A3 becomes the
      final small sigma U+03C2 at the end of a word and the small sigma U+03C3 elsewhere\<close>
  "py_lower s = lower_from [] s"

definition sre_lower :: "nat \<Rightarrow> nat" where
  \<comment> \<open>the simple lower case of a code point, one code point in every case (for U+0130
      the letter \<open>i\<close>): what the regular expression engine compares under \<open>IGNORECASE\<close>\<close>
  "sre_lower c = (if c = 304 then 105 else lower_row lower_rows c)"

definition case_fixes :: "(nat \<times> nat list) list" where
  \<comment> \<open>the rows of the engine's table of further case equivalents (\<open>re._casefix\<close>) for the
      small letters of the bot's patterns: dotless i for i, long s for s, and the
      Cyrillic small letters rounded ve, long-legged de, narrow o, wide es, tall te and
      three-legged te for ve, de, o, es and te\<close>
  "case_fixes =
     [(105, [305]), (115, [383]), (1074, [7296]), (1076, [7297]), (1086, [7298]),
      (1089, [7299]), (1090, [7300, 7301])]"

definition ci_eq :: "nat \<Rightarrow> nat \<Rightarrow> bool" where
  \<comment> \<open>the character \<open>c\<close> of the text stands for the small letter \<open>p\<close> of a pattern compiled
      with \<open>IGNORECASE\<close>: the simple lower case of \<open>c\<close> is \<open>p\<close> or a further equivalent of
      \<open>p\<close>\<close>
  "ci_eq p c =
     (let l = sre_lower c
      in l = p \<or> (case map_of case_fixes p of Some fixes \<Rightarrow> l \<in> set fixes | None \<Rightarrow> False))"

fun starts_ci :: "ustring \<Rightarrow> ustring \<Rightarrow> bool" where
  \<comment> \<open>the word \<open>w\<close> of a pattern compiled with \<open>IGNORECASE\<close> matches at the start of \<open>s\<close>,
      written \<open>starts_ci w s\<close>\<close>
  "starts_ci [] s = True"
| "starts_ci (p # ps) [] = False"
| "starts_ci (p # ps) (c # cs) = (ci_eq p c \<and> starts_ci ps cs)"

definition is_space :: "nat \<Rightarrow> bool" where
  \<comment> \<open>the code points for which \<open>str.isspace\<close> holds: what \<open>split()\<close>, \<open>strip()\<close> and
      the regular expression class \<open>\s\<close> treat as whitespace\<close>
  "is_space c =
     ((9 \<le> c \<and> c \<le> 13) \<or> (28 \<le> c \<and> c \<le> 32) \<or> c = 133 \<or> c = 160 \<or> c = 5760
      \<or> (8192 \<le> c \<and> c \<le> 8202) \<or> c = 8232 \<or> c = 8233 \<or> c = 8239 \<or> c = 8287
      \<or> c = 12288)"

definition is_alpha_cp :: "nat \<Rightarrow> bool" where
  \<comment> \<open>a letter\<close>
  "is_alpha_cp c = in_ranges alpha_ranges c"

definition py_isalpha :: "ustring \<Rightarrow> bool" where
  \<comment> \<open>\<open>s.isalpha()\<close>: non-empty and every character a letter\<close>
  "py_isalpha s = (s \<noteq> [] \<and> list_all is_alpha_cp s)"

fun split_ws :: "ustring \<Rightarrow> ustring \<Rightarrow> ustring list" where
  \<comment> \<open>the token being read, then the text still to read\<close>
  "split_ws cur [] = (if cur = [] then [] else [cur])"
| "split_ws cur (c # cs) =
     (if is_space c then (if cur = [] then split_ws [] cs else cur # split_ws [] cs)
      else split_ws (cur @ [c]) cs)"

definition py_split :: "ustring \<Rightarrow> ustring list" where
  \<comment> \<open>\<open>s.split()\<close>: the maximal runs of non-whitespace\<close>
  "py_split s = split_ws [] s"

fun py_join :: "ustring \<Rightarrow> ustring list \<Rightarrow> ustring" where
  \<comment> \<open>\<open>sep.join(xs)\<close>\<close>
  "py_join sep [] = []"
| "py_join sep [x] = x"
| "py_join sep (x # y # ys) = x @ sep @ py_join sep (y # ys)"

definition py_strip :: "ustring \<Rightarrow> ustring" where
  \<comment> \<open>\<open>s.strip()\<close>\<close>
  "py_strip s = rev (dropWhile is_space (rev (dropWhile is_space s)))"

fun starts_with :: "ustring \<Rightarrow> ustring \<Rightarrow> bool" where
  \<comment> \<open>\<open>s.startswith(p)\<close>, written \<open>starts_with p s\<close>\<close>
  "starts_with [] s = True"
| "starts_with (p # ps) [] = False"
| "starts_with (p # ps) (c # cs) = (p = c \<and> starts_with ps cs)"

fun py_in :: "ustring \<Rightarrow> ustring \<Rightarrow> bool" where
  \<comment> \<open>\<open>p in s\<close> on strings: \<open>p\<close> occurs in \<open>s\<close> as a contiguous piece\<close>
  "py_in p [] = (p = [])"
| "py_in p (c # cs) = (starts_with p (c # cs) \<or> py_in p cs)"

fun digit_of :: "nat list \<Rightarrow> nat \<Rightarrow> nat option" where
  \<comment> \<open>the value of a decimal digit by the table of the zeros, in increasing order\<close>
  "digit_of [] c = None"
| "digit_of (z # zs) c =
     (if c < z then None else if c < z + 10 then Some (c - z) else digit_of zs c)"

definition int_char :: "nat \<Rightarrow> nat" where
  \<comment> \<open>the ASCII character \<open>int\<close> reads for a code point: itself below U+007F, a blank for
      whitespace, the ASCII digit for a decimal digit of any script, and \<open>?\<close> otherwise\<close>
  "int_char c =
     (if c < 127 then c
      else if is_space c then 32
      else case digit_of decimal_zeros c of Some d \<Rightarrow> 48 + d | None \<Rightarrow> 63)"

definition int_blank :: "nat \<Rightarrow> bool" where
  \<comment> \<open>the ASCII whitespace skipped around the number: tab to carriage return, and blank\<close>
  "int_blank c = ((9 \<le> c \<and> c \<le> 13) \<or> c = 32)"

fun int_digits :: "int \<Rightarrow> bool \<Rightarrow> ustring \<Rightarrow> int option" where
  \<comment> \<open>the value read so far, whether the last character was a digit, the rest: decimal
      digits, with single underscores between digits, then whitespace only\<close>
  "int_digits acc ok [] = (if ok then Some acc else None)"
| "int_digits acc ok (c # cs) =
     (if 48 \<le> c \<and> c \<le> 57 then int_digits (10 * acc + int (c - 48)) True cs
      else if c = 95 \<and> ok then int_digits acc False cs
      else if ok \<and> list_all int_blank (c # cs) then Some acc
      else None)"

definition py_int :: "ustring \<Rightarrow> int option" where
  \<comment> \<open>\<open>int(s)\<close>; \<open>None\<close> is the \<open>ValueError\<close>. Whitespace around the number is skipped, a
      sign may come first, and a text of more than 4300 digits is refused (the
      interpreter's limit on the conversion)\<close>
  "py_int s =
     (let t = dropWhile int_blank (map int_char s)
      in if length (filter (\<lambda>c. 48 \<le> c \<and> c \<le> 57) t) > 4300 then None
         else
           (case t of
              [] \<Rightarrow> None
            | c # cs \<Rightarrow>
                if c = 43 then int_digits 0 False cs
                else if c = 45 then map_option uminus (int_digits 0 False cs)
                else int_digits 0 False (c # cs)))"

definition choice :: "'a list \<Rightarrow> nat \<Rightarrow> 'a" where
  \<comment> \<open>\<open>random.choice(xs)\<close> on a non-empty list; the random draw is the argument \<open>rnd\<close>\<close>
  "choice xs rnd = xs ! (rnd mod length xs)"

section \<open>Data model\<close>

datatype error = IndexError | KeyError | ValueError | AttributeError | NameError | DataError
  \<comment> \<open>the exceptions the handlers raise; \<open>DataError\<close> is the database driver's
      (\<open>asyncpg.exceptions.DataError\<close>), the others are built in\<close>

datatype BotMood = NEUTRAL | HAPPY | ANGRY | FLIRTY | SAD | SARCASTIC

datatype GameType = CITIES | HANGMAN | GUESS_NUMBER | QUIZ | RIDDLE

text \<open>
  The dictionaries stored in \<open>active_games\<close>. The source stores an untyped dict per
  session; each handler writes one shape only, one constructor here.
\<close>

datatype game =
    CitiesGame ustring "ustring list" bool
      \<comment> \<open>\<open>{'last_city': ..., 'used_cities': [...], 'player_turn': ...}\<close>\<close>
  | HangmanGame ustring "ustring list" int "ustring list"
      \<comment> \<open>\<open>{'word': ..., 'guessed': [...], 'attempts': ..., 'used_letters': [...]}\<close>\<close>
  | GuessGame int int
      \<comment> \<open>\<open>{'number': ..., 'attempts': ...}\<close>\<close>
  | RiddleGame ustring ustring
      \<comment> \<open>\<open>{'question': ..., 'answer': ...}\<close>\<close>

record user =
  name :: ustring
  username :: "ustring option"
  first_seen :: nat
  message_count :: int
  last_active :: nat

record stats_t =
  total_messages :: int
  unique_users :: int
  games_played :: int
  commands_used :: "ustring \<rightharpoonup> int"

text \<open>
  The bot object: the fields of \<open>IsidaTelegramBot\<close> that the engine reads and writes.
  \<open>user_data\<close> is keyed by \<open>str(user_id)\<close> and \<open>active_games\<close> by
  \<open>f"{user_id}_cities"\<close>, \<open>f"{user_id}_hangman"\<close>, \<open>f"{user_id}_guess"\<close>,
  \<open>f"{user_id}_riddle"\<close>; the decimal text of an integer determines the integer, so the keys
  are modelled as the user id and as the pair of the user id and the game kind whose
  value is the suffix.
\<close>

record bot =
  admin_ids :: "int list"
  learned_responses :: "ustring \<rightharpoonup> ustring list"
  user_data :: "int \<rightharpoonup> user"
  stats :: stats_t
  active_games :: "(int \<times> GameType) \<rightharpoonup> game"
  conversation_history :: "int \<Rightarrow> ustring list"
  current_mood :: BotMood

record message =
  from_user_id :: int
  from_full_name :: ustring
  from_username :: "ustring option"
  msg_text :: ustring

definition init_bot :: "int list \<Rightarrow> bot" where
  \<comment> \<open>\<open>__init__\<close>: empty dictionaries, zero counters, neutral mood\<close>
  "init_bot admins =
     \<lparr> admin_ids = admins,
       learned_responses = Map.empty,
       user_data = Map.empty,
       stats = \<lparr> total_messages = 0, unique_users = 0, games_played = 0,
                 commands_used = Map.empty \<rparr>,
       active_games = Map.empty,
       conversation_history = (\<lambda>_. []),
       current_mood = NEUTRAL \<rparr>"

text \<open>
  A reply: each constructor stands for one message template of the source, its
  arguments are the values the template interpolates (before the template's own
  \<open>upper()\<close> or \<open>capitalize()\<close>). Where the source picks the fixed wording at random,
  the constructor carries the index picked.
\<close>

datatype affect = Happy | Sad | Angry | Love | Neutral
  \<comment> \<open>the categories of \<open>_generate_random_response\<close>: 'happy', 'sad', 'angry', 'love',
      'neutral'\<close>

datatype hint = Bolshe | Menshe
  \<comment> \<open>the words "bolshe" (my number is greater) and "menshe" (my number is smaller)\<close>

datatype reply =
    CityUsed
      \<comment> \<open>"Etot gorod uzhe byl! Poprobuy drugoy."\<close>
  | CityWrongLetter ustring
      \<comment> \<open>"Gorod dolzhen nachinatsya na bukvu '{last_city[-1].upper()}'!", the letter\<close>
  | CityAccepted ustring ustring
      \<comment> \<open>"Otlichno! Tvoy gorod: {user_city} Moy gorod: {next_city.capitalize()}
          Tebe na bukvu '{next_city[-1].upper()}'!"\<close>
  | CityPlayerWins ustring
      \<comment> \<open>"Tvoy gorod: {user_city} Ya ne mogu pridumat gorod... Pozdravlyayu, ty vyigral!"\<close>
  | CityStart ustring
      \<comment> \<open>"Igra v goroda nachata! Ya nachinayu: {first_city.capitalize()}
          Tebe na bukvu '{first_city[-1].upper()}'!"\<close>
  | HangmanNotLetter
      \<comment> \<open>"Pozhaluysta, vvedite odnu bukvu!"\<close>
  | HangmanRepeated ustring
      \<comment> \<open>"Bukva '{letter}' uzhe byla!"\<close>
  | HangmanWin ustring
      \<comment> \<open>"Pozdravlyayu! Ty vyigral! Slovo: {word}"\<close>
  | HangmanLoss ustring
      \<comment> \<open>"Igra okonchena! Ty proigral! Zagadannoe slovo: {word}"\<close>
  | HangmanTurn ustring "ustring list" int
      \<comment> \<open>"Viselitsa {hangman_pic} Slovo: {' '.join(guessed)} Ostalos popytok: {attempts}"\<close>
  | HangmanStart ustring nat "ustring list"
      \<comment> \<open>"Igra v viselitsu nachata! {hangman_pic} Zagadano slovo iz {len(word)} bukv:
          {' '.join(guessed)}"\<close>
  | GuessNotNumber
      \<comment> \<open>"Pozhaluysta, vvedite chislo!"\<close>
  | GuessWin int int
      \<comment> \<open>"Pozdravlyayu! Ty ugadal! Zagadannoe chislo: {number} Popytok: {attempts}"\<close>
  | GuessHint hint int
      \<comment> \<open>"Moyo chislo {hint}! Popytka #{attempts}. Prodolzhay!"\<close>
  | GuessStart
      \<comment> \<open>"Igra 'Ugaday chislo' nachata! Ya zagadala chislo ot 1 do 100."\<close>
  | RiddleCorrect ustring ustring
      \<comment> \<open>"Pravilno! Zagadka: {game['question']} Otvet: {correct_answer}"\<close>
  | RiddleWrong ustring
      \<comment> \<open>"Nepravilno! Podskazka: {hint}"\<close>
  | RiddleStart ustring
      \<comment> \<open>"Zagadka: {riddle['question']} Otprav otvet! U tebya odna popytka."\<close>
  | LearnTooShort
      \<comment> \<open>"Slishkom korotkie vopros ili otvet!"\<close>
  | LearnTooLong
      \<comment> \<open>"Slishkom dlinnye vopros ili otvet!"\<close>
  | LearnAck nat ustring ustring
      \<comment> \<open>"{random.choice(responses)} Teper na vopros {question} ya budu otvechat: {answer}"\<close>
  | LearnBadFormat
      \<comment> \<open>"Nepravilnyy format! Ispolzuy: uchis vopros -> otvet"\<close>
  | AdminDenied
      \<comment> \<open>"U tebya net prav administratora!"\<close>
  | SetMoodUsage
      \<comment> \<open>"Ispolzovanie: /set_mood [nastroenie] Dostupnye: neutral, happy, ..."\<close>
  | MoodChanged BotMood
      \<comment> \<open>"Nastroenie Izidy izmeneno na {mood_names[mood]}!", sent as an answer\<close>
  | MoodUnknown ustring
      \<comment> \<open>"Neizvestnoe nastroenie: {mood_str} Dostupnye: neutral, happy, ..."\<close>
  | LearnedReply ustring BotMood nat
      \<comment> \<open>"{response} {mood_response}": a taught answer, and the aside picked among the five
          of the current mood\<close>
  | PatternReply nat nat
      \<comment> \<open>the candidate picked (second number) of the pattern that matched (first number,
          in the order of \<open>_init_response_patterns\<close>)\<close>
  | RandomReply affect "nat option" nat
      \<comment> \<open>the reply picked (last number) in the category, with the term of endearment
          picked, if one was added\<close>
  | ContextThanks nat
      \<comment> \<open>one of "Spasibo, chto sprosil!", "A ty kak dumaesh?" (thinking face)\<close>
  | ContextQuestion nat
      \<comment> \<open>one of "Interesnyy vopros! Day podumat...", "A ty kak dumaesh?" (raised eyebrow)\<close>

definition games_played_incr :: "bot \<Rightarrow> bot" where
  \<comment> \<open>\<open>self.stats["games_played"] += 1\<close>\<close>
  "games_played_incr b = b\<lparr>stats := (stats b)\<lparr>games_played := games_played (stats b) + 1\<rparr>\<rparr>"

section \<open>Riddle\<close>

definition riddles :: "(ustring \<times> ustring) list" where
  \<comment> \<open>\<open>_load_riddles\<close>: (question, answer); the answers are lampochka, el, luk, zamok,
      nozhnitsy\<close>
  "riddles =
   [([1042, 1080, 1089, 1080, 1090, 32, 1075, 1088, 1091, 1096, 1072, 32, 8212, 32, 1085,
      1077, 1083, 1100, 1079, 1103, 32, 1089, 1082, 1091, 1096, 1072, 1090, 1100, 46, 32,
      1063, 1090, 1086, 32, 1101, 1090, 1086, 63],
     [1083, 1072, 1084, 1087, 1086, 1095, 1082, 1072]),
    ([1047, 1080, 1084, 1086, 1081, 32, 1080, 32, 1083, 1077, 1090, 1086, 1084, 32, 1086,
      1076, 1085, 1080, 1084, 32, 1094, 1074, 1077, 1090, 1086, 1084, 63],
     [1077, 1083, 1100]),
    ([1057, 1080, 1076, 1080, 1090, 32, 1076, 1077, 1076, 32, 1074, 1086, 32, 1089, 1090,
      1086, 32, 1096, 1091, 1073, 32, 1086, 1076, 1077, 1090, 46, 32, 1050, 1090, 1086, 32,
      1077, 1075, 1086, 32, 1088, 1072, 1079, 1076, 1077, 1074, 1072, 1077, 1090, 44, 32,
      1090, 1086, 1090, 32, 1089, 1083, 1077, 1079, 1099, 32, 1087, 1088, 1086, 1083, 1080,
      1074, 1072, 1077, 1090, 63],
     [1083, 1091, 1082]),
    ([1053, 1077, 32, 1083, 1072, 1077, 1090, 44, 32, 1085, 1077, 32, 1082, 1091, 1089,
      1072, 1077, 1090, 44, 32, 1072, 32, 1074, 32, 1076, 1086, 1084, 32, 1085, 1077, 32,
      1087, 1091, 1089, 1082, 1072, 1077, 1090, 63],
     [1079, 1072, 1084, 1086, 1082]),
    ([1044, 1074, 1072, 32, 1082, 1086, 1085, 1094, 1072, 44, 32, 1076, 1074, 1072, 32,
      1082, 1086, 1083, 1100, 1094, 1072, 44, 32, 1087, 1086, 1089, 1077, 1088, 1077, 1076,
      1080, 1085, 1077, 32, 1075, 1074, 1086, 1079, 1076, 1080, 1082, 63],
     [1085, 1086, 1078, 1085, 1080, 1094, 1099])]"

definition riddle_new :: "bot \<Rightarrow> int \<times> GameType \<Rightarrow> nat \<Rightarrow> bot \<times> (error + reply)" where
  \<comment> \<open>the tail of \<open>cmd_game_riddle\<close>: a new riddle is drawn and stored, the counter counts it\<close>
  "riddle_new b game_id rnd =
     (let riddle = choice riddles rnd;
          b1 = b\<lparr>active_games := (active_games b)(game_id \<mapsto> RiddleGame (fst riddle) (snd riddle))\<rparr>
      in (games_played_incr b1, Inr (RiddleStart (fst riddle))))"

definition cmd_game_riddle :: "bot \<Rightarrow> message \<Rightarrow> nat \<Rightarrow> bot \<times> (error + reply)" where
  "cmd_game_riddle b m rnd =
     (let game_id = (from_user_id m, RIDDLE);
          toks = py_split (msg_text m)
      in case active_games b game_id of
           None \<Rightarrow> riddle_new b game_id rnd
         | Some game \<Rightarrow>
             (let user_answer = (if length toks > 1 then py_join [32] (tl toks) else [])
              in if user_answer \<noteq> [] then
                   (case game of
                      RiddleGame q correct_answer \<Rightarrow>
                        if py_lower user_answer = py_lower correct_answer then
                          (b\<lparr>active_games := (active_games b)(game_id := None)\<rparr>,
                           Inr (RiddleCorrect q correct_answer))
                        else
                          (case correct_answer of
                             [] \<Rightarrow> (b, Inl IndexError)
                           | c # _ \<Rightarrow>
                               (b, Inr (RiddleWrong
                                  (c # replicate (length correct_answer - 1) 42))))
                    | _ \<Rightarrow> (b, Inl KeyError))
                 else riddle_new b game_id rnd))"

section \<open>Guess the number\<close>

definition guess_new :: "bot \<Rightarrow> int \<times> GameType \<Rightarrow> nat \<Rightarrow> bot \<times> (error + reply)" where
  \<comment> \<open>the tail of \<open>cmd_game_guess\<close>: \<open>random.randint(1, 100)\<close> is \<open>1 + rnd mod 100\<close>\<close>
  "guess_new b game_id rnd =
     (let number = 1 + int (rnd mod 100);
          b1 = b\<lparr>active_games := (active_games b)(game_id \<mapsto> GuessGame number 0)\<rparr>
      in (games_played_incr b1, Inr GuessStart))"

definition cmd_game_guess :: "bot \<Rightarrow> message \<Rightarrow> nat \<Rightarrow> bot \<times> (error + reply)" where
  "cmd_game_guess b m rnd =
     (let game_id = (from_user_id m, GUESS_NUMBER);
          toks = py_split (msg_text m)
      in case active_games b game_id of
           None \<Rightarrow> guess_new b game_id rnd
         | Some game \<Rightarrow>
             if length toks > 1 then
               (case py_int (toks ! 1) of
                  None \<Rightarrow> (b, Inr GuessNotNumber)
                | Some guess \<Rightarrow>
                    (case game of
                       GuessGame number old_attempts \<Rightarrow>
                         (let attempts = old_attempts + 1
                          in if guess = number then
                               (b\<lparr>active_games := (active_games b)(game_id := None)\<rparr>,
                                Inr (GuessWin number attempts))
                             else
                               (b\<lparr>active_games :=
                                    (active_games b)(game_id \<mapsto> GuessGame number attempts)\<rparr>,
                                Inr (GuessHint (if guess < number then Bolshe else Menshe)
                                       attempts)))
                     | _ \<Rightarrow> (b, Inl KeyError)))
             else guess_new b game_id rnd)"

section \<open>Mood\<close>

definition BotMood_of :: "ustring \<Rightarrow> BotMood option" where
  \<comment> \<open>\<open>BotMood(mood_str)\<close>: the member with that value; \<open>None\<close> is the \<open>ValueError\<close>\<close>
  "BotMood_of s =
     (if s = ustr ''neutral'' then Some NEUTRAL
      else if s = ustr ''happy'' then Some HAPPY
      else if s = ustr ''angry'' then Some ANGRY
      else if s = ustr ''flirty'' then Some FLIRTY
      else if s = ustr ''sad'' then Some SAD
      else if s = ustr ''sarcastic'' then Some SARCASTIC
      else None)"

definition cmd_admin_set_mood :: "bot \<Rightarrow> message \<Rightarrow> bot \<times> (error + reply)" where
  "cmd_admin_set_mood b m =
     (let user_id = from_user_id m;
          toks = py_split (msg_text m)
      in if user_id \<notin> set (admin_ids b) then (b, Inr AdminDenied)
         else
           (let args = (if length toks > 1 then tl toks else [])
            in case args of
                 [] \<Rightarrow> (b, Inr SetMoodUsage)
               | arg0 # _ \<Rightarrow>
                   (let mood_str = py_lower arg0
                    in case BotMood_of mood_str of
                         Some mood \<Rightarrow> (b\<lparr>current_mood := mood\<rparr>, Inr (MoodChanged mood))
                       | None \<Rightarrow> (b, Inr (MoodUnknown mood_str)))))"


section \<open>Hangman\<close>

definition py_get :: "'a list \<Rightarrow> int \<Rightarrow> error + 'a" where
  \<comment> \<open>\<open>xs[i]\<close>: from the front for \<open>0 <= i < len(xs)\<close>, from the back for
      \<open>-len(xs) <= i < 0\<close>, and \<open>IndexError\<close> elsewhere\<close>
  "py_get xs i =
     (if 0 \<le> i \<and> i < int (length xs) then Inr (xs ! nat i)
      else if i < 0 \<and> - int (length xs) \<le> i then Inr (xs ! nat (int (length xs) + i))
      else Inl IndexError)"

definition stages :: "ustring list" where
  \<comment> \<open>the pictures of \<open>_draw_hangman\<close>: the empty gallows, and the gallows with a head\<close>
  "stages =
     [py_join [10] (map ustr [''------'', ''|    |'', ''|'', ''|'', ''|'', ''|'', ''--------'']),
      py_join [10] (map ustr [''------'', ''|    |'', ''|    O'', ''|'', ''|'', ''|'', ''--------''])]"

definition draw_hangman :: "int \<Rightarrow> error + ustring" where
  \<comment> \<open>\<open>_draw_hangman(attempts)\<close>: \<open>stages[6 - attempts]\<close>\<close>
  "draw_hangman attempts = py_get stages (6 - attempts)"

definition words :: "ustring list" where
  \<comment> \<open>programma, kompyuter, izida\<close>
  "words =
     [[1087, 1088, 1086, 1075, 1088, 1072, 1084, 1084, 1072],
      [1082, 1086, 1084, 1087, 1100, 1102, 1090, 1077, 1088],
      [1080, 1079, 1080, 1076, 1072]]"

fun reveal :: "ustring \<Rightarrow> ustring \<Rightarrow> nat \<Rightarrow> ustring list \<Rightarrow> ustring list \<times> bool" where
  \<comment> \<open>the loop \<open>for i, char in enumerate(word): if char == letter: guessed[i] = letter\<close>,
      from index \<open>i\<close> on, over the rest of the word. The list is updated in place; the flag is
      false when an assignment was out of range (\<open>IndexError\<close>), and the list is then as the
      loop left it\<close>
  "reveal [] letter i guessed = (guessed, True)"
| "reveal (char # rest) letter i guessed =
     (if [char] = letter then
        (if i < length guessed then reveal rest letter (Suc i) (guessed[i := letter])
         else (guessed, False))
      else reveal rest letter (Suc i) guessed)"

definition set_add :: "'a \<Rightarrow> 'a list \<Rightarrow> 'a list" where
  \<comment> \<open>\<open>s = set(xs); s.add(x); list(s)\<close>: the elements of \<open>xs\<close> and \<open>x\<close>, each once. Python does
      not fix the order of the result; the model keeps the order of first occurrence\<close>
  "set_add x xs = (if x \<in> set xs then remdups xs else remdups xs @ [x])"

definition hangman_new :: "bot \<Rightarrow> int \<times> GameType \<Rightarrow> nat \<Rightarrow> bot \<times> (error + reply)" where
  \<comment> \<open>the tail of \<open>cmd_game_hangman\<close>: a new word, all blanks, six attempts; the session is
      stored before the picture is drawn, the counter counts after the reply\<close>
  "hangman_new b game_id rnd =
     (let word = choice words rnd;
          guessed = replicate (length word) [95];
          attempts = 6;
          b1 = b\<lparr>active_games :=
                 (active_games b)(game_id \<mapsto> HangmanGame word guessed attempts [])\<rparr>
      in case draw_hangman attempts of
           Inl e \<Rightarrow> (b1, Inl e)
         | Inr hangman_pic \<Rightarrow>
             (games_played_incr b1, Inr (HangmanStart hangman_pic (length word) guessed)))"

definition hangman_finish ::
  "bot \<Rightarrow> int \<times> GameType \<Rightarrow> ustring \<Rightarrow> ustring list \<Rightarrow> int \<Rightarrow> ustring list
     \<Rightarrow> bot \<times> (error + reply)" where
  \<comment> \<open>\<open>cmd_game_hangman\<close> after the hit or the miss: win, loss, or the next turn. On the next
      turn the session is stored first and the picture drawn after, so a picture that
      cannot be drawn leaves the stored session and no reply\<close>
  "hangman_finish b game_id word guessed attempts used_letters =
     (if [95] \<notin> set guessed then
        (b\<lparr>active_games := (active_games b)(game_id := None)\<rparr>, Inr (HangmanWin word))
      else if attempts \<le> 0 then
        (b\<lparr>active_games := (active_games b)(game_id := None)\<rparr>, Inr (HangmanLoss word))
      else
        (let b1 = b\<lparr>active_games := (active_games b)
                     (game_id \<mapsto> HangmanGame word guessed attempts used_letters)\<rparr>
         in case draw_hangman attempts of
              Inl e \<Rightarrow> (b1, Inl e)
            | Inr hangman_pic \<Rightarrow> (b1, Inr (HangmanTurn hangman_pic guessed attempts))))"

definition cmd_game_hangman :: "bot \<Rightarrow> message \<Rightarrow> nat \<Rightarrow> bot \<times> (error + reply)" where
  "cmd_game_hangman b m rnd =
     (let game_id = (from_user_id m, HANGMAN);
          toks = py_split (msg_text m)
      in case active_games b game_id of
           None \<Rightarrow> hangman_new b game_id rnd
         | Some game \<Rightarrow>
             if length toks > 1 then
               (let letter = py_lower (toks ! 1)
                in if length letter \<noteq> 1 \<or> \<not> py_isalpha letter then (b, Inr HangmanNotLetter)
                   else
                     (case game of
                        HangmanGame word guessed attempts used \<Rightarrow>
                          if letter \<in> set used then (b, Inr (HangmanRepeated letter))
                          else
                            (let used_letters = set_add letter used
                             in if py_in letter word then
                                  (let (guessed1, in_range) = reveal word letter 0 guessed
                                   in if in_range then
                                        hangman_finish b game_id word guessed1 attempts
                                          used_letters
                                      else
                                        (b\<lparr>active_games := (active_games b)
                                             (game_id \<mapsto>
                                                HangmanGame word guessed1 attempts used)\<rparr>,
                                         Inl IndexError))
                                else
                                  hangman_finish b game_id word guessed (attempts - 1) used_letters)
                      | _ \<Rightarrow> (b, Inl KeyError)))
             else hangman_new b game_id rnd)"

definition hangman_ok :: "game option \<Rightarrow> bool" where
  \<comment> \<open>what holds of every stored hangman session: as many blanks as letters, between one
      and six attempts left, a blank still open\<close>
  "hangman_ok g =
     (case g of
        None \<Rightarrow> True
      | Some (HangmanGame word guessed attempts used) \<Rightarrow>
          length guessed = length word \<and> 1 \<le> attempts \<and> attempts \<le> 6 \<and> [95] \<in> set guessed
      | Some _ \<Rightarrow> False)"

section \<open>Cities\<close>

definition cities_db :: "(ustring \<times> ustring list) list" where
  \<comment> \<open>the dictionary of \<open>_find_city\<close>: under the letter a, arkhangelsk and astrakhan; under
      the letter m, moskva and murmansk\<close>
  "cities_db =
     [([1072],
       [[1072, 1088, 1093, 1072, 1085, 1075, 1077, 1083, 1100, 1089, 1082],
        [1072, 1089, 1090, 1088, 1072, 1093, 1072, 1085, 1100]]),
      ([1084],
       [[1084, 1086, 1089, 1082, 1074, 1072],
        [1084, 1091, 1088, 1084, 1072, 1085, 1089, 1082]])]"

definition find_city :: "ustring \<Rightarrow> ustring list \<Rightarrow> ustring option" where
  \<comment> \<open>\<open>_find_city(letter, used_cities)\<close>: the first city listed under the letter that is not
      used\<close>
  "find_city letter used_cities =
     (case map_of cities_db letter of
        Some cities \<Rightarrow> find (\<lambda>city. city \<notin> set used_cities) cities
      | None \<Rightarrow> None)"

definition first_cities :: "ustring list" where
  \<comment> \<open>moskva, astana\<close>
  "first_cities =
     [[1084, 1086, 1089, 1082, 1074, 1072], [1072, 1089, 1090, 1072, 1085, 1072]]"

definition cities_new :: "bot \<Rightarrow> int \<times> GameType \<Rightarrow> nat \<Rightarrow> bot \<times> (error + reply)" where
  \<comment> \<open>the tail of \<open>cmd_game_cities\<close>: the bot opens with one of its two first cities\<close>
  "cities_new b game_id rnd =
     (let first_city = choice first_cities rnd;
          b1 = b\<lparr>active_games :=
                 (active_games b)(game_id \<mapsto> CitiesGame first_city [first_city] True)\<rparr>
      in (games_played_incr b1, Inr (CityStart first_city)))"

definition game_last_city :: "game \<Rightarrow> ustring" where
  \<comment> \<open>\<open>game.get('last_city', '')\<close>\<close>
  "game_last_city g = (case g of CitiesGame last_city used turn \<Rightarrow> last_city | _ \<Rightarrow> [])"

definition game_used_cities :: "game \<Rightarrow> ustring list" where
  \<comment> \<open>\<open>game.get('used_cities', [])\<close>\<close>
  "game_used_cities g = (case g of CitiesGame last_city used turn \<Rightarrow> used | _ \<Rightarrow> [])"

definition cmd_game_cities :: "bot \<Rightarrow> message \<Rightarrow> nat \<Rightarrow> bot \<times> (error + reply)" where
  "cmd_game_cities b m rnd =
     (let game_id = (from_user_id m, CITIES);
          toks = py_split (msg_text m)
      in case active_games b game_id of
           None \<Rightarrow> cities_new b game_id rnd
         | Some game \<Rightarrow>
             (let user_city = (if length toks > 1 then toks ! 1 else [])
              in if user_city \<noteq> [] then
                   (let user_city_lower = py_lower user_city;
                        last_city = game_last_city game;
                        used_cities = remdups (game_used_cities game)
                    in if user_city_lower \<in> set used_cities then (b, Inr CityUsed)
                       else
                         (case user_city_lower of
                            [] \<Rightarrow> (b, Inl IndexError)
                          | first_letter # _ \<Rightarrow>
                              if last_city \<noteq> [] \<and> first_letter \<noteq> last last_city then
                                (b, Inr (CityWrongLetter [last last_city]))
                              else
                                (let used1 = set_add user_city_lower used_cities
                                 in case find_city [last user_city_lower] used1 of
                                      Some next_city \<Rightarrow>
                                        (b\<lparr>active_games := (active_games b)
                                            (game_id \<mapsto>
                                               CitiesGame next_city (set_add next_city used1) False)\<rparr>,
                                         Inr (CityAccepted user_city next_city))
                                    | None \<Rightarrow>
                                        (b\<lparr>active_games := (active_games b)(game_id := None)\<rparr>,
                                         Inr (CityPlayerWins user_city)))))
                 else cities_new b game_id rnd))"

definition cities_ok :: "game option \<Rightarrow> bool" where
  \<comment> \<open>what holds of every stored cities session: the used cities are listed once each, and
      the last city is one of them and has a last letter\<close>
  "cities_ok g =
     (case g of
        None \<Rightarrow> True
      | Some (CitiesGame last_city used turn) \<Rightarrow>
          distinct used \<and> last_city \<in> set used \<and> last_city \<noteq> []
      | Some _ \<Rightarrow> False)"

fun cities_run :: "bot \<Rightarrow> (message \<times> nat) list \<Rightarrow> bot" where
  \<comment> \<open>the bot after a sequence of \<open>/cities\<close> commands, each with its random draw\<close>
  "cities_run b [] = b"
| "cities_run b ((m, rnd) # ms) = cities_run (fst (cmd_game_cities b m rnd)) ms"

section \<open>The teach directive\<close>

text \<open>
  \<open>_process_learn_command\<close> matches the text against the regular expression
  \<^verbatim>\<open>uchis\s+(.+?)\s*->\s*(.+)\<close> (the keyword is the Russian word, written here in Latin
  letters) with \<open>re.match\<close>, flags \<open>IGNORECASE\<close> and \<open>DOTALL\<close>: anchored at the start of
  the text, the keyword in any case, \<open>.\<close> matching every character. The functions below are
  the backtracking search of that expression, in the order the matcher tries:
  \<^item> \<open>\s+\<close> is greedy: it first takes the whole run of whitespace after the keyword, and
    gives back one character at a time when the rest fails;
  \<^item> \<open>(.+?)\<close> is lazy: it first takes one character, and one more each time the rest
    fails;
  \<^item> \<open>\s*->\<close> needs the arrow right after the whitespace that follows the group;
  \<^item> \<open>\s*(.+)\<close> needs at least one character after the arrow: the second group is what
    follows the whitespace after the arrow, or the last whitespace character when
    nothing else follows.
\<close>

definition keyword :: ustring where
  \<comment> \<open>uchis\<close>
  "keyword = [1091, 1095, 1080, 1089, 1100]"

definition group2 :: "ustring \<Rightarrow> ustring" where
  \<comment> \<open>\<open>\s*(.+)\<close> on a non-empty rest: the rest without its leading whitespace, or its
      last character when it is all whitespace\<close>
  "group2 t = (let r = dropWhile is_space t in if r = [] then [last t] else r)"

definition after_arrow :: "ustring \<Rightarrow> ustring option" where
  \<comment> \<open>\<open>->\s*(.+)\<close> at the start of \<open>s\<close>: the second group, if it matches\<close>
  "after_arrow s =
     (if starts_with [45, 62] s \<and> drop 2 s \<noteq> [] then Some (group2 (drop 2 s)) else None)"

fun lazy_group :: "ustring \<Rightarrow> ustring \<Rightarrow> (ustring \<times> ustring) option" where
  \<comment> \<open>\<open>(.+?)\s*->\s*(.+)\<close> with the first group holding \<open>g\<close> so far and \<open>s\<close> still to read\<close>
  "lazy_group g [] = None"
| "lazy_group g (c # s) =
     (case after_arrow (dropWhile is_space (c # s)) of
        Some g2 \<Rightarrow> Some (g, g2)
      | None \<Rightarrow> lazy_group (g @ [c]) s)"

definition lazy_from :: "ustring \<Rightarrow> (ustring \<times> ustring) option" where
  \<comment> \<open>\<open>(.+?)\s*->\s*(.+)\<close> at the start of \<open>s\<close>: the first group takes one character at
      least\<close>
  "lazy_from s = (case s of [] \<Rightarrow> None | c # s' \<Rightarrow> lazy_group [c] s')"

fun try_ws :: "nat \<Rightarrow> ustring \<Rightarrow> (ustring \<times> ustring) option" where
  \<comment> \<open>\<open>\s+\<close> taking \<open>k\<close> characters of \<open>s\<close>, then fewer, never none\<close>
  "try_ws 0 s = None"
| "try_ws (Suc k) s =
     (case lazy_from (drop (Suc k) s) of
        Some r \<Rightarrow> Some r
      | None \<Rightarrow> try_ws k s)"

definition learn_match :: "ustring \<Rightarrow> (ustring \<times> ustring) option" where
  \<comment> \<open>\<open>re.match(pattern, text, re.IGNORECASE | re.DOTALL)\<close>: the two groups, or \<open>None\<close>\<close>
  "learn_match txt =
     (if starts_ci keyword txt then
        (let s = drop (length keyword) txt
         in try_ws (length (takeWhile is_space s)) s)
      else None)"

definition process_learn_command :: "bot \<Rightarrow> ustring \<Rightarrow> nat \<Rightarrow> bot \<times> reply" where
  \<comment> \<open>\<open>_process_learn_command(text, user_id)\<close>; the user id is not used by the source\<close>
  "process_learn_command b txt rnd =
     (case learn_match txt of
        Some (g1, g2) \<Rightarrow>
          (let question = py_strip g1;
               answer = py_strip g2
           in if length question < 2 \<or> length answer < 2 then (b, LearnTooShort)
              else if length question > 100 \<or> length answer > 200 then (b, LearnTooLong)
              else
                (let question_lower = py_lower question;
                     learned = learned_responses b;
                     learned1 = (if question_lower \<notin> dom learned
                                 then learned(question_lower \<mapsto> []) else learned);
                     taught = (case learned1 question_lower of None \<Rightarrow> [] | Some xs \<Rightarrow> xs)
                 in (b\<lparr>learned_responses := learned1(question_lower \<mapsto> taught @ [answer])\<rparr>,
                     LearnAck (rnd mod 2) question answer)))
      | None \<Rightarrow> (b, LearnBadFormat))"

section \<open>Persistence\<close>

text \<open>
  The relational store, as \<open>init_db\<close> creates it and \<open>save_all_data\<close> writes to it: the
  table \<open>users\<close> keyed by the user id, the table \<open>stats\<close> of keys and values, and the table
  \<open>active_games\<close> keyed by the game id. The value columns of \<open>stats\<close> and \<open>active_games\<close>
  have the type JSONB; a value of that type is held here as its JSON text. (The table
  \<open>learned_responses\<close> is created and never used.) In a row of \<open>users\<close> a time stamp is a
  number; the text \<open>datetime.isoformat()\<close> gives for it and the value
  \<open>datetime.fromisoformat\<close> reads back from that text are identified with it.
\<close>

record db =
  users :: "int \<rightharpoonup> user"
  stats_rows :: "ustring \<rightharpoonup> ustring"
  game_rows :: "(int \<times> GameType) \<rightharpoonup> ustring"

definition empty_db :: db where
  \<comment> \<open>the tables right after \<open>init_db\<close> on a new database\<close>
  "empty_db = \<lparr> users = Map.empty, stats_rows = Map.empty, game_rows = Map.empty \<rparr>"

datatype pyarg = PyStr ustring | PyDict
  \<comment> \<open>the Python value given for a JSONB parameter of a query: a \<open>str\<close>, or a \<open>dict\<close>
      (whose content does not matter to the driver)\<close>

definition jsonb_in :: "pyarg \<Rightarrow> error + ustring" where
  \<comment> \<open>the driver's encoding of a JSONB parameter. \<open>init_db\<close> creates the pool with
      \<open>asyncpg.create_pool(database_url, min_size=1, max_size=5)\<close> and registers no codec
      for the type, so the driver takes the JSON text, a \<open>str\<close>, and refuses any other
      value with \<open>DataError\<close> ("invalid input for query argument: expected str, got dict")\<close>
  "jsonb_in a = (case a of PyStr t \<Rightarrow> Inr t | PyDict \<Rightarrow> Inl DataError)"

type_synonym statement = "db \<Rightarrow> error + db"

definition upsert_user :: "user option \<Rightarrow> user \<Rightarrow> user" where
  \<comment> \<open>\<open>INSERT INTO users ... ON CONFLICT (user_id) DO UPDATE SET name, username,
      message_count, last_active\<close>: a row that exists keeps its \<open>first_seen\<close>\<close>
  "upsert_user row u =
     (case row of
        None \<Rightarrow> u
      | Some r \<Rightarrow> r\<lparr>name := name u, username := username u, message_count := message_count u,
                   last_active := last_active u\<rparr>)"

definition upsert_users :: "(int \<rightharpoonup> user) \<Rightarrow> statement" where
  \<comment> \<open>the loop over \<open>self.user_data.items()\<close>: one upsert for each user in memory\<close>
  "upsert_users us d =
     Inr (d\<lparr>users := (\<lambda>user_id. case us user_id of
                            None \<Rightarrow> users d user_id
                          | Some u \<Rightarrow> Some (upsert_user (users d user_id) u))\<rparr>)"

definition insert_stats :: "ustring \<Rightarrow> pyarg \<Rightarrow> statement" where
  \<comment> \<open>\<open>INSERT INTO stats (key, value) VALUES ($1, $2) ON CONFLICT (key) DO UPDATE SET
      value = $2\<close> with the key and the value given\<close>
  "insert_stats key v d =
     (case jsonb_in v of
        Inl e \<Rightarrow> Inl e
      | Inr t \<Rightarrow> Inr (d\<lparr>stats_rows := (stats_rows d)(key \<mapsto> t)\<rparr>))"

definition delete_games :: statement where
  \<comment> \<open>\<open>DELETE FROM active_games\<close>\<close>
  "delete_games d = Inr (d\<lparr>game_rows := Map.empty\<rparr>)"

definition insert_games :: "((int \<times> GameType) \<rightharpoonup> game) \<Rightarrow> statement" where
  \<comment> \<open>the loop over \<open>self.active_games.items()\<close>: one \<open>INSERT INTO active_games (game_id,
      data)\<close> for each session, the session's dict given for the JSONB column \<open>data\<close>, so
      the first insert is refused like the dicts given to \<open>stats\<close>\<close>
  "insert_games gs d = (if gs = Map.empty then Inr d else Inl DataError)"

fun run_statements :: "statement list \<Rightarrow> statement" where
  \<comment> \<open>the statements in order, up to the first that raises\<close>
  "run_statements [] d = Inr d"
| "run_statements (s # ss) d =
     (case s d of
        Inl e \<Rightarrow> Inl e
      | Inr d' \<Rightarrow> run_statements ss d')"

definition transaction :: "statement list \<Rightarrow> db \<Rightarrow> db \<times> error option" where
  \<comment> \<open>\<open>async with conn.transaction():\<close> the statements are committed together when the
      block ends, and rolled back together when a statement raises; the exception goes
      on to the caller. The result is the store afterwards, and the exception if any\<close>
  "transaction ss d =
     (case run_statements ss d of
        Inl e \<Rightarrow> (d, Some e)
      | Inr d' \<Rightarrow> (d', None))"

definition save_all_data :: "bool \<Rightarrow> bot \<Rightarrow> db \<Rightarrow> db \<times> error option" where
  \<comment> \<open>\<open>save_all_data\<close> with \<open>self.use_postgres\<close> given. On PostgreSQL, one transaction: the
      users are upserted, the phrase store and the counters are written as the two rows
      of \<open>stats\<close>, each given as a dict (\<open>dict(self.learned_responses)\<close>, \<open>stats_copy\<close>), and
      \<open>active_games\<close> is emptied and refilled. Without PostgreSQL the first statement is
      \<open>self._save_json(self.learned_file, self.learned_responses)\<close>, and the class defines
      no \<open>_save_json\<close>: \<open>AttributeError\<close>, with no file written\<close>
  "save_all_data use_postgres b d =
     (if use_postgres then
        transaction
          [upsert_users (user_data b),
           insert_stats (ustr ''learned_responses'') PyDict,
           insert_stats (ustr ''main_stats'') PyDict,
           delete_games,
           insert_games (active_games b)] d
      else (d, Some AttributeError))"

section \<open>The response resolver\<close>

text \<open>
  The patterns of \<open>_init_response_patterns\<close> are alternatives of two shapes only: a literal
  word, or two literal words with \<open>.*\<close> between them, all under the flag \<open>(?i)\<close>.
  \<open>re.search\<close> looks for a match at every position of the lower-cased text; \<open>.\<close> matches
  every character but the newline.
\<close>

datatype alt = Lit ustring | Dots ustring ustring

fun later_on :: "ustring \<Rightarrow> ustring \<Rightarrow> bool" where
  \<comment> \<open>\<open>.*w\<close> at the start of \<open>s\<close>: the word after some characters, none of them a newline\<close>
  "later_on w [] = starts_ci w []"
| "later_on w (c # s) = (starts_ci w (c # s) \<or> (c \<noteq> 10 \<and> later_on w s))"

fun alt_here :: "alt \<Rightarrow> ustring \<Rightarrow> bool" where
  \<comment> \<open>the alternative matches at the start of \<open>s\<close>\<close>
  "alt_here (Lit w) s = starts_ci w s"
| "alt_here (Dots v w) s = (starts_ci v s \<and> later_on w (drop (length v) s))"

fun re_search :: "alt \<Rightarrow> ustring \<Rightarrow> bool" where
  \<comment> \<open>the alternative matches somewhere in \<open>s\<close>\<close>
  "re_search a [] = alt_here a []"
| "re_search a (c # s) = (alt_here a (c # s) \<or> re_search a s)"

definition response_patterns :: "(alt list \<times> nat) list" where
  \<comment> \<open>the patterns in the order of the source, each with the number of its candidate
      replies\<close>
  "response_patterns =
     [
      \<comment> \<open>privet | zdravstvuy | khay | hello | hi | zdarov | you | dobryy | zdraste\<close>
      ([Lit [1087, 1088, 1080, 1074, 1077, 1090],
        Lit [1079, 1076, 1088, 1072, 1074, 1089, 1090, 1074, 1091, 1081],
        Lit [1093, 1072, 1081],
        Lit [104, 101, 108, 108, 111],
        Lit [104, 105],
        Lit [1079, 1076, 1072, 1088, 1086, 1074],
        Lit [1081, 1086, 1091],
        Lit [1076, 1086, 1073, 1088, 1099, 1081],
        Lit [1079, 1076, 1088, 1072, 1089, 1100, 1090, 1077]], 2),
      \<comment> \<open>kak .* dela | kak .* zhizn | chego .* ty | kak .* ty\<close>
      ([Dots [1082, 1072, 1082] [1076, 1077, 1083, 1072],
        Dots [1082, 1072, 1082] [1078, 1080, 1079, 1085, 1100],
        Dots [1095, 1077, 1075, 1086] [1090, 1099],
        Dots [1082, 1072, 1082] [1090, 1099]], 1),
      \<comment> \<open>izida | isida | izya | izyu | izyum\<close>
      ([Lit [1080, 1079, 1080, 1076, 1072],
        Lit [105, 115, 105, 100, 97],
        Lit [1080, 1079, 1103],
        Lit [1080, 1079, 1102],
        Lit [1080, 1079, 1102, 1084]], 1),
      \<comment> \<open>lyublyu .* tebya | nravishsya .* mne | vlyublen .* v tebya | ty .* prekrasna\<close>
      ([Dots [1083, 1102, 1073, 1083, 1102] [1090, 1077, 1073, 1103],
        Dots [1085, 1088, 1072, 1074, 1080, 1096, 1100, 1089, 1103] [1084, 1085, 1077],
        Dots [1074, 1083, 1102, 1073, 1083, 1077, 1085] [1074, 32, 1090, 1077, 1073, 1103],
        Dots [1090, 1099] [1087, 1088, 1077, 1082, 1088, 1072, 1089, 1085, 1072]], 1),
      \<comment> \<open>dura | glupaya | tupaya | idiot | kretin | debil\<close>
      ([Lit [1076, 1091, 1088, 1072],
        Lit [1075, 1083, 1091, 1087, 1072, 1103],
        Lit [1090, 1091, 1087, 1072, 1103],
        Lit [1080, 1076, 1080, 1086, 1090],
        Lit [1082, 1088, 1077, 1090, 1080, 1085],
        Lit [1076, 1077, 1073, 1080, 1083]], 1),
      \<comment> \<open>spasibo | blagodaryu | sps | pasib | thx | thanks\<close>
      ([Lit [1089, 1087, 1072, 1089, 1080, 1073, 1086],
        Lit [1073, 1083, 1072, 1075, 1086, 1076, 1072, 1088, 1102],
        Lit [1089, 1087, 1089],
        Lit [1087, 1072, 1089, 1080, 1073],
        Lit [116, 104, 120],
        Lit [116, 104, 97, 110, 107, 115]], 1),
      \<comment> \<open>poka | do svidaniya | ukhozhu | bay | proshchay | do vstrechi\<close>
      ([Lit [1087, 1086, 1082, 1072],
        Lit [1076, 1086, 32, 1089, 1074, 1080, 1076, 1072, 1085, 1080, 1103],
        Lit [1091, 1093, 1086, 1078, 1091],
        Lit [1073, 1072, 1081],
        Lit [1087, 1088, 1086, 1097, 1072, 1081],
        Lit [1076, 1086, 32, 1074, 1089, 1090, 1088, 1077, 1095, 1080]], 1),
      \<comment> \<open>chto .* umeesh | chto .* mozhesh | kakie .* komandy | pomoshch | help\<close>
      ([Dots [1095, 1090, 1086] [1091, 1084, 1077, 1077, 1096, 1100],
        Dots [1095, 1090, 1086] [1084, 1086, 1078, 1077, 1096, 1100],
        Dots [1082, 1072, 1082, 1080, 1077] [1082, 1086, 1084, 1072, 1085, 1076, 1099],
        Lit [1087, 1086, 1084, 1086, 1097, 1100],
        Lit [104, 101, 108, 112]], 1),
      \<comment> \<open>ty .* umnaya | ty .* klassnaya | ty .* luchshaya | molodets | umnitsa\<close>
      ([Dots [1090, 1099] [1091, 1084, 1085, 1072, 1103],
        Dots [1090, 1099] [1082, 1083, 1072, 1089, 1089, 1085, 1072, 1103],
        Dots [1090, 1099] [1083, 1091, 1095, 1096, 1072, 1103],
        Lit [1084, 1086, 1083, 1086, 1076, 1077, 1094],
        Lit [1091, 1084, 1085, 1080, 1094, 1072]], 1),
      \<comment> \<open>kotoryy .* chas | skolko .* vremya | data | chislo | den\<close>
      ([Dots [1082, 1086, 1090, 1086, 1088, 1099, 1081] [1095, 1072, 1089],
        Dots [1089, 1082, 1086, 1083, 1100, 1082, 1086] [1074, 1088, 1077, 1084, 1103],
        Lit [1076, 1072, 1090, 1072],
        Lit [1095, 1080, 1089, 1083, 1086],
        Lit [1076, 1077, 1085, 1100]], 1)
     ]"

fun first_match :: "nat \<Rightarrow> (alt list \<times> nat) list \<Rightarrow> ustring \<Rightarrow> (nat \<times> nat) option" where
  \<comment> \<open>the loop over the patterns: the number of the first pattern that matches, counted
      from \<open>k\<close>, and the number of its candidates\<close>
  "first_match k [] s = None"
| "first_match k ((alts, n) # ps) s =
     (if list_ex (\<lambda>a. re_search a s) alts then Some (k, n) else first_match (Suc k) ps s)"

definition deque_append :: "'a list \<Rightarrow> 'a \<Rightarrow> 'a list" where
  \<comment> \<open>\<open>append\<close> on a \<open>deque(maxlen=20)\<close>: when full, the oldest entry goes\<close>
  "deque_append xs x = (if length xs < 20 then xs @ [x] else drop (length xs - 19) xs @ [x])"

definition cue_words :: "ustring list" where
  \<comment> \<open>'kak dela', 'kak ty'\<close>
  "cue_words = [[1082, 1072, 1082, 32, 1076, 1077, 1083, 1072], [1082, 1072, 1082, 32, 1090, 1099]]"

definition question_words :: "ustring list" where
  \<comment> \<open>kto, chto, gde, kogda, pochemu, kak\<close>
  "question_words =
     [[1082, 1090, 1086], [1095, 1090, 1086], [1075, 1076, 1077], [1082, 1086, 1075, 1076, 1072],
      [1087, 1086, 1095, 1077, 1084, 1091], [1082, 1072, 1082]]"

definition generate_context_response :: "bot \<Rightarrow> ustring \<Rightarrow> int \<Rightarrow> (nat \<Rightarrow> nat) \<Rightarrow> reply option" where
  \<comment> \<open>\<open>_generate_context_response(text, user_id)\<close>; \<open>history[-1]\<close> is the last entry of the
      history, read only when the history has two entries at least\<close>
  "generate_context_response b txt user_id rnd =
     (let history = conversation_history b user_id
      in if length history < 2 then None
         else
           (let last_message = py_lower (last history)
            in if list_ex (\<lambda>q. py_in q last_message) cue_words then
                 Some (ContextThanks (rnd 0 mod 2))
               else if py_in [63] txt \<and> list_ex (\<lambda>w. py_in w (py_lower txt)) question_words then
                 Some (ContextQuestion (rnd 0 mod 2))
               else None))"

definition mood_keywords :: "(affect \<times> ustring list) list" where
  \<comment> \<open>happy: rad, schaste, ura; sad: grustno, plokho, pechal; angry: zloy, zlyus, besit;
      love: lyublyu, nravitsya, obozhayu\<close>
  "mood_keywords =
     [(Happy, [[1088, 1072, 1076], [1089, 1095, 1072, 1089, 1090, 1100, 1077], [1091, 1088, 1072]]),
      (Sad, [[1075, 1088, 1091, 1089, 1090, 1085, 1086], [1087, 1083, 1086, 1093, 1086],
             [1087, 1077, 1095, 1072, 1083, 1100]]),
      (Angry, [[1079, 1083, 1086, 1081], [1079, 1083, 1102, 1089, 1100],
               [1073, 1077, 1089, 1080, 1090]]),
      (Love, [[1083, 1102, 1073, 1083, 1102], [1085, 1088, 1072, 1074, 1080, 1090, 1089, 1103],
              [1086, 1073, 1086, 1078, 1072, 1102]])]"

fun detect_mood :: "(affect \<times> ustring list) list \<Rightarrow> ustring \<Rightarrow> affect" where
  \<comment> \<open>the loop over \<open>mood_keywords\<close>: the first category with a keyword in the text, else
      neutral\<close>
  "detect_mood [] s = Neutral"
| "detect_mood ((mood, keywords) # rest) s =
     (if list_ex (\<lambda>keyword. py_in keyword s) keywords then mood else detect_mood rest s)"

definition generate_random_response :: "ustring \<Rightarrow> (nat \<Rightarrow> nat) \<Rightarrow> reply" where
  \<comment> \<open>\<open>_generate_random_response\<close>: the neutral category has two replies, the others one.
      \<open>random.random() < 0.3\<close> is read off the first draw, three times in ten\<close>
  "generate_random_response txt rnd =
     (let detected_mood = detect_mood mood_keywords (py_lower txt);
          n = (if detected_mood = Neutral then 2 else 1)
      in if rnd 0 mod 10 < 3 then RandomReply detected_mood (Some (rnd 1 mod 3)) (rnd 2 mod n)
         else RandomReply detected_mood None (rnd 1 mod n))"

definition generate_response :: "bot \<Rightarrow> ustring \<Rightarrow> int \<Rightarrow> (nat \<Rightarrow> nat) \<Rightarrow> error + reply" where
  \<comment> \<open>\<open>_generate_response(text, user_id)\<close>: a taught answer, else the first pattern that
      matches, else the context reply, else the fallback. \<open>random.choice\<close> of an empty list
      of answers raises \<open>IndexError\<close>\<close>
  "generate_response b txt user_id rnd =
     (let text_lower = py_lower txt
      in case learned_responses b text_lower of
           Some responses \<Rightarrow>
             if responses = [] then Inl IndexError
             else Inr (LearnedReply (choice responses (rnd 0)) (current_mood b) (rnd 1 mod 5))
         | None \<Rightarrow>
             (case first_match 0 response_patterns text_lower of
                Some (k, n) \<Rightarrow> Inr (PatternReply k (rnd 0 mod n))
              | None \<Rightarrow>
                  (case generate_context_response b txt user_id rnd of
                     Some context_response \<Rightarrow> Inr context_response
                   | None \<Rightarrow> Inr (generate_random_response txt rnd))))"

definition known_user :: "user \<Rightarrow> nat \<Rightarrow> user" where
  \<comment> \<open>\<open>handle_message\<close> on a user already in \<open>user_data\<close>: one more message, active now\<close>
  "known_user u now = u\<lparr>message_count := message_count u + 1, last_active := now\<rparr>"

definition new_user :: "message \<Rightarrow> nat \<Rightarrow> int \<Rightarrow> user" where
  \<comment> \<open>the record of a user seen for the first time, with the message count given\<close>
  "new_user m now n =
     \<lparr> name = from_full_name m, username = from_username m, first_seen = now,
       message_count = n, last_active = now \<rparr>"

definition count_message :: "stats_t \<Rightarrow> stats_t" where
  \<comment> \<open>\<open>total_messages += 1\<close> and \<open>commands_used["message"] += 1\<close> (a \<open>defaultdict(int)\<close>)\<close>
  "count_message st =
     st\<lparr>total_messages := total_messages st + 1,
        commands_used := (commands_used st)
          (ustr ''message'' \<mapsto>
             (case commands_used st (ustr ''message'') of None \<Rightarrow> 0 | Some n \<Rightarrow> n) + 1)\<rparr>"

definition answer_message ::
  "bot \<Rightarrow> message \<Rightarrow> nat \<Rightarrow> (nat \<Rightarrow> nat) \<Rightarrow> bot \<times> (error + reply option)" where
  \<comment> \<open>\<open>handle_message\<close> at the time \<open>now\<close>, up to the reply (lines 714 to 738): the counters,
      the user record and the history are updated first, the reply is computed after and
      sent. \<open>Inr None\<close> is the return on an empty text. The test of line 720 is cut off in
      the source file (\<open>if user_id in self.user_\<close>); it is read as
      \<open>user_id in self.user_data\<close>, the dictionary both branches write\<close>
  "answer_message b m now rnd =
     (let user_id = from_user_id m;
          txt = py_strip (msg_text m)
      in if txt = [] then (b, Inr None)
         else
           (let st1 = count_message (stats b);
                b1 = (case user_data b user_id of
                        Some u \<Rightarrow>
                          b\<lparr>stats := st1, user_data := (user_data b)(user_id \<mapsto> known_user u now)\<rparr>
                      | None \<Rightarrow>
                          b\<lparr>stats := st1\<lparr>unique_users := unique_users st1 + 1\<rparr>,
                            user_data := (user_data b)(user_id \<mapsto> new_user m now 1)\<rparr>);
                b2 = b1\<lparr>conversation_history := (conversation_history b1)
                         (user_id := deque_append (conversation_history b1 user_id) txt)\<rparr>
            in if starts_with keyword (py_lower txt) then
                 (case process_learn_command b2 txt (rnd 0) of
                    (b3, response) \<Rightarrow> (b3, Inr (Some response)))
               else
                 (case generate_response b2 txt user_id rnd of
                    Inl e \<Rightarrow> (b2, Inl e)
                  | Inr response \<Rightarrow> (b2, Inr (Some response)))))"

definition handle_message ::
  "bool \<Rightarrow> db \<Rightarrow> bot \<Rightarrow> message \<Rightarrow> nat \<Rightarrow> (nat \<Rightarrow> nat)
     \<Rightarrow> bot \<times> db \<times> (error + reply option) \<times> error option" where
  \<comment> \<open>\<open>handle_message\<close> with \<open>self.use_postgres\<close> and the store given: after the reply is
      sent, every tenth message counted calls \<open>save_all_data\<close> (lines 739 and 740). The
      result is the bot, the store, the reply (or the exception raised before one was
      sent), and the exception raised after the reply, if any\<close>
  "handle_message use_postgres d b m now rnd =
     (case answer_message b m now rnd of
        (b', Inl e) \<Rightarrow> (b', d, Inl e, None)
      | (b', Inr None) \<Rightarrow> (b', d, Inr None, None)
      | (b', Inr (Some response)) \<Rightarrow>
          if total_messages (stats b') mod 10 = 0 then
            (case save_all_data use_postgres b' d of
               (d', raised) \<Rightarrow> (b', d', Inr (Some response), raised))
          else (b', d, Inr (Some response), None))"
section \<open>Example states and messages\<close>

definition bare_msg :: "string \<Rightarrow> message" where
  \<comment> \<open>a command with no argument, from user 7\<close>
  "bare_msg c = \<lparr> from_user_id = 7, from_full_name = ustr ''Seven'', from_username = None,
       msg_text = ustr c \<rparr>"

definition riddle_run1 :: bot where
  \<comment> \<open>a fresh bot after user 7 sends "/riddle"; the draw picks the second riddle, whose
      answer is el\<close>
  "riddle_run1 = fst (cmd_game_riddle (init_bot []) (bare_msg ''/riddle'') 1)"

definition riddle_msg :: "ustring \<Rightarrow> message" where
  \<comment> \<open>the message "/riddle ARG" from user 7\<close>
  "riddle_msg arg = \<lparr> from_user_id = 7, from_full_name = ustr ''Seven'', from_username = None,
       msg_text = ustr ''/riddle '' @ arg \<rparr>"

definition dub :: ustring where
  \<comment> \<open>dub (an oak): a wrong answer\<close>
  "dub = [1076, 1091, 1073]"

definition El :: ustring where
  \<comment> \<open>El (a fir), with a capital: the right answer\<close>
  "El = [1045, 1083, 1100]"

definition guess_bot :: bot where
  \<comment> \<open>user 7 has a number game open: the secret is 42, three guesses were counted\<close>
  "guess_bot = (init_bot [])\<lparr>active_games := [(7, GUESS_NUMBER) \<mapsto> GuessGame 42 3]\<rparr>"

definition guess_msg :: "string \<Rightarrow> message" where
  \<comment> \<open>the message "/guess ARG" from user 7\<close>
  "guess_msg arg = \<lparr> from_user_id = 7, from_full_name = ustr ''Seven'', from_username = None,
       msg_text = ustr (''/guess '' @ arg) \<rparr>"

definition guess_msg_arabic :: message where
  \<comment> \<open>the message "/guess 42" from user 7, the number written in Arabic-Indic digits
      (U+0664, U+0662)\<close>
  "guess_msg_arabic = \<lparr> from_user_id = 7, from_full_name = ustr ''Seven'', from_username = None,
       msg_text = ustr ''/guess '' @ [1636, 1634] \<rparr>"



definition izida :: ustring where
  \<comment> \<open>the word izida\<close>
  "izida = [1080, 1079, 1080, 1076, 1072]"

definition hangman_bot :: "ustring list \<Rightarrow> int \<Rightarrow> ustring list \<Rightarrow> bot" where
  \<comment> \<open>user 7 has a hangman game open on the word izida\<close>
  "hangman_bot guessed attempts used =
     (init_bot [])\<lparr>active_games := [(7, HANGMAN) \<mapsto> HangmanGame izida guessed attempts used]\<rparr>"

definition hangman_msg :: "ustring \<Rightarrow> message" where
  \<comment> \<open>the message "/hangman ARG" from user 7\<close>
  "hangman_msg arg = \<lparr> from_user_id = 7, from_full_name = ustr ''Seven'', from_username = None,
       msg_text = ustr ''/hangman '' @ arg \<rparr>"

definition blanks :: "ustring list" where
  \<comment> \<open>five blanks\<close>
  "blanks = [[95], [95], [95], [95], [95]]"

definition hangman_cmd :: message where
  \<comment> \<open>the message "/hangman" from user 7\<close>
  "hangman_cmd = \<lparr> from_user_id = 7, from_full_name = ustr ''Seven'', from_username = None,
       msg_text = ustr ''/hangman'' \<rparr>"

definition hangman_run1 :: bot where
  \<comment> \<open>a fresh bot after user 7 starts a game; the draw picks the third word, izida\<close>
  "hangman_run1 = fst (cmd_game_hangman (init_bot []) hangman_cmd 2)"

definition hangman_run2 :: bot where
  \<comment> \<open>then user 7 guesses the letter ya, which is not in the word\<close>
  "hangman_run2 = fst (cmd_game_hangman hangman_run1 (hangman_msg [1103]) 0)"

definition moskva :: ustring where
  \<comment> \<open>moskva\<close>
  "moskva = [1084, 1086, 1089, 1082, 1074, 1072]"

definition cities_bot :: bot where
  \<comment> \<open>user 7 has a cities game open; the bot has opened with moskva\<close>
  "cities_bot = (init_bot [])\<lparr>active_games := [(7, CITIES) \<mapsto> CitiesGame moskva [moskva] True]\<rparr>"

definition cities_msg :: "ustring \<Rightarrow> message" where
  \<comment> \<open>the message "/cities ARG" from user 7\<close>
  "cities_msg arg = \<lparr> from_user_id = 7, from_full_name = ustr ''Seven'', from_username = None,
       msg_text = ustr ''/cities '' @ arg \<rparr>"

definition Moskva :: ustring where
  \<comment> \<open>Moskva, with a capital\<close>
  "Moskva = [1052, 1086, 1089, 1082, 1074, 1072]"

definition Kiev :: ustring where
  \<comment> \<open>Kiev\<close>
  "Kiev = [1050, 1080, 1077, 1074]"

definition Arkhangelsk :: ustring where
  \<comment> \<open>Arkhangelsk: it ends with the letter k, under which the bot knows no city\<close>
  "Arkhangelsk = [1040, 1088, 1093, 1072, 1085, 1075, 1077, 1083, 1100, 1089, 1082]"

definition Anapa :: ustring where
  \<comment> \<open>Anapa: it starts and ends with the letter a\<close>
  "Anapa = [1040, 1085, 1072, 1087, 1072]"

definition all_games_bot :: bot where
  \<comment> \<open>user 7 has one session of every game open, each some turns in\<close>
  "all_games_bot =
     (init_bot [])\<lparr>active_games :=
        [(7, GUESS_NUMBER) \<mapsto> GuessGame 42 3,
         (7, HANGMAN) \<mapsto> HangmanGame izida blanks 5 [[1103]],
         (7, CITIES) \<mapsto> CitiesGame moskva [moskva] True,
         (7, RIDDLE) \<mapsto> RiddleGame (fst (riddles ! 1)) (snd (riddles ! 1))]\<rparr>"

definition privet :: ustring where
  \<comment> \<open>privet\<close>
  "privet = [1087, 1088, 1080, 1074, 1077, 1090]"

definition Izida :: ustring where
  \<comment> \<open>Izida, with a capital\<close>
  "Izida = [1048, 1079, 1080, 1076, 1072]"

definition teach_ok :: ustring where
  \<comment> \<open>"uchis Izida -> privet"\<close>
  "teach_ok = keyword @ [32] @ Izida @ ustr '' -> '' @ privet"

definition teach_short :: ustring where
  \<comment> \<open>"uchis a -> b"\<close>
  "teach_short = keyword @ ustr '' a -> b''"

definition teach_long :: ustring where
  \<comment> \<open>"uchis aaa...a -> ok" with 101 letters a\<close>
  "teach_long = keyword @ [32] @ replicate 101 97 @ ustr '' -> ok''"

definition teach_no_arrow :: ustring where
  \<comment> \<open>"uchis abc"\<close>
  "teach_no_arrow = keyword @ ustr '' abc''"

definition kak_dela :: ustring where
  \<comment> \<open>"kak dela" (how are you)\<close>
  "kak_dela = [1082, 1072, 1082, 32, 1076, 1077, 1083, 1072]"

definition nu_ladno :: ustring where
  \<comment> \<open>"nu ladno" (oh well)\<close>
  "nu_ladno = [1085, 1091, 32, 1083, 1072, 1076, 1085, 1086]"

definition chat_msg :: "ustring \<Rightarrow> message" where
  \<comment> \<open>a text message from user 7\<close>
  "chat_msg s = \<lparr> from_user_id = 7, from_full_name = ustr ''Seven'', from_username = None,
       msg_text = s \<rparr>"

definition conv_bot1 :: bot where
  \<comment> \<open>a fresh bot, on PostgreSQL with a new database, after user 7 wrote "kak dela"\<close>
  "conv_bot1 = fst (handle_message True empty_db (init_bot []) (chat_msg kak_dela) 100 (\<lambda>_. 0))"

definition conv_bot2 :: bot where
  \<comment> \<open>and then "nu ladno"\<close>
  "conv_bot2 = fst (handle_message True empty_db conv_bot1 (chat_msg nu_ladno) 200 (\<lambda>_. 0))"

definition saved_bot :: bot where
  \<comment> \<open>a bot with one user, one taught phrase, some counters and four open games\<close>
  "saved_bot =
     all_games_bot\<lparr>
       user_data := [7 \<mapsto> \<lparr> name = ustr ''Seven'', username = Some (ustr ''seven''),
                             first_seen = 100, message_count = 3, last_active = 400 \<rparr>],
       learned_responses := [izida \<mapsto> [privet]],
       stats := \<lparr> total_messages = 3, unique_users = 1, games_played = 4,
                  commands_used = Map.empty \<rparr>\<rparr>"

section \<open>Properties\<close>

subsection \<open>Text and lists\<close>

lemma split_ws_nonempty: "t \<in> set (split_ws cur s) \<Longrightarrow> t \<noteq> []"
  by (induction s arbitrary: cur) (auto split: if_splits)

lemma py_split_nonempty: "t \<in> set (py_split s) \<Longrightarrow> t \<noteq> []"
  by (simp add: py_split_def split_ws_nonempty)

text \<open>
  The tables are searched from the top: the search is stated once as conditional rules, and
  the blocks of the bot's own alphabets (ASCII and the Cyrillic of Russian) once as facts,
  so that no evaluation below walks a table again.
\<close>

lemma in_ranges_below: "c < lo \<Longrightarrow> in_ranges ((lo, hi) # rs) c = False"
  and in_ranges_hit: "lo \<le> c \<Longrightarrow> c \<le> hi \<Longrightarrow> in_ranges ((lo, hi) # rs) c = True"
  and in_ranges_skip: "hi < c \<Longrightarrow> lo \<le> hi \<Longrightarrow> in_ranges ((lo, hi) # rs) c = in_ranges rs c"
  by simp_all

lemma lower_row_below: "c < lo \<Longrightarrow> lower_row ((lo, hi, step, target) # rows) c = c"
  and lower_row_hit: "lo \<le> c \<Longrightarrow> c \<le> hi \<Longrightarrow>
      lower_row ((lo, hi, step, target) # rows) c =
        (if (c - lo) mod step = 0 then target + (c - lo) else c)"
  and lower_row_skip: "hi < c \<Longrightarrow> lo \<le> hi \<Longrightarrow>
      lower_row ((lo, hi, step, target) # rows) c = lower_row rows c"
  by simp_all

lemma digit_of_below: "c < z \<Longrightarrow> digit_of (z # zs) c = None"
  and digit_of_hit: "z \<le> c \<Longrightarrow> c < z + 10 \<Longrightarrow> digit_of (z # zs) c = Some (c - z)"
  and digit_of_skip: "z + 10 \<le> c \<Longrightarrow> digit_of (z # zs) c = digit_of zs c"
  by simp_all

declare in_ranges.simps(2) [simp del] lower_row.simps(2) [simp del] digit_of.simps(2) [simp del]

lemmas table_rules = in_ranges_below in_ranges_hit in_ranges_skip lower_row_below lower_row_hit
  lower_row_skip digit_of_below digit_of_hit digit_of_skip

lemma lower_row_ascii:
  "65 \<le> c \<Longrightarrow> c \<le> 90 \<Longrightarrow> lower_row lower_rows c = c + 32"
  "c < 65 \<Longrightarrow> lower_row lower_rows c = c"
  "90 < c \<Longrightarrow> c < 192 \<Longrightarrow> lower_row lower_rows c = c"
  by (simp_all add: lower_rows_def table_rules)

lemma lower_row_cyrillic:
  "1024 \<le> c \<Longrightarrow> c \<le> 1039 \<Longrightarrow> lower_row lower_rows c = c + 80"
  "1040 \<le> c \<Longrightarrow> c \<le> 1071 \<Longrightarrow> lower_row lower_rows c = c + 32"
  "1072 \<le> c \<Longrightarrow> c \<le> 1119 \<Longrightarrow> lower_row lower_rows c = c"
  by (simp_all add: lower_rows_def table_rules)

lemma lower_cp_ascii:
  "65 \<le> c \<Longrightarrow> c \<le> 90 \<Longrightarrow> lower_cp c = [c + 32]"
  "c < 65 \<Longrightarrow> lower_cp c = [c]"
  "90 < c \<Longrightarrow> c < 192 \<Longrightarrow> lower_cp c = [c]"
  by (simp_all add: lower_cp_def lower_row_ascii)

lemma lower_cp_cyrillic:
  "1024 \<le> c \<Longrightarrow> c \<le> 1039 \<Longrightarrow> lower_cp c = [c + 80]"
  "1040 \<le> c \<Longrightarrow> c \<le> 1071 \<Longrightarrow> lower_cp c = [c + 32]"
  "1072 \<le> c \<Longrightarrow> c \<le> 1119 \<Longrightarrow> lower_cp c = [c]"
  by (simp_all add: lower_cp_def lower_row_cyrillic)

lemma sre_lower_plain:
  \<comment> \<open>the characters that are their own lower case, among ASCII and the Russian letters\<close>
  "c < 65 \<Longrightarrow> sre_lower c = c"
  "90 < c \<Longrightarrow> c < 192 \<Longrightarrow> sre_lower c = c"
  "1072 \<le> c \<Longrightarrow> c \<le> 1119 \<Longrightarrow> sre_lower c = c"
  by (simp_all add: sre_lower_def lower_row_ascii lower_row_cyrillic)

lemma ci_eq_plain:
  \<comment> \<open>between characters that are their own lower case, a letter stands for itself only\<close>
  assumes "sre_lower c = c" "c \<notin> {305, 383, 7296, 7297, 7298, 7299, 7300, 7301}"
  shows "ci_eq p c \<longleftrightarrow> p = c"
  using assms by (auto simp: ci_eq_def case_fixes_def Let_def split: if_splits)

lemma ci_eq_small:
  "c < 65 \<Longrightarrow> ci_eq p c \<longleftrightarrow> p = c"
  "90 < c \<Longrightarrow> c < 192 \<Longrightarrow> ci_eq p c \<longleftrightarrow> p = c"
  "1072 \<le> c \<Longrightarrow> c \<le> 1119 \<Longrightarrow> ci_eq p c \<longleftrightarrow> p = c"
  by (simp_all add: ci_eq_plain sre_lower_plain)

lemma starts_with_ci:
  "starts_with w s \<Longrightarrow> \<forall>p\<in>set w. sre_lower p = p \<Longrightarrow> starts_ci w s"
  by (induction w s rule: starts_with.induct) (auto simp: ci_eq_def)

lemma is_alpha_cp_ranges:
  "65 \<le> c \<Longrightarrow> c \<le> 90 \<Longrightarrow> is_alpha_cp c"
  "97 \<le> c \<Longrightarrow> c \<le> 122 \<Longrightarrow> is_alpha_cp c"
  "1015 \<le> c \<Longrightarrow> c \<le> 1153 \<Longrightarrow> is_alpha_cp c"
  "c < 65 \<Longrightarrow> \<not> is_alpha_cp c"
  by (simp_all add: is_alpha_cp_def alpha_ranges_def table_rules)

lemma lower_from_plain: "931 \<notin> set s \<Longrightarrow> lower_from seen s = concat (map lower_cp s)"
  by (induction s arbitrary: seen) simp_all

lemma py_lower_plain: "931 \<notin> set s \<Longrightarrow> py_lower s = concat (map lower_cp s)"
  by (simp add: py_lower_def lower_from_plain)

lemma lower_from_Nil: "lower_from seen s = [] \<longleftrightarrow> s = []"
  by (cases s) (simp_all add: lower_cp_def)

lemma py_lower_Nil [simp]: "py_lower s = [] \<longleftrightarrow> s = []"
  by (simp add: py_lower_def lower_from_Nil)

lemmas text_eval = py_lower_plain lower_cp_ascii lower_cp_cyrillic is_alpha_cp_ranges ci_eq_small

lemma set_add_distinct: "distinct (set_add x xs)"
  by (simp add: set_add_def)

lemma list_case_hd:
  "xs \<noteq> [] \<Longrightarrow> (case xs of [] \<Rightarrow> a | x # ys \<Rightarrow> f x) = f (hd xs)"
  by (cases xs) simp_all

lemma set_add_new: "set (set_add x xs) = insert x (set xs)"
  by (auto simp: set_add_def)

lemma choice_mem: "xs \<noteq> [] \<Longrightarrow> choice xs rnd \<in> set xs"
  by (simp add: choice_def)

subsection \<open>Riddle\<close>

lemma riddle_msg_tokens:
  "py_split (msg_text (riddle_msg dub)) = [ustr ''/riddle'', dub]"
  "py_split (msg_text (riddle_msg El)) = [ustr ''/riddle'', El]"
  "py_split (msg_text (bare_msg ''/riddle'')) = [ustr ''/riddle'']"
  by (simp_all add: riddle_msg_def bare_msg_def dub_def El_def py_split_def ustr_def is_space_def)

lemma riddle_run1_game:
  "active_games riddle_run1 (7, RIDDLE) = Some (RiddleGame (fst (riddles ! 1)) [1077, 1083, 1100])"
proof -
  have none: "active_games (init_bot []) (7, RIDDLE) = None"
    by (simp add: init_bot_def)
  have uid: "from_user_id (bare_msg ''/riddle'') = 7"
    by (simp add: bare_msg_def)
  have draw: "choice riddles (Suc 0) = riddles ! Suc 0" "snd (riddles ! Suc 0) = [1077, 1083, 1100]"
    by (simp_all add: choice_def riddles_def)
  show ?thesis
    by (simp add: riddle_run1_def cmd_game_riddle_def riddle_new_def uid none draw
        games_played_incr_def Let_def)
qed

text \<open>
  C1 (the code departs from the claim). The claim: a riddle is single-attempt, and a wrong
  non-empty answer destroys the session. In the code the branch of a wrong answer only
  builds the hint and replies: the session stays in \<open>active_games\<close>, unchanged, so the same
  riddle can be answered again. Evaluated: user 7 starts a riddle (the one with the answer
  "el") and sends "/riddle dub"; the reply is the hint (first letter, two stars) and the
  bot is exactly as before, with the session still there; the answer "/riddle El" sent
  after that is accepted as right and only then is the session deleted.
\<close>

theorem riddle_wrong_answer_keeps_session:
  "active_games riddle_run1 (7, RIDDLE) = Some (RiddleGame (fst (riddles ! 1)) [1077, 1083, 1100])
   \<and> cmd_game_riddle riddle_run1 (riddle_msg dub) rnd
       = (riddle_run1, Inr (RiddleWrong [1077, 42, 42]))
   \<and> cmd_game_riddle (fst (cmd_game_riddle riddle_run1 (riddle_msg dub) rnd)) (riddle_msg El) rnd
       = (riddle_run1\<lparr>active_games := (active_games riddle_run1)((7, RIDDLE) := None)\<rparr>,
          Inr (RiddleCorrect (fst (riddles ! 1)) [1077, 1083, 1100]))"
proof -
  have uid: "from_user_id (riddle_msg arg) = 7" for arg
    by (simp add: riddle_msg_def)
  have lowers: "py_lower dub \<noteq> py_lower [1077, 1083, 1100]"
    "py_lower El = py_lower [1077, 1083, 1100]"
    by (simp_all add: text_eval dub_def El_def)
  have wrong: "cmd_game_riddle riddle_run1 (riddle_msg dub) rnd
       = (riddle_run1, Inr (RiddleWrong [1077, 42, 42]))"
    using lowers(1)
    by (simp add: cmd_game_riddle_def riddle_msg_tokens uid riddle_run1_game Let_def)
      (simp add: dub_def)
  have right: "cmd_game_riddle riddle_run1 (riddle_msg El) rnd
       = (riddle_run1\<lparr>active_games := (active_games riddle_run1)((7, RIDDLE) := None)\<rparr>,
          Inr (RiddleCorrect (fst (riddles ! 1)) [1077, 1083, 1100]))"
    using lowers(2)
    by (simp add: cmd_game_riddle_def riddle_msg_tokens uid riddle_run1_game Let_def)
      (simp add: El_def)
  show ?thesis
    by (simp add: riddle_run1_game wrong right)
qed

subsection \<open>Guess the number\<close>

lemma guess_msg_tokens:
  "py_split (msg_text (guess_msg ''abc'')) = [ustr ''/guess'', ustr ''abc'']"
  "py_split (msg_text (guess_msg ''50'')) = [ustr ''/guess'', ustr ''50'']"
  "py_split (msg_text (guess_msg ''17'')) = [ustr ''/guess'', ustr ''17'']"
  "py_split (msg_text (guess_msg ''42'')) = [ustr ''/guess'', ustr ''42'']"
  "py_split (msg_text guess_msg_arabic) = [ustr ''/guess'', [1636, 1634]]"
  by (simp_all add: guess_msg_def guess_msg_arabic_def py_split_def ustr_def is_space_def)

lemma guess_msg_ints:
  "py_int (ustr ''abc'') = None"
  "py_int (ustr ''50'') = Some 50"
  "py_int (ustr ''17'') = Some 17"
  "py_int (ustr ''42'') = Some 42"
  "py_int [1636, 1634] = Some 42"
  by (simp_all add: py_int_def int_char_def int_blank_def is_space_def decimal_zeros_def
      table_rules ustr_def)

lemma guess_bot_game:
  "active_games guess_bot (from_user_id (guess_msg arg), GUESS_NUMBER) = Some (GuessGame 42 3)"
  "active_games guess_bot (from_user_id guess_msg_arabic, GUESS_NUMBER) = Some (GuessGame 42 3)"
  by (simp_all add: guess_bot_def guess_msg_def guess_msg_arabic_def)

text \<open>
  C7. In an open number game, a command with an argument token, read as \<open>int\<close> reads it
  (the decimal digits of every script, with a sign, underscores between digits and
  whitespace around them): if the token is not an integer, the reply asks for a number and the bot is unchanged (session retained, attempt
  count as before); if it is an integer other than the secret, the stored attempt count
  grows by exactly one and the reply is the hint and the attempt number only, "bolshe"
  (greater) when the guess is below the secret and "menshe" (smaller) when it is above, so
  the reply is the same for every secret on the same side of the guess; if it is the
  secret, the reply gives the number and the attempt count and the session is deleted.
\<close>

theorem guess_turn:
  assumes game: "active_games b (from_user_id m, GUESS_NUMBER) = Some (GuessGame number attempts)"
    and toks: "py_split (msg_text m) = cmd # tok # rest"
  shows "(py_int tok = None \<longrightarrow> cmd_game_guess b m rnd = (b, Inr GuessNotNumber))
    \<and> (\<forall>guess. py_int tok = Some guess \<and> guess < number \<longrightarrow>
          cmd_game_guess b m rnd =
            (b\<lparr>active_games := (active_games b)
                  ((from_user_id m, GUESS_NUMBER) \<mapsto> GuessGame number (attempts + 1))\<rparr>,
             Inr (GuessHint Bolshe (attempts + 1))))
    \<and> (\<forall>guess. py_int tok = Some guess \<and> number < guess \<longrightarrow>
          cmd_game_guess b m rnd =
            (b\<lparr>active_games := (active_games b)
                  ((from_user_id m, GUESS_NUMBER) \<mapsto> GuessGame number (attempts + 1))\<rparr>,
             Inr (GuessHint Menshe (attempts + 1))))
    \<and> (py_int tok = Some number \<longrightarrow>
          cmd_game_guess b m rnd =
            (b\<lparr>active_games := (active_games b)((from_user_id m, GUESS_NUMBER) := None)\<rparr>,
             Inr (GuessWin number (attempts + 1))))"
  using game toks by (simp add: cmd_game_guess_def Let_def)

theorem guess_turn_witness:
  "cmd_game_guess guess_bot (guess_msg ''abc'') 0 = (guess_bot, Inr GuessNotNumber)
   \<and> cmd_game_guess guess_bot (guess_msg ''17'') 0 =
       (guess_bot\<lparr>active_games := (active_games guess_bot)((7, GUESS_NUMBER) \<mapsto> GuessGame 42 4)\<rparr>,
        Inr (GuessHint Bolshe 4))
   \<and> cmd_game_guess guess_bot (guess_msg ''50'') 0 =
       (guess_bot\<lparr>active_games := (active_games guess_bot)((7, GUESS_NUMBER) \<mapsto> GuessGame 42 4)\<rparr>,
        Inr (GuessHint Menshe 4))
   \<and> cmd_game_guess guess_bot (guess_msg ''42'') 0 =
       (guess_bot\<lparr>active_games := (active_games guess_bot)((7, GUESS_NUMBER) := None)\<rparr>,
        Inr (GuessWin 42 4))
   \<and> cmd_game_guess guess_bot guess_msg_arabic 0 =
       (guess_bot\<lparr>active_games := (active_games guess_bot)((7, GUESS_NUMBER) := None)\<rparr>,
        Inr (GuessWin 42 4))"
proof -
  have uid: "from_user_id (guess_msg arg) = 7" "from_user_id guess_msg_arabic = 7" for arg
    by (simp_all add: guess_msg_def guess_msg_arabic_def)
  show ?thesis
    using guess_turn [OF guess_bot_game(1) guess_msg_tokens(1), of 0]
      guess_turn [OF guess_bot_game(1) guess_msg_tokens(2), of 0]
      guess_turn [OF guess_bot_game(1) guess_msg_tokens(3), of 0]
      guess_turn [OF guess_bot_game(1) guess_msg_tokens(4), of 0]
      guess_turn [OF guess_bot_game(2) guess_msg_tokens(5), of 0]
    by (simp add: guess_msg_ints uid)
qed

subsection \<open>Mood\<close>

lemma six_moods: "current_mood b \<in> {NEUTRAL, HAPPY, ANGRY, FLIRTY, SAD, SARCASTIC}"
  by (cases "current_mood b") simp_all

lemma admin_unknown_mood_rejected:
  assumes "py_split (msg_text m) = cmd # tok # rest" "BotMood_of (py_lower tok) = None"
  shows "fst (cmd_admin_set_mood b m) = b"
    and "from_user_id m \<in> set (admin_ids b) \<Longrightarrow>
      snd (cmd_admin_set_mood b m) = Inr (MoodUnknown (py_lower tok))"
  using assms by (simp_all add: cmd_admin_set_mood_def Let_def)





subsection \<open>Hangman\<close>

lemma py_in_single: "py_in [c] w \<longleftrightarrow> c \<in> set w"
  by (induction w) auto

lemma reveal_spec:
  "length g = i + length w \<Longrightarrow>
   \<exists>g'. reveal w letter i g = (g', True) \<and> length g' = length g
     \<and> (\<forall>j<i. g' ! j = g ! j)
     \<and> (\<forall>j<length w. g' ! (i + j) = (if [w ! j] = letter then letter else g ! (i + j)))"
proof (induction w arbitrary: i g)
  case Nil
  then show ?case by simp
next
  case (Cons ch w)
  show ?case
  proof (cases "[ch] = letter")
    case True
    from Cons.prems have lt: "i < length g" by simp
    have "length (g[i := letter]) = Suc i + length w" using Cons.prems by simp
    from Cons.IH [OF this] obtain g' where
      r: "reveal w letter (Suc i) (g[i := letter]) = (g', True)"
      and l: "length g' = length (g[i := letter])"
      and lo: "\<forall>j<Suc i. g' ! j = (g[i := letter]) ! j"
      and hi: "\<forall>j<length w. g' ! (Suc i + j) = (if [w ! j] = letter then letter else (g[i := letter]) ! (Suc i + j))"
      by blast
    have "\<forall>j<length (ch # w). g' ! (i + j) = (if [(ch # w) ! j] = letter then letter else g ! (i + j))"
    proof (intro allI impI)
      fix j assume "j < length (ch # w)"
      show "g' ! (i + j) = (if [(ch # w) ! j] = letter then letter else g ! (i + j))"
      proof (cases j)
        case 0
        with lo lt True show ?thesis by simp
      next
        case (Suc k)
        with \<open>j < length (ch # w)\<close> have "k < length w" by simp
        with hi Suc show ?thesis by simp
      qed
    qed
    moreover have "\<forall>j<i. g' ! j = g ! j" using lo by simp
    ultimately show ?thesis using r l lt True by simp
  next
    case False
    have "length g = Suc i + length w" using Cons.prems by simp
    from Cons.IH [OF this] obtain g' where
      r: "reveal w letter (Suc i) g = (g', True)"
      and l: "length g' = length g"
      and lo: "\<forall>j<Suc i. g' ! j = g ! j"
      and hi: "\<forall>j<length w. g' ! (Suc i + j) = (if [w ! j] = letter then letter else g ! (Suc i + j))"
      by blast
    have "\<forall>j<length (ch # w). g' ! (i + j) = (if [(ch # w) ! j] = letter then letter else g ! (i + j))"
    proof (intro allI impI)
      fix j assume "j < length (ch # w)"
      show "g' ! (i + j) = (if [(ch # w) ! j] = letter then letter else g ! (i + j))"
      proof (cases j)
        case 0
        with lo False show ?thesis by simp
      next
        case (Suc k)
        with \<open>j < length (ch # w)\<close> have "k < length w" by simp
        with hi Suc show ?thesis by simp
      qed
    qed
    moreover have "\<forall>j<i. g' ! j = g ! j" using lo by simp
    ultimately show ?thesis using r l False by simp
  qed
qed


lemma reveal_all:
  assumes "length guessed = length word"
  obtains g' where "reveal word letter 0 guessed = (g', True)" "length g' = length word"
    "\<forall>i<length word. g' ! i = (if [word ! i] = letter then letter else guessed ! i)"
  using reveal_spec [of guessed 0 word letter] assms by auto

lemma miss_unchanged:
  assumes "length letter = 1" "\<not> py_in letter word"
  shows "\<forall>i<length word. guessed ! i = (if [word ! i] = letter then letter else guessed ! i)"
proof -
  from assms(1) obtain c where c: "letter = [c]" by (cases letter) auto
  with assms(2) have "c \<notin> set word" by (simp add: py_in_single)
  then have "\<forall>i<length word. word ! i \<noteq> c" by (metis nth_mem)
  with c show ?thesis by simp
qed

text \<open>
  Every stored hangman session has as many blanks as letters, between one and six attempts
  left and a blank still open: a new game has it, and a turn keeps it. These are the
  sessions the turns below are stated for.
\<close>

lemma hangman_new_ok:
  "hangman_ok (active_games (fst (hangman_new b key rnd)) key)"
proof -
  have "choice words rnd \<in> set words"
    by (rule choice_mem) (simp add: words_def)
  then have "choice words rnd \<noteq> []"
    by (auto simp: words_def)
  then show ?thesis
    by (auto simp: hangman_new_def hangman_ok_def Let_def games_played_incr_def split: sum.splits)
qed

lemma hangman_finish_ok:
  "length guessed = length word \<Longrightarrow> attempts \<le> 6 \<Longrightarrow>
   hangman_ok (active_games (fst (hangman_finish b key word guessed attempts used)) key)"
  by (auto simp: hangman_finish_def hangman_ok_def Let_def split: sum.splits)

lemma hangman_session_invariant:
  assumes ok: "hangman_ok (active_games b (from_user_id m, HANGMAN))"
  shows "hangman_ok (active_games (fst (cmd_game_hangman b m rnd)) (from_user_id m, HANGMAN))"
proof (cases "active_games b (from_user_id m, HANGMAN)")
  case None
  then show ?thesis by (simp add: cmd_game_hangman_def hangman_new_ok)
next
  case (Some game)
  with ok obtain word guessed attempts used where
    g: "game = HangmanGame word guessed attempts used"
    and len: "length guessed = length word" and att: "attempts \<le> 6"
    by (cases game) (auto simp: hangman_ok_def)
  let ?toks = "py_split (msg_text m)"
  let ?letter = "py_lower (?toks ! 1)"
  let ?key = "(from_user_id m, HANGMAN)"
  show ?thesis
  proof (cases "length ?toks > 1")
    case False
    with Some show ?thesis by (simp add: cmd_game_hangman_def hangman_new_ok)
  next
    case True
    consider (refused) "length ?letter \<noteq> 1 \<or> \<not> py_isalpha ?letter \<or> ?letter \<in> set used"
      | (hit) "length ?letter = 1" "py_isalpha ?letter" "?letter \<notin> set used" "py_in ?letter word"
      | (miss) "length ?letter = 1" "py_isalpha ?letter" "?letter \<notin> set used" "\<not> py_in ?letter word"
      by blast
    then show ?thesis
    proof cases
      case refused
      then have "fst (cmd_game_hangman b m rnd) = b"
        using Some g True by (auto simp: cmd_game_hangman_def Let_def)
      with ok show ?thesis by simp
    next
      case hit
      from reveal_spec [of guessed 0 word ?letter] len obtain g' where
        r: "reveal word ?letter 0 guessed = (g', True)" and l: "length g' = length word"
        by auto
      have "cmd_game_hangman b m rnd
          = hangman_finish b ?key word g' attempts (set_add ?letter used)"
        using Some g True hit r by (simp add: cmd_game_hangman_def Let_def)
      with hangman_finish_ok [OF l att] show ?thesis by simp
    next
      case miss
      have "cmd_game_hangman b m rnd
          = hangman_finish b ?key word guessed (attempts - 1) (set_add ?letter used)"
        using Some g True miss by (simp add: cmd_game_hangman_def Let_def)
      moreover have "attempts - 1 \<le> 6" using att by simp
      ultimately show ?thesis using hangman_finish_ok [OF len] by simp
    qed
  qed
qed

text \<open>
  C4. In an open hangman game whose blanks are as long as the word, a command with an
  argument token, the letter being the lower-cased token:
  \<^item> a token whose lower case is not one letter (of any script) is refused and the bot is
    unchanged;
  \<^item> a letter already guessed is refused and the bot is unchanged (attempts and revealed
    positions as before);
  \<^item> for a new letter, every position of the word that holds the letter is revealed and
    every other position is as before; the attempts are as before on a hit and one less on
    a miss (the letter is not in the word); the session is deleted with the word in the
    reply when no blank is left (win) or no attempt is left (loss), and otherwise it is
    stored with the new blanks, attempts and letters. It is deleted exactly in those two
    cases. (The reply of a turn that goes on needs the picture of the gallows, which is
    the matter of the next claim; the session is stored before the picture is drawn.)
\<close>

theorem hangman_turn:
  assumes game: "active_games b (from_user_id m, HANGMAN) = Some (HangmanGame word guessed attempts used)"
    and toks: "py_split (msg_text m) = cmd # tok # rest"
    and len: "length guessed = length word"
    and letter: "letter = py_lower tok"
  shows
   "(length letter \<noteq> 1 \<or> \<not> py_isalpha letter \<longrightarrow> cmd_game_hangman b m rnd = (b, Inr HangmanNotLetter))
  \<and> (length letter = 1 \<and> py_isalpha letter \<and> letter \<in> set used \<longrightarrow>
       cmd_game_hangman b m rnd = (b, Inr (HangmanRepeated letter)))
  \<and> (length letter = 1 \<and> py_isalpha letter \<and> letter \<notin> set used \<longrightarrow>
      (\<exists>guessed' attempts'.
         length guessed' = length word
       \<and> (\<forall>i<length word. guessed' ! i = (if [word ! i] = letter then letter else guessed ! i))
       \<and> attempts' = (if py_in letter word then attempts else attempts - 1)
       \<and> (if [95] \<notin> set guessed' then
            cmd_game_hangman b m rnd =
              (b\<lparr>active_games := (active_games b)((from_user_id m, HANGMAN) := None)\<rparr>,
               Inr (HangmanWin word))
          else if attempts' \<le> 0 then
            cmd_game_hangman b m rnd =
              (b\<lparr>active_games := (active_games b)((from_user_id m, HANGMAN) := None)\<rparr>,
               Inr (HangmanLoss word))
          else (\<exists>used'. set used' = insert letter (set used)
                 \<and> fst (cmd_game_hangman b m rnd) =
                     b\<lparr>active_games := (active_games b)
                         ((from_user_id m, HANGMAN) \<mapsto> HangmanGame word guessed' attempts' used')\<rparr>))
       \<and> ((active_games (fst (cmd_game_hangman b m rnd)) (from_user_id m, HANGMAN) = None)
            = ([95] \<notin> set guessed' \<or> attempts' \<le> 0))))"
proof (intro conjI impI)
  assume "length letter \<noteq> 1 \<or> \<not> py_isalpha letter"
  then show "cmd_game_hangman b m rnd = (b, Inr HangmanNotLetter)"
    using game toks letter by (auto simp: cmd_game_hangman_def Let_def)
next
  assume "length letter = 1 \<and> py_isalpha letter \<and> letter \<in> set used"
  then show "cmd_game_hangman b m rnd = (b, Inr (HangmanRepeated letter))"
    using game toks letter by (auto simp: cmd_game_hangman_def Let_def)
next
  assume a: "length letter = 1 \<and> py_isalpha letter \<and> letter \<notin> set used"
  let ?key = "(from_user_id m, HANGMAN)"
  let ?P = "\<lambda>guessed' attempts'.
         length guessed' = length word
       \<and> (\<forall>i<length word. guessed' ! i = (if [word ! i] = letter then letter else guessed ! i))
       \<and> attempts' = (if py_in letter word then attempts else attempts - 1)
       \<and> (if [95] \<notin> set guessed' then
            cmd_game_hangman b m rnd =
              (b\<lparr>active_games := (active_games b)(?key := None)\<rparr>, Inr (HangmanWin word))
          else if attempts' \<le> 0 then
            cmd_game_hangman b m rnd =
              (b\<lparr>active_games := (active_games b)(?key := None)\<rparr>, Inr (HangmanLoss word))
          else (\<exists>used'. set used' = insert letter (set used)
                 \<and> fst (cmd_game_hangman b m rnd) =
                     b\<lparr>active_games := (active_games b)
                         (?key \<mapsto> HangmanGame word guessed' attempts' used')\<rparr>))"
  have fin: "\<And>g a. (if [95] \<notin> set g then
            hangman_finish b ?key word g a (set_add letter used) =
              (b\<lparr>active_games := (active_games b)(?key := None)\<rparr>, Inr (HangmanWin word))
          else if a \<le> 0 then
            hangman_finish b ?key word g a (set_add letter used) =
              (b\<lparr>active_games := (active_games b)(?key := None)\<rparr>, Inr (HangmanLoss word))
          else (\<exists>used'. set used' = insert letter (set used)
                 \<and> fst (hangman_finish b ?key word g a (set_add letter used)) =
                     b\<lparr>active_games := (active_games b)
                         (?key \<mapsto> HangmanGame word g a used')\<rparr>))"
    by (auto simp: hangman_finish_def Let_def set_add_new split: sum.splits intro!: exI [of _ "set_add letter used"])
  have gone: "?P g a \<Longrightarrow>
      (active_games (fst (cmd_game_hangman b m rnd)) ?key = None) = ([95] \<notin> set g \<or> a \<le> 0)"
    for g a
    by (auto split: if_splits)
  have "\<exists>guessed' attempts'. ?P guessed' attempts'"
  proof (cases "py_in letter word")
    case True
    obtain g' where g': "reveal word letter 0 guessed = (g', True)" "length g' = length word"
      "\<forall>i<length word. g' ! i = (if [word ! i] = letter then letter else guessed ! i)"
      using reveal_all [OF len] by blast
    have run: "cmd_game_hangman b m rnd = hangman_finish b ?key word g' attempts (set_add letter used)"
      using game toks letter a True g'(1) by (simp add: cmd_game_hangman_def Let_def)
    have "?P g' attempts"
      using g'(2,3) True fin [of g' attempts] by (simp only: run) simp
    then show ?thesis by blast
  next
    case False
    have run: "cmd_game_hangman b m rnd = hangman_finish b ?key word guessed (attempts - 1) (set_add letter used)"
      using game toks letter a False by (simp add: cmd_game_hangman_def Let_def)
    have "?P guessed (attempts - 1)"
      using len miss_unchanged [of letter word guessed] a False fin [of guessed "attempts - 1"]
      by (simp only: run) simp
    then show ?thesis by blast
  qed
  then obtain g a where ga: "?P g a" by blast
  from gone [OF ga] have iff:
    "(active_games (fst (cmd_game_hangman b m rnd)) ?key = None) = ([95] \<notin> set g \<or> a \<le> 0)" .
  show "\<exists>guessed' attempts'.
         length guessed' = length word
       \<and> (\<forall>i<length word. guessed' ! i = (if [word ! i] = letter then letter else guessed ! i))
       \<and> attempts' = (if py_in letter word then attempts else attempts - 1)
       \<and> (if [95] \<notin> set guessed' then
            cmd_game_hangman b m rnd =
              (b\<lparr>active_games := (active_games b)(?key := None)\<rparr>, Inr (HangmanWin word))
          else if attempts' \<le> 0 then
            cmd_game_hangman b m rnd =
              (b\<lparr>active_games := (active_games b)(?key := None)\<rparr>, Inr (HangmanLoss word))
          else (\<exists>used'. set used' = insert letter (set used)
                 \<and> fst (cmd_game_hangman b m rnd) =
                     b\<lparr>active_games := (active_games b)
                         (?key \<mapsto> HangmanGame word guessed' attempts' used')\<rparr>))
       \<and> ((active_games (fst (cmd_game_hangman b m rnd)) ?key = None)
            = ([95] \<notin> set guessed' \<or> attempts' \<le> 0))"
    by (rule exI [of _ g], rule exI [of _ a]) (use ga iff in blast)
qed


lemma hangman_msg_tokens:
  "py_split (msg_text (hangman_msg (ustr ''12''))) = [ustr ''/hangman'', ustr ''12'']"
  "py_split (msg_text (hangman_msg [1103])) = [ustr ''/hangman'', [1103]]"
  "py_split (msg_text (hangman_msg [1102])) = [ustr ''/hangman'', [1102]]"
  "py_split (msg_text (hangman_msg [1080])) = [ustr ''/hangman'', [1080]]"
  "py_split (msg_text (hangman_msg [304])) = [ustr ''/hangman'', [304]]"
  "py_split (msg_text (hangman_msg [945])) = [ustr ''/hangman'', [945]]"
  by (simp_all add: hangman_msg_def py_split_def ustr_def is_space_def)

lemma hangman_bot_game:
  "active_games (hangman_bot guessed attempts used) (from_user_id (hangman_msg arg), HANGMAN)
     = Some (HangmanGame izida guessed attempts used)"
  by (simp add: hangman_bot_def hangman_msg_def)

lemma hangman_letters:
  "py_lower (ustr ''12'') = ustr ''12''" "\<not> py_isalpha (ustr ''12'')"
  "py_lower [1103] = [1103]" "py_isalpha [1103]" "\<not> py_in [1103] izida"
  "py_lower [1102] = [1102]" "py_isalpha [1102]" "\<not> py_in [1102] izida"
  "py_lower [1080] = [1080]" "py_isalpha [1080]" "py_in [1080] izida"
  by (simp_all add: text_eval py_isalpha_def ustr_def izida_def)

lemma hangman_letters_abroad:
  \<comment> \<open>the capital I with dot above, whose lower case is two code points, and the Greek
      small alpha\<close>
  "py_lower [304] = [105, 775]"
  "py_lower [945] = [945]" "py_isalpha [945]" "\<not> py_in [945] izida"
  by (simp_all add: py_lower_plain lower_cp_def lower_rows_def is_alpha_cp_def alpha_ranges_def
      table_rules py_isalpha_def izida_def)

theorem hangman_turn_witness:
  "cmd_game_hangman (hangman_bot blanks 6 []) (hangman_msg (ustr ''12'')) 0
     = (hangman_bot blanks 6 [], Inr HangmanNotLetter)
   \<and> cmd_game_hangman (hangman_bot blanks 5 [[1103]]) (hangman_msg [1103]) 0
     = (hangman_bot blanks 5 [[1103]], Inr (HangmanRepeated [1103]))
   \<and> (\<exists>guessed' used'.
        guessed' ! 0 = [1080] \<and> guessed' ! 1 = [95] \<and> guessed' ! 2 = [1080] \<and> guessed' ! 3 = [95]
        \<and> guessed' ! 4 = [95] \<and> length guessed' = 5 \<and> set used' = {[1080]}
        \<and> fst (cmd_game_hangman (hangman_bot blanks 6 []) (hangman_msg [1080]) 0)
            = (hangman_bot blanks 6 [])\<lparr>active_games :=
                (active_games (hangman_bot blanks 6 []))
                  ((7, HANGMAN) \<mapsto> HangmanGame izida guessed' 6 used')\<rparr>)
   \<and> cmd_game_hangman (hangman_bot blanks 6 []) (hangman_msg [304]) 0
     = (hangman_bot blanks 6 [], Inr HangmanNotLetter)
   \<and> (\<exists>used'. set used' = {[945]}
        \<and> fst (cmd_game_hangman (hangman_bot blanks 6 []) (hangman_msg [945]) 0)
            = (hangman_bot blanks 6 [])\<lparr>active_games :=
                (active_games (hangman_bot blanks 6 []))
                  ((7, HANGMAN) \<mapsto> HangmanGame izida blanks 5 used')\<rparr>)"
proof (intro conjI)
  have len: "length blanks = length izida"
    by (simp add: blanks_def izida_def)
  show "cmd_game_hangman (hangman_bot blanks 6 []) (hangman_msg (ustr ''12'')) 0
     = (hangman_bot blanks 6 [], Inr HangmanNotLetter)"
    using hangman_turn [OF hangman_bot_game [of blanks 6 "[]"] hangman_msg_tokens(1) len refl]
    by (simp add: hangman_letters)
  show "cmd_game_hangman (hangman_bot blanks 5 [[1103]]) (hangman_msg [1103]) 0
     = (hangman_bot blanks 5 [[1103]], Inr (HangmanRepeated [1103]))"
    using hangman_turn [OF hangman_bot_game [of blanks 5 "[[1103]]"] hangman_msg_tokens(2) len refl]
    by (simp add: hangman_letters)
  let ?res = "cmd_game_hangman (hangman_bot blanks 6 []) (hangman_msg [1080]) 0"
  let ?b = "hangman_bot blanks 6 []"
  have uid: "from_user_id (hangman_msg [1080]) = 7"
    by (simp add: hangman_msg_def)
  let ?L = "py_lower [1080]"
  let ?k = "(from_user_id (hangman_msg [1080]), HANGMAN)"
  have hyp: "length ?L = 1 \<and> py_isalpha ?L \<and> ?L \<notin> set []"
    by (simp add: hangman_letters)
  note inst = hangman_turn [OF hangman_bot_game [of blanks 6 "[]"] hangman_msg_tokens(4) len refl,
      where rnd = 0, THEN conjunct2, THEN conjunct2, THEN mp, OF hyp]
  from inst obtain g a where
    l: "length g = length izida"
    and pt0: "\<forall>i<length izida. g ! i = (if [izida ! i] = ?L then ?L else blanks ! i)"
    and a0: "a = (if py_in ?L izida then 6 else 6 - 1)"
    and chain0: "if [95] \<notin> set g then
        ?res = (?b\<lparr>active_games := (active_games ?b)(?k := None)\<rparr>, Inr (HangmanWin izida))
      else if a \<le> 0 then
        ?res = (?b\<lparr>active_games := (active_games ?b)(?k := None)\<rparr>, Inr (HangmanLoss izida))
      else (\<exists>used'. set used' = insert ?L (set [])
             \<and> fst ?res = ?b\<lparr>active_games := (active_games ?b)
                   (?k \<mapsto> HangmanGame izida g a used')\<rparr>)"
    by blast
  have pt: "\<forall>i<length izida. g ! i = (if [izida ! i] = [1080] then [1080] else blanks ! i)"
    using pt0 by (simp add: hangman_letters)
  have a: "a = 6"
    using a0 by (simp add: hangman_letters)
  have chain: "if [95] \<notin> set g then
        ?res = (?b\<lparr>active_games := (active_games ?b)((7, HANGMAN) := None)\<rparr>, Inr (HangmanWin izida))
      else if a \<le> 0 then
        ?res = (?b\<lparr>active_games := (active_games ?b)((7, HANGMAN) := None)\<rparr>, Inr (HangmanLoss izida))
      else (\<exists>used'. set used' = {[1080]}
             \<and> fst ?res = ?b\<lparr>active_games := (active_games ?b)
                   ((7, HANGMAN) \<mapsto> HangmanGame izida g a used')\<rparr>)"
    using chain0 by (simp add: hangman_letters uid cong: if_cong)
  have g0: "g ! 0 = [1080]" and g1: "g ! 1 = [95]" and g2: "g ! 2 = [1080]"
    and g3: "g ! 3 = [95]" and g4: "g ! 4 = [95]"
    using pt by (simp_all add: izida_def blanks_def)
  have l5: "length g = 5" using l by (simp add: izida_def)
  have "g ! 1 \<in> set g" using l5 by (intro nth_mem) simp
  with g1 have blank: "[95] \<in> set g" by simp
  from chain blank a have "\<exists>used'. set used' = {[1080]}
      \<and> fst ?res = ?b\<lparr>active_games := (active_games ?b)
            ((7, HANGMAN) \<mapsto> HangmanGame izida g 6 used')\<rparr>"
    by simp
  then obtain used' where
    "set used' = {[1080]}"
    "fst ?res = ?b\<lparr>active_games := (active_games ?b)((7, HANGMAN) \<mapsto> HangmanGame izida g 6 used')\<rparr>"
    by blast
  with g0 g1 g2 g3 g4 l5
  show "\<exists>guessed' used'.
        guessed' ! 0 = [1080] \<and> guessed' ! 1 = [95] \<and> guessed' ! 2 = [1080] \<and> guessed' ! 3 = [95]
        \<and> guessed' ! 4 = [95] \<and> length guessed' = 5 \<and> set used' = {[1080]}
        \<and> fst ?res = ?b\<lparr>active_games := (active_games ?b)
              ((7, HANGMAN) \<mapsto> HangmanGame izida guessed' 6 used')\<rparr>"
    by blast
  show "cmd_game_hangman (hangman_bot blanks 6 []) (hangman_msg [304]) 0
     = (hangman_bot blanks 6 [], Inr HangmanNotLetter)"
    using hangman_turn [OF hangman_bot_game [of blanks 6 "[]"] hangman_msg_tokens(5) len refl]
    by (simp add: hangman_letters_abroad)
  let ?res = "cmd_game_hangman (hangman_bot blanks 6 []) (hangman_msg [945]) 0"
  let ?L = "py_lower [945]"
  let ?k = "(from_user_id (hangman_msg [945]), HANGMAN)"
  have uid: "from_user_id (hangman_msg [945]) = 7"
    by (simp add: hangman_msg_def)
  have hyp: "length ?L = 1 \<and> py_isalpha ?L \<and> ?L \<notin> set []"
    by (simp add: hangman_letters_abroad)
  note inst = hangman_turn [OF hangman_bot_game [of blanks 6 "[]"] hangman_msg_tokens(6) len refl,
      where rnd = 0, THEN conjunct2, THEN conjunct2, THEN mp, OF hyp]
  from inst obtain g a where
    l: "length g = length izida"
    and pt0: "\<forall>i<length izida. g ! i = (if [izida ! i] = ?L then ?L else blanks ! i)"
    and a0: "a = (if py_in ?L izida then 6 else 6 - 1)"
    and chain0: "if [95] \<notin> set g then
        ?res = (?b\<lparr>active_games := (active_games ?b)(?k := None)\<rparr>, Inr (HangmanWin izida))
      else if a \<le> 0 then
        ?res = (?b\<lparr>active_games := (active_games ?b)(?k := None)\<rparr>, Inr (HangmanLoss izida))
      else (\<exists>used'. set used' = insert ?L (set [])
             \<and> fst ?res = ?b\<lparr>active_games := (active_games ?b)
                   (?k \<mapsto> HangmanGame izida g a used')\<rparr>)"
    by blast
  have "izida ! i \<noteq> 945" if "i < length izida" for i
    using nth_mem [OF that] by (auto simp: izida_def)
  with pt0 have "\<forall>i<length izida. g ! i = blanks ! i"
    by (simp add: hangman_letters_abroad)
  with l len have g: "g = blanks"
    by (simp add: list_eq_iff_nth_eq)
  have a: "a = 5"
    using a0 by (simp add: hangman_letters_abroad)
  have blank: "[95] \<in> set blanks"
    by (simp add: blanks_def)
  have "\<exists>used'. set used' = insert ?L (set [])
             \<and> fst ?res = ?b\<lparr>active_games := (active_games ?b)
                   (?k \<mapsto> HangmanGame izida g a used')\<rparr>"
    using chain0 blank g a by (simp cong: if_cong)
  then show "\<exists>used'. set used' = {[945]}
        \<and> fst ?res = ?b\<lparr>active_games := (active_games ?b)
              ((7, HANGMAN) \<mapsto> HangmanGame izida blanks 5 used')\<rparr>"
    by (simp add: hangman_letters_abroad uid g a)
qed

lemma draw_hangman_values:
  "draw_hangman 6 = Inr (stages ! 0)" "draw_hangman 5 = Inr (stages ! 1)"
  "draw_hangman 4 = Inl IndexError" "draw_hangman 3 = Inl IndexError"
  "draw_hangman 2 = Inl IndexError" "draw_hangman 1 = Inl IndexError"
  by (simp_all add: draw_hangman_def py_get_def stages_def)

lemma hangman_run1_game:
  "active_games hangman_run1 (7, HANGMAN) = Some (HangmanGame izida blanks 6 [])"
proof -
  have toks: "py_split (msg_text hangman_cmd) = [ustr ''/hangman'']"
    by (simp add: hangman_cmd_def py_split_def ustr_def is_space_def)
  have word: "choice words 2 = izida"
    by (simp add: choice_def words_def izida_def)
  have blank: "replicate (length izida) [95] = blanks"
    by (simp add: izida_def blanks_def)
  have none: "active_games (init_bot []) (7, HANGMAN) = None"
    by (simp add: init_bot_def)
  have uid: "from_user_id hangman_cmd = 7"
    by (simp add: hangman_cmd_def)
  show ?thesis
    unfolding hangman_run1_def cmd_game_hangman_def hangman_new_def
    by (simp add: none uid word blank draw_hangman_values games_played_incr_def Let_def)
qed

lemma hangman_run2_game:
  "active_games hangman_run2 (7, HANGMAN) = Some (HangmanGame izida blanks 5 [[1103]])"
proof -
  have uid: "from_user_id (hangman_msg [1103]) = 7"
    by (simp add: hangman_msg_def)
  have blank: "[95] \<in> set blanks"
    by (simp add: blanks_def)
  show ?thesis
    unfolding hangman_run2_def cmd_game_hangman_def hangman_finish_def
    using blank
    by (simp add: uid hangman_run1_game hangman_msg_tokens hangman_letters set_add_def
        draw_hangman_values Let_def)
qed

text \<open>
  C5 (the code departs from the claim). The claim: from every reachable hangman session
  (one to six attempts left) a well-formed guess gets a reply and raises nothing, the
  picture being defined for every number of attempts a turn can store. The picture list
  \<open>stages\<close> has two entries only, so \<open>stages[6 - attempts]\<close> exists for six and five
  attempts and raises \<open>IndexError\<close> for four and fewer. Evaluated: user 7 starts a game
  (word izida), misses with the letter ya (five attempts left, picture drawn), and misses
  again with the letter yu: the session is stored with four attempts left, and the handler
  raises instead of replying.
\<close>

theorem hangman_second_miss_raises:
  "active_games hangman_run2 (7, HANGMAN) = Some (HangmanGame izida blanks 5 [[1103]])
   \<and> cmd_game_hangman hangman_run2 (hangman_msg [1102]) rnd =
       (hangman_run2\<lparr>active_games := (active_games hangman_run2)
           ((7, HANGMAN) \<mapsto> HangmanGame izida blanks 4 [[1103], [1102]])\<rparr>,
        Inl IndexError)
   \<and> draw_hangman 4 = Inl IndexError"
proof -
  have uid: "from_user_id (hangman_msg [1102]) = 7"
    by (simp add: hangman_msg_def)
  have blank: "[95] \<in> set blanks"
    by (simp add: blanks_def)
  have "cmd_game_hangman hangman_run2 (hangman_msg [1102]) rnd =
       (hangman_run2\<lparr>active_games := (active_games hangman_run2)
           ((7, HANGMAN) \<mapsto> HangmanGame izida blanks 4 [[1103], [1102]])\<rparr>,
        Inl IndexError)"
    unfolding cmd_game_hangman_def hangman_finish_def
    using blank
    by (simp add: uid hangman_run2_game hangman_msg_tokens hangman_letters set_add_def
        draw_hangman_values Let_def)
  then show ?thesis
    by (simp add: hangman_run2_game draw_hangman_values)
qed

theorem hangman_second_miss_raises_witness:
  "snd (cmd_game_hangman hangman_run2 (hangman_msg [1102]) 0) = Inl IndexError"
  using hangman_second_miss_raises [of 0] by simp

subsection \<open>Cities\<close>

lemma find_city_None:
  "(find_city [c] used = None)
   = (\<forall>city \<in> set (concat (map snd cities_db)). hd city = c \<longrightarrow> city \<in> set used)"
  by (auto simp: find_city_def cities_db_def)

lemma find_city_Some:
  "find_city [c] used = Some n \<Longrightarrow>
   n \<in> set (concat (map snd cities_db)) \<and> hd n = c \<and> n \<notin> set used \<and> n \<noteq> []"
  by (auto simp: find_city_def cities_db_def split: if_splits)


lemma cities_step_ok:
  assumes "cities_ok (active_games b k)"
  shows "cities_ok (active_games (fst (cmd_game_cities b m rnd)) k)"
proof -
  have first: "choice first_cities rnd \<noteq> []"
    using choice_mem [of first_cities rnd] by (auto simp: first_cities_def)
  have new: "cities_ok (active_games (fst (cities_new b (from_user_id m, CITIES) rnd)) k)"
    using assms first
    by (auto simp: cities_new_def Let_def games_played_incr_def cities_ok_def)
  show ?thesis
  proof (cases "active_games b (from_user_id m, CITIES)")
    case None
    then show ?thesis using new by (simp add: cmd_game_cities_def)
  next
    case (Some game)
    show ?thesis
      using Some assms new
      by (auto simp: cmd_game_cities_def Let_def cities_ok_def set_add_new set_add_distinct
          dest: find_city_Some split: list.splits option.splits)
  qed
qed

lemma cities_run_ok:
  "cities_ok (active_games b k) \<Longrightarrow> cities_ok (active_games (cities_run b ms) k)"
proof (induction ms arbitrary: b)
  case Nil
  then show ?case by simp
next
  case (Cons x ms)
  obtain m rnd where x: "x = (m, rnd)" by (cases x)
  from Cons.prems have "cities_ok (active_games (fst (cmd_game_cities b m rnd)) k)"
    by (rule cities_step_ok)
  from Cons.IH [OF this] show ?case by (simp add: x)
qed


text \<open>
  C6. In an open cities game whose used cities are listed once each (as in every stored
  session), a command with an argument token, the city being the lower-cased token:
  \<^item> a city already used is refused and the bot is unchanged;
  \<^item> a city whose first letter is not the last letter of the last city is refused and the
    bot is unchanged; so an accepted city starts with the last letter of the city before;
  \<^item> otherwise, if every city of the bot's list that starts with the last letter of the
    player's city is used (the player's city included), the player wins and the session is
    deleted; if not, the bot answers with an unused city of its list that starts with that
    letter, and the session is stored with the player's city and the bot's city added to
    the used cities, each city still listed once;
  \<^item> after any sequence of \<open>/cities\<close> commands the stored session, if any, lists no city
    twice.
\<close>

theorem cities_turn:
  assumes game: "active_games b (from_user_id m, CITIES) = Some (CitiesGame last_city used turn)"
    and ok: "distinct used" "last_city \<in> set used" "last_city \<noteq> []"
    and toks: "py_split (msg_text m) = cmd # tok # rest"
    and city: "city = py_lower tok"
  shows
   "(city \<in> set used \<longrightarrow> cmd_game_cities b m rnd = (b, Inr CityUsed))
  \<and> (city \<notin> set used \<and> hd city \<noteq> last last_city \<longrightarrow>
       cmd_game_cities b m rnd = (b, Inr (CityWrongLetter [last last_city])))
  \<and> (city \<notin> set used \<and> hd city = last last_city \<longrightarrow>
       (if \<forall>c \<in> set (concat (map snd cities_db)). hd c = last city \<longrightarrow> c \<in> insert city (set used)
        then cmd_game_cities b m rnd =
               (b\<lparr>active_games := (active_games b)((from_user_id m, CITIES) := None)\<rparr>,
                Inr (CityPlayerWins tok))
        else \<exists>next_city used'.
               next_city \<in> set (concat (map snd cities_db)) \<and> hd next_city = last city
             \<and> next_city \<notin> insert city (set used)
             \<and> distinct used' \<and> set used' = insert next_city (insert city (set used))
             \<and> cmd_game_cities b m rnd =
                 (b\<lparr>active_games := (active_games b)
                     ((from_user_id m, CITIES) \<mapsto> CitiesGame next_city used' False)\<rparr>,
                  Inr (CityAccepted tok next_city))))
  \<and> (\<forall>ms. cities_ok (active_games (cities_run b ms) (from_user_id m, CITIES)))"
proof -
  let ?key = "(from_user_id m, CITIES)"
  let ?run = "cmd_game_cities b m rnd"
  let ?db = "set (concat (map snd cities_db))"
  have tok: "tok \<noteq> []"
    using py_split_nonempty [of tok "msg_text m"] toks by simp
  then have ne: "city \<noteq> []"
    using city by simp
  have used: "remdups used = used"
    using ok(1) by simp
  have unfold: "?run =
      (if city \<in> set used then (b, Inr CityUsed)
       else if hd city \<noteq> last last_city then (b, Inr (CityWrongLetter [last last_city]))
       else
         (case find_city [last city] (set_add city used) of
            Some next_city \<Rightarrow>
              (b\<lparr>active_games := (active_games b)
                  (?key \<mapsto> CitiesGame next_city (set_add next_city (set_add city used)) False)\<rparr>,
               Inr (CityAccepted tok next_city))
          | None \<Rightarrow>
              (b\<lparr>active_games := (active_games b)(?key := None)\<rparr>, Inr (CityPlayerWins tok))))"
    using game toks tok ok(1,3) ne
    by (simp add: cmd_game_cities_def Let_def game_used_cities_def game_last_city_def
        list_case_hd city [symmetric] distinct_remdups_id cong: option.case_cong)
  have rejected: "city \<in> set used \<longrightarrow> ?run = (b, Inr CityUsed)"
    by (simp add: unfold)
  have wrong: "city \<notin> set used \<and> hd city \<noteq> last last_city \<longrightarrow>
       ?run = (b, Inr (CityWrongLetter [last last_city]))"
    by (simp add: unfold)
  have accepted: "if \<forall>c \<in> ?db. hd c = last city \<longrightarrow> c \<in> insert city (set used)
        then ?run = (b\<lparr>active_games := (active_games b)(?key := None)\<rparr>, Inr (CityPlayerWins tok))
        else \<exists>next_city used'.
               next_city \<in> ?db \<and> hd next_city = last city
             \<and> next_city \<notin> insert city (set used)
             \<and> distinct used' \<and> set used' = insert next_city (insert city (set used))
             \<and> ?run =
                 (b\<lparr>active_games := (active_games b)(?key \<mapsto> CitiesGame next_city used' False)\<rparr>,
                  Inr (CityAccepted tok next_city))"
    if a: "city \<notin> set used \<and> hd city = last last_city"
  proof (cases "find_city [last city] (set_add city used)")
    case None
    then have "\<forall>c \<in> ?db. hd c = last city \<longrightarrow> c \<in> insert city (set used)"
      by (simp only: find_city_None set_add_new)
    with None a show ?thesis by (simp add: unfold)
  next
    case (Some n)
    from find_city_Some [OF Some] have n:
      "n \<in> ?db" "hd n = last city" "n \<notin> insert city (set used)"
      by (simp_all add: set_add_new)
    then have no: "\<not> (\<forall>c \<in> ?db. hd c = last city \<longrightarrow> c \<in> insert city (set used))"
      by blast
    have "distinct (set_add n (set_add city used))
        \<and> set (set_add n (set_add city used)) = insert n (insert city (set used))"
      by (simp add: set_add_new set_add_distinct)
    moreover have "?run =
        (b\<lparr>active_games := (active_games b)
            (?key \<mapsto> CitiesGame n (set_add n (set_add city used)) False)\<rparr>,
         Inr (CityAccepted tok n))"
      using Some a by (simp add: unfold)
    ultimately have "\<exists>next_city used'.
             next_city \<in> ?db \<and> hd next_city = last city
           \<and> next_city \<notin> insert city (set used)
           \<and> distinct used' \<and> set used' = insert next_city (insert city (set used))
           \<and> ?run =
               (b\<lparr>active_games := (active_games b)(?key \<mapsto> CitiesGame next_city used' False)\<rparr>,
                Inr (CityAccepted tok next_city))"
      using n by blast
    with no show ?thesis by (simp only: if_False)
  qed
  have "cities_ok (active_games b ?key)"
    using game ok by (simp add: cities_ok_def)
  then have runs: "\<forall>ms. cities_ok (active_games (cities_run b ms) ?key)"
    by (simp add: cities_run_ok)
  from rejected wrong accepted runs show ?thesis
    by blast
qed

lemma cities_msg_tokens:
  "py_split (msg_text (cities_msg Moskva)) = [ustr ''/cities'', Moskva]"
  "py_split (msg_text (cities_msg Kiev)) = [ustr ''/cities'', Kiev]"
  "py_split (msg_text (cities_msg Arkhangelsk)) = [ustr ''/cities'', Arkhangelsk]"
  "py_split (msg_text (cities_msg Anapa)) = [ustr ''/cities'', Anapa]"
  by (simp_all add: cities_msg_def py_split_def ustr_def is_space_def Moskva_def Kiev_def
      Arkhangelsk_def Anapa_def)

lemma cities_bot_game:
  "active_games cities_bot (from_user_id (cities_msg arg), CITIES)
     = Some (CitiesGame moskva [moskva] True)"
  by (simp add: cities_bot_def cities_msg_def)

lemma cities_lower:
  "py_lower Moskva = moskva"
  "py_lower Kiev = [1082, 1080, 1077, 1074]"
  "py_lower Arkhangelsk = [1072, 1088, 1093, 1072, 1085, 1075, 1077, 1083, 1100, 1089, 1082]"
  "py_lower Anapa = [1072, 1085, 1072, 1087, 1072]"
  by (simp_all add: text_eval Moskva_def Kiev_def Arkhangelsk_def Anapa_def
      moskva_def)

theorem cities_turn_witness:
  "cmd_game_cities cities_bot (cities_msg Moskva) 0 = (cities_bot, Inr CityUsed)
   \<and> cmd_game_cities cities_bot (cities_msg Kiev) 0 = (cities_bot, Inr (CityWrongLetter [1072]))
   \<and> cmd_game_cities cities_bot (cities_msg Arkhangelsk) 0 =
       (cities_bot\<lparr>active_games := (active_games cities_bot)((7, CITIES) := None)\<rparr>,
        Inr (CityPlayerWins Arkhangelsk))
   \<and> (\<exists>next_city used'.
         hd next_city = 1072 \<and> distinct used'
       \<and> set used' = {next_city, [1072, 1085, 1072, 1087, 1072], moskva}
       \<and> cmd_game_cities cities_bot (cities_msg Anapa) 0 =
           (cities_bot\<lparr>active_games := (active_games cities_bot)
               ((7, CITIES) \<mapsto> CitiesGame next_city used' False)\<rparr>,
            Inr (CityAccepted Anapa next_city)))"
proof -
  have ok: "distinct [moskva]" "moskva \<in> set [moskva]" "moskva \<noteq> []"
    by (simp_all add: moskva_def)
  have uid: "from_user_id (cities_msg arg) = 7" for arg
    by (simp add: cities_msg_def)
  note turn = cities_turn [OF cities_bot_game ok _ refl, where rnd = 0]
  have used: "cmd_game_cities cities_bot (cities_msg Moskva) 0 = (cities_bot, Inr CityUsed)"
    using turn [OF cities_msg_tokens(1)] by (simp add: cities_lower)
  have wrong: "cmd_game_cities cities_bot (cities_msg Kiev) 0
      = (cities_bot, Inr (CityWrongLetter [1072]))"
    using turn [OF cities_msg_tokens(2)] by (simp add: cities_lower moskva_def)
  have wins: "cmd_game_cities cities_bot (cities_msg Arkhangelsk) 0 =
       (cities_bot\<lparr>active_games := (active_games cities_bot)((7, CITIES) := None)\<rparr>,
        Inr (CityPlayerWins Arkhangelsk))"
    using turn [OF cities_msg_tokens(3)]
    by (simp add: cities_lower moskva_def cities_db_def uid)
  have accepted: "\<exists>next_city used'.
         hd next_city = 1072 \<and> distinct used'
       \<and> set used' = {next_city, [1072, 1085, 1072, 1087, 1072], moskva}
       \<and> cmd_game_cities cities_bot (cities_msg Anapa) 0 =
           (cities_bot\<lparr>active_games := (active_games cities_bot)
               ((7, CITIES) \<mapsto> CitiesGame next_city used' False)\<rparr>,
            Inr (CityAccepted Anapa next_city))"
    using turn [OF cities_msg_tokens(4)]
    by (simp add: cities_lower moskva_def cities_db_def uid) blast
  from used wrong wins accepted show ?thesis by blast
qed

subsection \<open>A game command without an argument\<close>

text \<open>
  C9. For each of the four games, the game command with no argument token, sent while a
  session of that game is open, does not take a turn in the session: whatever the session
  holds, it is overwritten by a newly drawn one (a new secret number with no attempts
  counted, a new word with all blanks and six attempts, a new opening city, a new riddle),
  the reply is the opening prompt, and the counter of games played grows by one.
\<close>

theorem command_without_argument_restarts:
  assumes toks: "length (py_split (msg_text m)) \<le> 1"
  shows
   "(active_games b (from_user_id m, GUESS_NUMBER) = Some g1 \<longrightarrow>
       cmd_game_guess b m rnd =
         (games_played_incr (b\<lparr>active_games := (active_games b)
             ((from_user_id m, GUESS_NUMBER) \<mapsto> GuessGame (1 + int (rnd mod 100)) 0)\<rparr>),
          Inr GuessStart))
  \<and> (active_games b (from_user_id m, HANGMAN) = Some g2 \<longrightarrow>
       cmd_game_hangman b m rnd =
         (games_played_incr (b\<lparr>active_games := (active_games b)
             ((from_user_id m, HANGMAN) \<mapsto>
                HangmanGame (choice words rnd) (replicate (length (choice words rnd)) [95]) 6 [])\<rparr>),
          Inr (HangmanStart (stages ! 0) (length (choice words rnd))
                 (replicate (length (choice words rnd)) [95]))))
  \<and> (active_games b (from_user_id m, CITIES) = Some g3 \<longrightarrow>
       cmd_game_cities b m rnd =
         (games_played_incr (b\<lparr>active_games := (active_games b)
             ((from_user_id m, CITIES) \<mapsto>
                CitiesGame (choice first_cities rnd) [choice first_cities rnd] True)\<rparr>),
          Inr (CityStart (choice first_cities rnd))))
  \<and> (active_games b (from_user_id m, RIDDLE) = Some g4 \<longrightarrow>
       cmd_game_riddle b m rnd =
         (games_played_incr (b\<lparr>active_games := (active_games b)
             ((from_user_id m, RIDDLE) \<mapsto>
                RiddleGame (fst (choice riddles rnd)) (snd (choice riddles rnd)))\<rparr>),
          Inr (RiddleStart (fst (choice riddles rnd)))))
  \<and> games_played (stats (games_played_incr b')) = games_played (stats b') + 1"
proof -
  have few: "\<not> 1 < length (py_split (msg_text m))"
    using toks by simp
  have guess: "active_games b (from_user_id m, GUESS_NUMBER) = Some g1 \<longrightarrow>
       cmd_game_guess b m rnd =
         (games_played_incr (b\<lparr>active_games := (active_games b)
             ((from_user_id m, GUESS_NUMBER) \<mapsto> GuessGame (1 + int (rnd mod 100)) 0)\<rparr>),
          Inr GuessStart)"
    using few by (simp add: cmd_game_guess_def guess_new_def Let_def)
  have hangman: "active_games b (from_user_id m, HANGMAN) = Some g2 \<longrightarrow>
       cmd_game_hangman b m rnd =
         (games_played_incr (b\<lparr>active_games := (active_games b)
             ((from_user_id m, HANGMAN) \<mapsto>
                HangmanGame (choice words rnd) (replicate (length (choice words rnd)) [95]) 6 [])\<rparr>),
          Inr (HangmanStart (stages ! 0) (length (choice words rnd))
                 (replicate (length (choice words rnd)) [95])))"
    using few by (simp add: cmd_game_hangman_def hangman_new_def draw_hangman_values Let_def)
  have cities: "active_games b (from_user_id m, CITIES) = Some g3 \<longrightarrow>
       cmd_game_cities b m rnd =
         (games_played_incr (b\<lparr>active_games := (active_games b)
             ((from_user_id m, CITIES) \<mapsto>
                CitiesGame (choice first_cities rnd) [choice first_cities rnd] True)\<rparr>),
          Inr (CityStart (choice first_cities rnd)))"
    using few by (simp add: cmd_game_cities_def cities_new_def Let_def)
  have riddle: "active_games b (from_user_id m, RIDDLE) = Some g4 \<longrightarrow>
       cmd_game_riddle b m rnd =
         (games_played_incr (b\<lparr>active_games := (active_games b)
             ((from_user_id m, RIDDLE) \<mapsto>
                RiddleGame (fst (choice riddles rnd)) (snd (choice riddles rnd)))\<rparr>),
          Inr (RiddleStart (fst (choice riddles rnd))))"
    using few by (simp add: cmd_game_riddle_def riddle_new_def Let_def)
  have count: "games_played (stats (games_played_incr b')) = games_played (stats b') + 1"
    by (simp add: games_played_incr_def)
  from guess hangman cities riddle count show ?thesis
    by blast
qed

lemma bare_msg_tokens:
  "length (py_split (msg_text (bare_msg ''/guess''))) \<le> 1"
  "length (py_split (msg_text (bare_msg ''/hangman''))) \<le> 1"
  "length (py_split (msg_text (bare_msg ''/cities''))) \<le> 1"
  "length (py_split (msg_text (bare_msg ''/riddle''))) \<le> 1"
  by (simp_all add: bare_msg_def py_split_def ustr_def is_space_def)

lemma all_games_bot_games:
  "active_games all_games_bot (7, GUESS_NUMBER) = Some (GuessGame 42 3)"
  "active_games all_games_bot (7, HANGMAN)
     = Some (HangmanGame izida blanks 5 [[1103]])"
  "active_games all_games_bot (7, CITIES)
     = Some (CitiesGame moskva [moskva] True)"
  "active_games all_games_bot (7, RIDDLE)
     = Some (RiddleGame (fst (riddles ! 1)) (snd (riddles ! 1)))"
  by (simp_all add: all_games_bot_def)

theorem command_without_argument_restarts_witness:
  "active_games (fst (cmd_game_guess all_games_bot (bare_msg ''/guess'') 7)) (7, GUESS_NUMBER)
     = Some (GuessGame 8 0)
   \<and> games_played (stats (fst (cmd_game_guess all_games_bot (bare_msg ''/guess'') 7))) = 1
   \<and> active_games (fst (cmd_game_hangman all_games_bot (bare_msg ''/hangman'') 2)) (7, HANGMAN)
     = Some (HangmanGame izida blanks 6 [])
   \<and> games_played (stats (fst (cmd_game_hangman all_games_bot (bare_msg ''/hangman'') 2))) = 1
   \<and> active_games (fst (cmd_game_cities all_games_bot (bare_msg ''/cities'') 0)) (7, CITIES)
     = Some (CitiesGame moskva [moskva] True)
   \<and> games_played (stats (fst (cmd_game_cities all_games_bot (bare_msg ''/cities'') 0))) = 1
   \<and> active_games (fst (cmd_game_riddle all_games_bot (bare_msg ''/riddle'') 3)) (7, RIDDLE)
     = Some (RiddleGame (fst (riddles ! 3)) (snd (riddles ! 3)))
   \<and> games_played (stats (fst (cmd_game_riddle all_games_bot (bare_msg ''/riddle'') 3))) = 1"
proof -
  have uid: "from_user_id (bare_msg c) = 7" for c
    by (simp add: bare_msg_def)
  have zero: "games_played (stats all_games_bot) = 0"
    by (simp add: all_games_bot_def init_bot_def)
  have draws: "choice words 2 = izida" "replicate (length izida) [95] = blanks"
    "choice first_cities 0 = moskva" "choice riddles 3 = riddles ! 3"
    by (simp_all add: choice_def words_def izida_def blanks_def first_cities_def moskva_def
        riddles_def)
  note r = command_without_argument_restarts [where b = all_games_bot]
  have guess: "cmd_game_guess all_games_bot (bare_msg ''/guess'') 7 =
      (games_played_incr (all_games_bot\<lparr>active_games := (active_games all_games_bot)
          ((7, GUESS_NUMBER) \<mapsto> GuessGame 8 0)\<rparr>), Inr GuessStart)"
    using r [OF bare_msg_tokens(1), where rnd = 7, THEN conjunct1]
    by (simp add: all_games_bot_games uid)
  have hangman: "cmd_game_hangman all_games_bot (bare_msg ''/hangman'') 2 =
      (games_played_incr (all_games_bot\<lparr>active_games := (active_games all_games_bot)
          ((7, HANGMAN) \<mapsto> HangmanGame izida blanks 6 [])\<rparr>),
       Inr (HangmanStart (stages ! 0) (length izida) blanks))"
    using r [OF bare_msg_tokens(2), where rnd = 2, THEN conjunct2, THEN conjunct1]
    by (simp add: all_games_bot_games uid draws)
  have cities: "cmd_game_cities all_games_bot (bare_msg ''/cities'') 0 =
      (games_played_incr (all_games_bot\<lparr>active_games := (active_games all_games_bot)
          ((7, CITIES) \<mapsto> CitiesGame moskva [moskva] True)\<rparr>), Inr (CityStart moskva))"
    using r [OF bare_msg_tokens(3), where rnd = 0, THEN conjunct2, THEN conjunct2, THEN conjunct1]
    by (simp add: all_games_bot_games uid draws)
  have riddle: "cmd_game_riddle all_games_bot (bare_msg ''/riddle'') 3 =
      (games_played_incr (all_games_bot\<lparr>active_games := (active_games all_games_bot)
          ((7, RIDDLE) \<mapsto> RiddleGame (fst (riddles ! 3)) (snd (riddles ! 3)))\<rparr>),
       Inr (RiddleStart (fst (riddles ! 3))))"
    using r [OF bare_msg_tokens(4), where rnd = 3, THEN conjunct2, THEN conjunct2,
        THEN conjunct2, THEN conjunct1]
    by (simp add: all_games_bot_games uid draws)
  show ?thesis
    by (simp add: guess hangman cities riddle games_played_incr_def zero)
qed

subsection \<open>The teach directive\<close>

lemma starts_with_py_in: "starts_with p s \<Longrightarrow> py_in p s"
  by (cases s) (auto elim: starts_with.elims)

lemma py_in_drop: "py_in p (drop k s) \<Longrightarrow> p \<noteq> [] \<Longrightarrow> py_in p s"
proof (induction s arbitrary: k)
  case Nil
  then show ?case by simp
next
  case (Cons c s)
  then show ?case by (cases k) auto
qed

lemma py_in_dropWhile: "py_in p (dropWhile P s) \<Longrightarrow> p \<noteq> [] \<Longrightarrow> py_in p s"
  by (induction s) (auto split: if_splits)

lemma after_arrow_py_in: "after_arrow s = Some g2 \<Longrightarrow> py_in [45, 62] s"
  by (auto simp: after_arrow_def starts_with_py_in split: if_splits)

lemma lazy_group_py_in: "lazy_group g s = Some r \<Longrightarrow> py_in [45, 62] s"
proof (induction s arbitrary: g)
  case Nil
  then show ?case by simp
next
  case (Cons c s)
  show ?case
  proof (cases "after_arrow (dropWhile is_space (c # s))")
    case None
    with Cons.prems have "lazy_group (g @ [c]) s = Some r" by simp
    from Cons.IH [OF this] show ?thesis by simp
  next
    case (Some g2)
    from after_arrow_py_in [OF Some] show ?thesis
      by (rule py_in_dropWhile) simp
  qed
qed

lemma try_ws_py_in: "try_ws k s = Some r \<Longrightarrow> py_in [45, 62] s"
proof (induction k)
  case 0
  then show ?case by simp
next
  case (Suc k)
  show ?case
  proof (cases "lazy_from (drop (Suc k) s)")
    case None
    with Suc show ?thesis by simp
  next
    case (Some r')
    then obtain c s' where cs: "drop (Suc k) s = c # s'" and "lazy_group [c] s' = Some r'"
      by (auto simp: lazy_from_def split: list.splits)
    then have "py_in [45, 62] (c # s')"
      using lazy_group_py_in by simp
    then show ?thesis
      using py_in_drop [of "[45, 62]" "Suc k" s] cs by simp
  qed
qed

lemma learn_match_needs_arrow: "\<not> py_in [45, 62] txt \<Longrightarrow> learn_match txt = None"
proof (rule ccontr)
  assume no: "\<not> py_in [45, 62] txt" and "learn_match txt \<noteq> None"
  then obtain r where "try_ws (length (takeWhile is_space (drop (length keyword) txt)))
      (drop (length keyword) txt) = Some r"
    by (auto simp: learn_match_def Let_def split: if_splits)
  then have "py_in [45, 62] (drop (length keyword) txt)"
    by (rule try_ws_py_in)
  then have "py_in [45, 62] txt"
    by (rule py_in_drop) simp
  with no show False by simp
qed

text \<open>
  C8. The teach directive, on any text: with the question and the answer being the two
  groups of the match, stripped,
  \<^item> a text without the arrow does not match, and a text that does not match gets the
    format-error reply, the bot unchanged;
  \<^item> a question or an answer shorter than 2 gets the too-short reply, and otherwise a
    question longer than 100 or an answer longer than 200 gets the too-long reply, the bot
    unchanged in both cases;
  \<^item> otherwise the answer is appended to the answers stored under the lower-cased
    question (none before, if the question is new), and the acknowledgement carries the
    question and the answer as parsed;
  \<^item> so the bot changes only when the question has 2 to 100 characters and the answer 2 to
    200; and the format-error reply is neither of the two length replies.
\<close>

theorem teach_directive:
  "(\<not> py_in [45, 62] line \<longrightarrow> learn_match line = None)
 \<and> (learn_match line = None \<longrightarrow> process_learn_command b line rnd = (b, LearnBadFormat))
 \<and> (\<forall>g1 g2. learn_match line = Some (g1, g2) \<longrightarrow>
      (if length (py_strip g1) < 2 \<or> length (py_strip g2) < 2 then
         process_learn_command b line rnd = (b, LearnTooShort)
       else if 100 < length (py_strip g1) \<or> 200 < length (py_strip g2) then
         process_learn_command b line rnd = (b, LearnTooLong)
       else
         process_learn_command b line rnd =
           (b\<lparr>learned_responses := (learned_responses b)
               (py_lower (py_strip g1) \<mapsto>
                  (case learned_responses b (py_lower (py_strip g1)) of
                     None \<Rightarrow> [] | Some xs \<Rightarrow> xs) @ [py_strip g2])\<rparr>,
            LearnAck (rnd mod 2) (py_strip g1) (py_strip g2))))
 \<and> (fst (process_learn_command b line rnd) \<noteq> b \<longrightarrow>
      (\<exists>g1 g2. learn_match line = Some (g1, g2)
         \<and> 2 \<le> length (py_strip g1) \<and> length (py_strip g1) \<le> 100
         \<and> 2 \<le> length (py_strip g2) \<and> length (py_strip g2) \<le> 200))
 \<and> LearnBadFormat \<notin> {LearnTooShort, LearnTooLong}"
proof -
  have arrow: "\<not> py_in [45, 62] line \<longrightarrow> learn_match line = None"
    by (simp add: learn_match_needs_arrow)
  have nomatch: "learn_match line = None \<longrightarrow> process_learn_command b line rnd = (b, LearnBadFormat)"
    by (simp add: process_learn_command_def)
  have matched: "if length (py_strip g1) < 2 \<or> length (py_strip g2) < 2 then
         process_learn_command b line rnd = (b, LearnTooShort)
       else if 100 < length (py_strip g1) \<or> 200 < length (py_strip g2) then
         process_learn_command b line rnd = (b, LearnTooLong)
       else
         process_learn_command b line rnd =
           (b\<lparr>learned_responses := (learned_responses b)
               (py_lower (py_strip g1) \<mapsto>
                  (case learned_responses b (py_lower (py_strip g1)) of
                     None \<Rightarrow> [] | Some xs \<Rightarrow> xs) @ [py_strip g2])\<rparr>,
            LearnAck (rnd mod 2) (py_strip g1) (py_strip g2))"
    if "learn_match line = Some (g1, g2)" for g1 g2
    using that by (auto simp: process_learn_command_def Let_def domIff)
  have changed: "fst (process_learn_command b line rnd) \<noteq> b \<longrightarrow>
      (\<exists>g1 g2. learn_match line = Some (g1, g2)
         \<and> 2 \<le> length (py_strip g1) \<and> length (py_strip g1) \<le> 100
         \<and> 2 \<le> length (py_strip g2) \<and> length (py_strip g2) \<le> 200)"
  proof (cases "learn_match line")
    case None
    then show ?thesis by (simp add: process_learn_command_def)
  next
    case (Some r)
    obtain g1 g2 where r: "r = (g1, g2)" by (cases r)
    show ?thesis
      using matched [of g1 g2] Some r by (auto split: if_splits)
  qed
  have "LearnBadFormat \<notin> {LearnTooShort, LearnTooLong}"
    by simp
  with arrow nomatch matched changed show ?thesis
    by blast
qed

lemma teach_matches:
  "learn_match teach_ok = Some (Izida, privet)"
  "learn_match teach_short = Some (ustr ''a'', ustr ''b'')"
  "\<not> py_in [45, 62] teach_no_arrow"
  by (simp_all add: learn_match_def teach_ok_def teach_short_def teach_no_arrow_def keyword_def
      Izida_def privet_def ustr_def text_eval is_space_def lazy_from_def
      after_arrow_def group2_def Let_def)

lemma lazy_group_letters:
  "lazy_group g (replicate n 97 @ ustr '' -> ok'') = Some (g @ replicate n 97, ustr ''ok'')"
proof (induction n arbitrary: g)
  case 0
  show ?case
    by (simp add: ustr_def is_space_def after_arrow_def group2_def)
next
  case (Suc n)
  have "lazy_group g (replicate (Suc n) 97 @ ustr '' -> ok'')
      = lazy_group (g @ [97]) (replicate n 97 @ ustr '' -> ok'')"
    by (simp add: is_space_def after_arrow_def)
  then show ?case
    by (simp add: Suc.IH replicate_app_Cons_same)
qed

lemma teach_long_match:
  "learn_match teach_long = Some (replicate 101 97, ustr ''ok'')"
proof -
  have long: "replicate 101 97 = (97 :: nat) # replicate 100 97"
    by (simp add: numeral_eq_Suc)
  have "lazy_from (replicate 101 97 @ ustr '' -> ok'') = Some (replicate 101 97, ustr ''ok'')"
    unfolding long by (simp add: lazy_from_def lazy_group_letters)
  then show ?thesis
    by (simp add: learn_match_def teach_long_def keyword_def text_eval
        is_space_def Let_def)
qed

lemma teach_strips:
  "py_strip Izida = Izida" "py_strip privet = privet"
  "py_strip (ustr ''a'') = ustr ''a''" "py_strip (ustr ''b'') = ustr ''b''"
  "py_strip (ustr ''ok'') = ustr ''ok''" "py_strip (replicate 101 97) = replicate 101 97"
  "py_lower Izida = izida"
  "length (ustr ''a'') = 1" "length (ustr ''b'') = 1" "length (ustr ''ok'') = 2"
  "length Izida = 5" "length privet = 6"
proof -
  have long: "replicate 101 97 = (97 :: nat) # replicate 99 97 @ [97]"
    by (simp add: numeral_eq_Suc replicate_append_same)
  show "py_strip (replicate 101 97) = replicate 101 97"
    unfolding long by (simp add: py_strip_def is_space_def)
qed (simp_all add: py_strip_def is_space_def Izida_def privet_def izida_def ustr_def
    text_eval)

theorem teach_directive_witness:
  "process_learn_command (init_bot []) teach_no_arrow 0 = (init_bot [], LearnBadFormat)
   \<and> process_learn_command (init_bot []) teach_short 0 = (init_bot [], LearnTooShort)
   \<and> process_learn_command (init_bot []) teach_long 0 = (init_bot [], LearnTooLong)
   \<and> process_learn_command (init_bot []) teach_ok 0 =
       ((init_bot [])\<lparr>learned_responses := [izida \<mapsto> [privet]]\<rparr>, LearnAck 0 Izida privet)"
proof -
  note t = teach_directive [where b = "init_bot []" and rnd = 0]
  have none: "learned_responses (init_bot []) = Map.empty"
    by (simp add: init_bot_def)
  have no_arrow: "process_learn_command (init_bot []) teach_no_arrow 0 = (init_bot [], LearnBadFormat)"
    using t [where line = teach_no_arrow] teach_matches(3) by blast
  have short: "process_learn_command (init_bot []) teach_short 0 = (init_bot [], LearnTooShort)"
    using t [where line = teach_short, THEN conjunct2, THEN conjunct2, THEN conjunct1,
        THEN spec, THEN spec, THEN mp, OF teach_matches(2)]
    by (simp add: teach_strips)
  have long: "process_learn_command (init_bot []) teach_long 0 = (init_bot [], LearnTooLong)"
    using t [where line = teach_long, THEN conjunct2, THEN conjunct2, THEN conjunct1,
        THEN spec, THEN spec, THEN mp, OF teach_long_match]
    by (simp add: teach_strips)
  have ok: "process_learn_command (init_bot []) teach_ok 0 =
       ((init_bot [])\<lparr>learned_responses := [izida \<mapsto> [privet]]\<rparr>, LearnAck 0 Izida privet)"
    using t [where line = teach_ok, THEN conjunct2, THEN conjunct2, THEN conjunct1,
        THEN spec, THEN spec, THEN mp, OF teach_matches(1)]
    by (simp add: teach_strips none)
  from no_arrow short long ok show ?thesis by blast
qed

subsection \<open>Persistence\<close>

lemma dict_refused: "jsonb_in PyDict = Inl DataError"
  by (simp add: jsonb_in_def)

lemma save_all_data_raises:
  "save_all_data use_postgres b d = (d, Some (if use_postgres then DataError else AttributeError))"
  by (simp add: save_all_data_def transaction_def upsert_users_def insert_stats_def dict_refused)

text \<open>
  C2 (the code departs from the claim). The claim: \<open>save_all_data\<close> followed by
  \<open>load_all_data\<close> into a new bot gives back the phrase store, the users, the counters and
  the game sessions that were saved, on PostgreSQL and on the JSON files. The code is
  written to do so, and stores nothing on either. On PostgreSQL the phrase store and the
  counters are given to the driver as dicts for JSONB columns, for which no codec is
  registered: the first insert into \<open>stats\<close> raises \<open>DataError\<close> and the transaction is
  rolled back, the upserts of the users with it. On the JSON files the first statement
  calls \<open>self._save_json\<close>, which the class does not define. Evaluated on a bot with one
  user, one taught phrase, counters and four open games, and a new database: the store
  after \<open>save_all_data\<close> is the empty store it was, so no \<open>load_all_data\<close> can give the bot
  back.
\<close>

theorem save_all_data_stores_nothing:
  "save_all_data True saved_bot empty_db = (empty_db, Some DataError)
   \<and> save_all_data False saved_bot empty_db = (empty_db, Some AttributeError)
   \<and> user_data saved_bot 7 \<noteq> None \<and> users empty_db 7 = None
   \<and> learned_responses saved_bot izida = Some [privet] \<and> stats_rows empty_db = Map.empty"
  by (simp add: save_all_data_def transaction_def upsert_users_def insert_stats_def jsonb_in_def
      saved_bot_def empty_db_def)

subsection \<open>The context stage\<close>

text \<open>
  \<open>handle_message\<close> appends the message to the history before it computes the reply, so in
  the context stage the last entry of the history is the message being answered. A
  message with one of the cue words is matched by the second pattern (\<open>kak.*dela\<close>,
  \<open>kak.*ty\<close>) and is answered there; hence no message ever gets the cue reply of the
  context stage.
\<close>

lemma starts_with_append:
  "starts_with (a @ b) s \<Longrightarrow> starts_with a s \<and> starts_with b (drop (length a) s)"
  by (induction a s rule: starts_with.induct) auto

lemma starts_ci_later_on: "starts_ci w s \<Longrightarrow> later_on w s"
  by (cases s) auto

lemma cue_matches_pattern:
  assumes "py_in (v @ 32 # w) s" and plain: "\<forall>p\<in>set (v @ w). sre_lower p = p"
  shows "re_search (Dots v w) s"
  using assms(1)
proof (induction s)
  case Nil
  then show ?case by simp
next
  case (Cons c s)
  show ?case
  proof (cases "starts_with (v @ 32 # w) (c # s)")
    case True
    from starts_with_append [OF True] have v: "starts_with v (c # s)"
      and w: "starts_with (32 # w) (drop (length v) (c # s))"
      by simp_all
    from w obtain t where t: "drop (length v) (c # s) = 32 # t" and "starts_with w t"
      by (cases "drop (length v) (c # s)") auto
    then have "starts_ci w t"
      using plain by (simp add: starts_with_ci)
    then have "later_on w (32 # t)"
      by (simp add: starts_ci_later_on)
    moreover have "starts_ci v (c # s)"
      using v plain by (simp add: starts_with_ci)
    ultimately show ?thesis using t by simp
  next
    case False
    with Cons.prems have "py_in (v @ 32 # w) s" by simp
    with Cons.IH show ?thesis by simp
  qed
qed

lemma first_match_Some:
  "(alts, n) \<in> set ps \<Longrightarrow> list_ex (\<lambda>a. re_search a s) alts \<Longrightarrow> first_match k ps s \<noteq> None"
  by (induction k ps s rule: first_match.induct) auto

lemma cue_stops_at_patterns:
  assumes "list_ex (\<lambda>q. py_in q s) cue_words"
  shows "first_match 0 response_patterns s \<noteq> None"
proof -
  let ?kak = "[1082, 1072, 1082]"
  let ?dela = "[1076, 1077, 1083, 1072]"
  let ?ty = "[1090, 1099]"
  let ?alts = "[Dots ?kak ?dela, Dots ?kak [1078, 1080, 1079, 1085, 1100],
      Dots [1095, 1077, 1075, 1086] ?ty, Dots ?kak ?ty]"
  have plain: "\<forall>p\<in>set (?kak @ ?dela). sre_lower p = p" "\<forall>p\<in>set (?kak @ ?ty). sre_lower p = p"
    by (simp_all add: sre_lower_plain)
  from assms have "py_in (?kak @ 32 # ?dela) s \<or> py_in (?kak @ 32 # ?ty) s"
    by (simp add: cue_words_def)
  then have "re_search (Dots ?kak ?dela) s \<or> re_search (Dots ?kak ?ty) s"
    using cue_matches_pattern plain by blast
  then have "list_ex (\<lambda>a. re_search a s) ?alts"
    by auto
  moreover have "(?alts, 1) \<in> set response_patterns"
    by (simp add: response_patterns_def)
  ultimately show ?thesis
    by (rule first_match_Some [rotated])
qed

lemma last_deque_append: "last (deque_append xs x) = x"
  by (simp add: deque_append_def)

lemma answer_message_cases:
  obtains (empty) "py_strip (msg_text m) = []" "answer_message b m now rnd = (b, Inr None)"
  | (learn) b2 where "last (conversation_history b2 (from_user_id m)) = py_strip (msg_text m)"
      "answer_message b m now rnd =
         (fst (process_learn_command b2 (py_strip (msg_text m)) (rnd 0)),
          Inr (Some (snd (process_learn_command b2 (py_strip (msg_text m)) (rnd 0)))))"
  | (respond) b2 where "last (conversation_history b2 (from_user_id m)) = py_strip (msg_text m)"
      "answer_message b m now rnd =
         (b2, case generate_response b2 (py_strip (msg_text m)) (from_user_id m) rnd of
                Inl e \<Rightarrow> Inl e | Inr response \<Rightarrow> Inr (Some response))"
proof (cases "py_strip (msg_text m) = []")
  case True
  then have "answer_message b m now rnd = (b, Inr None)"
    by (simp add: answer_message_def)
  with True show ?thesis by (rule empty)
next
  case False
  let ?t = "py_strip (msg_text m)"
  let ?u = "from_user_id m"
  define b1 where "b1 =
    (case user_data b ?u of
       Some u \<Rightarrow>
         b\<lparr>stats := count_message (stats b), user_data := (user_data b)(?u \<mapsto> known_user u now)\<rparr>
     | None \<Rightarrow>
         b\<lparr>stats := (count_message (stats b))
              \<lparr>unique_users := unique_users (count_message (stats b)) + 1\<rparr>,
           user_data := (user_data b)(?u \<mapsto> new_user m now 1)\<rparr>)"
  define b2 where "b2 = b1\<lparr>conversation_history := (conversation_history b1)
      (?u := deque_append (conversation_history b1 ?u) ?t)\<rparr>"
  have hist: "last (conversation_history b2 ?u) = ?t"
    by (simp add: b2_def last_deque_append)
  have run: "answer_message b m now rnd =
      (if starts_with keyword (py_lower ?t) then
         (case process_learn_command b2 ?t (rnd 0) of
            (b3, response) \<Rightarrow> (b3, Inr (Some response)))
       else
         (case generate_response b2 ?t ?u rnd of
            Inl e \<Rightarrow> (b2, Inl e)
          | Inr response \<Rightarrow> (b2, Inr (Some response))))"
    using False unfolding answer_message_def b2_def b1_def by (simp add: Let_def)
  show ?thesis
  proof (cases "starts_with keyword (py_lower ?t)")
    case True
    with run have "answer_message b m now rnd =
         (fst (process_learn_command b2 ?t (rnd 0)),
          Inr (Some (snd (process_learn_command b2 ?t (rnd 0)))))"
      by (simp add: case_prod_beta)
    with hist show ?thesis by (rule learn)
  next
    case False
    with run have "answer_message b m now rnd =
         (b2, case generate_response b2 ?t ?u rnd of
                Inl e \<Rightarrow> Inl e | Inr response \<Rightarrow> Inr (Some response))"
      by (simp split: sum.splits)
    with hist show ?thesis by (rule respond)
  qed
qed

lemma answer_message_never_thanks:
  "snd (answer_message b m now rnd) \<noteq> Inr (Some (ContextThanks k))"
proof -
  let ?t = "py_strip (msg_text m)"
  let ?u = "from_user_id m"
  have learn: "snd (process_learn_command b' ?t r) \<noteq> ContextThanks k" for b' r
    by (auto simp: process_learn_command_def Let_def split: option.splits prod.splits)
  have resp: "generate_response b' ?t ?u rnd \<noteq> Inr (ContextThanks k)"
    if "last (conversation_history b' ?u) = ?t" for b'
  proof (cases "first_match 0 response_patterns (py_lower ?t)")
    case None
    with cue_stops_at_patterns [of "py_lower ?t"]
    have "\<not> list_ex (\<lambda>q. py_in q (py_lower ?t)) cue_words"
      by blast
    then show ?thesis
      using that None
      by (auto simp: generate_response_def generate_context_response_def
          generate_random_response_def Let_def split: option.splits)
  next
    case (Some r)
    then show ?thesis
      by (auto simp: generate_response_def Let_def split: option.splits prod.splits)
  qed
  show ?thesis
  proof (cases rule: answer_message_cases [where b = b and m = m and now = now and rnd = rnd])
    case empty
    then show ?thesis by simp
  next
    case (learn b2)
    then show ?thesis using \<open>\<And>r b'. snd (process_learn_command b' ?t r) \<noteq> ContextThanks k\<close>
      by simp
  next
    case (respond b2)
    with resp [of b2] show ?thesis
      by (auto split: sum.splits)
  qed
qed

lemma handle_message_parts:
  "fst (handle_message use_postgres d b m now rnd) = fst (answer_message b m now rnd)"
  "fst (snd (snd (handle_message use_postgres d b m now rnd))) = snd (answer_message b m now rnd)"
  by (auto simp: handle_message_def split: prod.splits sum.splits option.splits)

lemma handle_message_never_thanks:
  "fst (snd (snd (handle_message use_postgres d b m now rnd))) \<noteq> Inr (Some (ContextThanks k))"
  by (simp add: handle_message_parts answer_message_never_thanks)

lemma handle_message_tenth:
  assumes "answer_message b m now rnd = (b', Inr (Some response))"
    and "total_messages (stats b') mod 10 = 0"
  shows "handle_message use_postgres d b m now rnd =
      (b', d, Inr (Some response), Some (if use_postgres then DataError else AttributeError))"
  using assms by (simp add: handle_message_def save_all_data_raises)

lemma handle_message_between:
  assumes "answer_message b m now rnd = (b', r)"
    and "total_messages (stats b') mod 10 \<noteq> 0"
  shows "handle_message use_postgres d b m now rnd = (b', d, r, None)"
  using assms by (simp add: handle_message_def split: sum.splits option.splits)

lemma answer_message_history:
  assumes "py_strip (msg_text m) \<noteq> []" "\<not> starts_with keyword (py_lower (py_strip (msg_text m)))"
  shows "conversation_history (fst (answer_message b m now rnd)) (from_user_id m)
      = deque_append (conversation_history b (from_user_id m)) (py_strip (msg_text m))"
    and "learned_responses (fst (answer_message b m now rnd)) = learned_responses b"
  using assms
  by (auto simp: answer_message_def Let_def split: option.splits sum.splits)

lemma chat_texts:
  "py_strip (msg_text (chat_msg kak_dela)) = kak_dela"
  "py_strip (msg_text (chat_msg nu_ladno)) = nu_ladno"
  "kak_dela \<noteq> []" "nu_ladno \<noteq> []"
  "py_lower kak_dela = kak_dela" "py_lower nu_ladno = nu_ladno"
  "\<not> starts_with keyword kak_dela" "\<not> starts_with keyword nu_ladno"
  "from_user_id (chat_msg s) = 7"
  by (simp_all add: chat_msg_def kak_dela_def nu_ladno_def py_strip_def is_space_def text_eval keyword_def)

lemma conv_bot1_state:
  "conversation_history conv_bot1 7 = [kak_dela]" "learned_responses conv_bot1 = Map.empty"
  using answer_message_history [of "chat_msg kak_dela" "init_bot []" 100 "\<lambda>_. 0"]
  by (simp_all add: conv_bot1_def handle_message_parts chat_texts init_bot_def deque_append_def)

lemma conv_bot2_state:
  "conversation_history conv_bot2 7 = [kak_dela, nu_ladno]" "learned_responses conv_bot2 = Map.empty"
  using answer_message_history [of "chat_msg nu_ladno" conv_bot1 200 "\<lambda>_. 0"]
  by (simp_all add: conv_bot2_def handle_message_parts chat_texts conv_bot1_state deque_append_def)

lemma answer_message_total:
  "py_strip (msg_text m) \<noteq> [] \<Longrightarrow>
   total_messages (stats (fst (answer_message b m now rnd))) = total_messages (stats b) + 1"
  by (auto simp: answer_message_def count_message_def process_learn_command_def Let_def
      split: option.splits sum.splits prod.splits)

lemma conv_bot_totals:
  "total_messages (stats conv_bot1) = 1" "total_messages (stats conv_bot2) = 2"
proof -
  show one: "total_messages (stats conv_bot1) = 1"
    using answer_message_total [of "chat_msg kak_dela" "init_bot []" 100 "\<lambda>_. 0"]
    by (simp add: conv_bot1_def handle_message_parts chat_texts init_bot_def)
  show "total_messages (stats conv_bot2) = 2"
    using answer_message_total [of "chat_msg nu_ladno" conv_bot1 200 "\<lambda>_. 0"] one
    by (simp add: conv_bot2_def handle_message_parts chat_texts)
qed

lemma nu_ladno_no_pattern: "first_match 0 response_patterns nu_ladno = None"
  by (simp add: response_patterns_def nu_ladno_def ci_eq_small)

text \<open>
  C3 (the code departs from the claim). The claim: the context stage answers with the
  canned reply when the message stored before the current one holds a cue (or the current
  message is a question with a question word). The code reads the cue from \<open>history[-1]\<close>,
  which is the current message, appended by \<open>handle_message\<close> just before. Evaluated: user
  7 writes "kak dela" and then "nu ladno". When the second message is answered the history
  is the two messages, the one before the current message holds the cue "kak dela", and
  the context stage gives no reply: the answer is the neutral fallback (the second message
  counted is no tenth message, so nothing is saved after the reply).
\<close>

theorem context_stage_reads_current_message:
  "conversation_history conv_bot2 7 = [kak_dela, nu_ladno]
   \<and> list_ex (\<lambda>q. py_in q (py_lower kak_dela)) cue_words
   \<and> generate_context_response conv_bot2 nu_ladno 7 rnd = None
   \<and> handle_message True empty_db conv_bot1 (chat_msg nu_ladno) 200 (\<lambda>_. 0)
       = (conv_bot2, empty_db, Inr (Some (RandomReply Neutral (Some 0) 0)), None)"
proof -
  have cue: "list_ex (\<lambda>q. py_in q (py_lower kak_dela)) cue_words"
    by (simp add: chat_texts) (simp add: cue_words_def kak_dela_def)
  have no_cue: "\<not> list_ex (\<lambda>q. py_in q nu_ladno) cue_words"
    by (simp add: cue_words_def nu_ladno_def)
  have no_question: "\<not> py_in [63] nu_ladno"
    by (simp add: nu_ladno_def)
  have stage: "generate_context_response conv_bot2 nu_ladno 7 r = None" for r
    using no_cue no_question
    by (simp add: generate_context_response_def conv_bot2_state chat_texts Let_def)
  have fallback: "generate_random_response nu_ladno (\<lambda>_. 0) = RandomReply Neutral (Some 0) 0"
    by (simp add: generate_random_response_def chat_texts Let_def)
      (simp add: mood_keywords_def nu_ladno_def)
  have response: "generate_response conv_bot2 nu_ladno 7 (\<lambda>_. 0)
      = Inr (RandomReply Neutral (Some 0) 0)"
    by (simp add: generate_response_def chat_texts conv_bot2_state nu_ladno_no_pattern stage
        fallback Let_def)
  have bot2: "conv_bot2 = fst (answer_message conv_bot1 (chat_msg nu_ladno) 200 (\<lambda>_. 0))"
    by (simp add: conv_bot2_def handle_message_parts)
  have "answer_message conv_bot1 (chat_msg nu_ladno) 200 (\<lambda>_. 0)
      = (conv_bot2, case generate_response conv_bot2 nu_ladno 7 (\<lambda>_. 0) of
           Inl e \<Rightarrow> Inl e | Inr response \<Rightarrow> Inr (Some response))"
    unfolding bot2
    by (simp add: answer_message_def chat_texts Let_def split: option.splits sum.splits)
  then have answer: "answer_message conv_bot1 (chat_msg nu_ladno) 200 (\<lambda>_. 0)
      = (conv_bot2, Inr (Some (RandomReply Neutral (Some 0) 0)))"
    by (simp add: response)
  have "handle_message True empty_db conv_bot1 (chat_msg nu_ladno) 200 (\<lambda>_. 0)
       = (conv_bot2, empty_db, Inr (Some (RandomReply Neutral (Some 0) 0)), None)"
    by (rule handle_message_between [OF answer]) (simp add: conv_bot_totals)
  then show ?thesis
    using cue stage conv_bot2_state(1) by simp
qed
end
